theory Spec2Isabelle
  imports Complex_Main
begin

section \<open>Inference and validation of a feed-forward classifier\<close>

text \<open>
  The development embeds the notebook \<^verbatim>\<open>Part 5 - Inference and Validation\<close>: the two
  \<^verbatim>\<open>Classifier\<close> modules (the baseline of cell 3 and the dropout variant of cell 16) and
  the two train/validate loops (cells 13 and 17).

  Tensor elements are exact reals: rounding of 32-bit floating point numbers is outside
  the embedding. The notebook is glue around framework operations (\<^verbatim>\<open>view\<close>,
  \<^verbatim>\<open>nn.Linear\<close>, \<^verbatim>\<open>F.relu\<close>, \<^verbatim>\<open>F.log_softmax\<close>, \<^verbatim>\<open>nn.Dropout\<close>, \<^verbatim>\<open>nn.NLLLoss\<close>,
  \<^verbatim>\<open>topk\<close>, \<^verbatim>\<open>DataLoader\<close>, the random generator) whose code is not part of it. Each of
  them is written out here as the specification describes it, and its definition says
  so; automatic differentiation and the Adam update are a parameter of the loops.
  The datasets are taken as they come out of the transform of cell 1. The variables
  \<^verbatim>\<open>steps\<close>, \<^verbatim>\<open>train_losses\<close> and \<^verbatim>\<open>test_losses\<close> of cells 13 and 17 are never read and
  are left out.
\<close>

subsection \<open>Errors\<close>

datatype error = IndexError | RuntimeError | ValueError | ZeroDivisionError

definition and_then :: "error + 'a \<Rightarrow> ('a \<Rightarrow> error + 'b) \<Rightarrow> error + 'b" where
  "and_then r f = (case r of Inl e \<Rightarrow> Inl e | Inr v \<Rightarrow> f v)"

subsection \<open>Tensors\<close>

text \<open>
  A tensor is its shape and its elements in row-major order, as a contiguous
  \<^verbatim>\<open>torch.Tensor\<close> stores them.
\<close>

record tensor =
  shape :: "nat list"
  data :: "real list"

definition numel :: "tensor \<Rightarrow> nat" where
  "numel t = prod_list (shape t)"

definition wf_tensor :: "tensor \<Rightarrow> bool" where
  "wf_tensor t = (length (data t) = numel t)"

text \<open>
  Modelled from the spec: \<^verbatim>\<open>Tensor.view\<close> is a framework operation (section 4.1: the
  input is reshaped to \<open>B \<times> N\<close>; section 7: a shape mismatch is a fatal error).
  \<^verbatim>\<open>x.view(b, -1)\<close> keeps the elements and infers the second dimension from their number.
  It raises when \<open>b\<close> is zero (the inferred dimension is ambiguous or the shape is
  invalid) and when \<open>b\<close> does not divide the number of elements.
\<close>

definition view_rows :: "tensor \<Rightarrow> nat \<Rightarrow> error + tensor" where
  "view_rows x b =
     (if b = 0 \<or> numel x mod b \<noteq> 0 then Inl RuntimeError
      else Inr \<lparr>shape = [b, numel x div b], data = data x\<rparr>)"

text \<open>The rows of a two-dimensional tensor.\<close>

definition rows_of :: "tensor \<Rightarrow> real list list" where
  "rows_of t =
     (case shape t of
        [b, n] \<Rightarrow> map (\<lambda>i. take n (drop (i * n) (data t))) [0..<b]
      | _ \<Rightarrow> [])"

text \<open>
  \<^verbatim>\<open>x = x.view(x.shape[0], -1)\<close>, the first statement of both \<^verbatim>\<open>forward\<close> methods.
  \<^verbatim>\<open>x.shape[0]\<close> of a zero-dimensional tensor raises \<^verbatim>\<open>IndexError\<close>.
\<close>

definition flatten_input :: "tensor \<Rightarrow> error + real list list" where
  "flatten_input x =
     (case shape x of
        [] \<Rightarrow> Inl IndexError
      | b # _ \<Rightarrow> and_then (view_rows x b) (\<lambda>x'. Inr (rows_of x')))"

subsection \<open>The random generator\<close>

text \<open>
  Modelled from the spec: the global random generator of the framework, from which
  parameter initialisation, the shuffling of a \<^verbatim>\<open>DataLoader\<close> (section 6: optionally
  shuffled per traversal) and the masks of \<^verbatim>\<open>nn.Dropout\<close> (section 3) all draw. It is an
  oracle: a counter of draws and, for every draw, the values that draw returns.
\<close>

record rng =
  tick :: nat
  uniform_src :: "nat \<Rightarrow> nat \<Rightarrow> real"
  perm_src :: "nat \<Rightarrow> nat \<Rightarrow> nat list"
  keep_src :: "nat \<Rightarrow> nat \<Rightarrow> nat \<Rightarrow> bool"

definition advance :: "rng \<Rightarrow> rng" where
  "advance g = g\<lparr>tick := Suc (tick g)\<rparr>"

definition randperm :: "nat \<Rightarrow> rng \<Rightarrow> nat list \<times> rng" where
  "randperm n g = (perm_src g (tick g) n, advance g)"

text \<open>The generator is sound when every \<^verbatim>\<open>randperm(n)\<close> is a permutation of \<open>0..<n\<close>.\<close>

definition rng_ok :: "rng \<Rightarrow> bool" where
  "rng_ok g = (\<forall>t n. distinct (perm_src g t n) \<and> set (perm_src g t n) = {0..<n})"

subsection \<open>Layers\<close>

text \<open>
  Modelled from the spec: \<^verbatim>\<open>nn.Linear\<close> is a framework module (section 3: the weight
  and bias values of an affine transformation; section 4.1: affine(N \<open>\<rightarrow>\<close> 256) and so on).
  \<^verbatim>\<open>nn.Linear(in_features, out_features)\<close> has a weight of shape
  \<open>out_features \<times> in_features\<close> and a bias of length \<open>out_features\<close>, both drawn from the
  generator when the layer is constructed.
\<close>

record linear =
  in_features :: nat
  out_features :: nat
  weight :: "real list list"
  bias :: "real list"

definition Linear :: "nat \<Rightarrow> nat \<Rightarrow> rng \<Rightarrow> linear \<times> rng" where
  "Linear n_in n_out g =
     (let w = map (\<lambda>i. map (\<lambda>j. uniform_src g (tick g) (i * n_in + j)) [0..<n_in]) [0..<n_out];
          g1 = advance g;
          b = map (\<lambda>i. uniform_src g1 (tick g1) i) [0..<n_out]
      in (\<lparr>in_features = n_in, out_features = n_out, weight = w, bias = b\<rparr>, advance g1))"

definition wf_linear :: "nat \<Rightarrow> nat \<Rightarrow> linear \<Rightarrow> bool" where
  "wf_linear n_in n_out l =
     (in_features l = n_in \<and> out_features l = n_out \<and> length (weight l) = n_out \<and>
      list_all (\<lambda>w. length w = n_in) (weight l) \<and> length (bias l) = n_out)"

definition dot :: "real list \<Rightarrow> real list \<Rightarrow> real" where
  "dot w x = sum_list (map2 (*) w x)"

text \<open>One row of \<^verbatim>\<open>F.linear\<close>: \<open>x W\<^sup>T + b\<close>.\<close>

definition affine_row :: "linear \<Rightarrow> real list \<Rightarrow> real list" where
  "affine_row l x = map2 (\<lambda>w b. dot w x + b) (weight l) (bias l)"

text \<open>
  The layer applied to a batch. The framework raises when the row length of the input is
  not \<^verbatim>\<open>in_features\<close>.
\<close>

definition linear_fwd :: "linear \<Rightarrow> real list list \<Rightarrow> error + real list list" where
  "linear_fwd l xs =
     (if list_all (\<lambda>x. length x = in_features l) xs then Inr (map (affine_row l) xs)
      else Inl RuntimeError)"

text \<open>
  Modelled from the spec: \<^verbatim>\<open>F.relu\<close> is a framework operation (section 4.1: the
  nonlinearity clips negative values to zero).
\<close>

definition relu :: "real list list \<Rightarrow> real list list" where
  "relu xs = map (map (max 0)) xs"

text \<open>
  Modelled from the spec: \<^verbatim>\<open>F.log_softmax\<close> is a framework operation (section 4.1:
  log-normalisation to the probability simplex along the class dimension; glossary: the
  natural logarithm of a class probability). With \<^verbatim>\<open>dim=1\<close> every row is normalised on
  its own, entry \<open>i\<close> becoming \<open>ln (exp x\<^sub>i / \<Sum>\<^sub>j exp x\<^sub>j)\<close>. Over the reals the
  numerically stable formulation computes the same value.
\<close>

definition log_softmax_row :: "real list \<Rightarrow> real list" where
  "log_softmax_row row = map (\<lambda>v. ln (exp v / sum_list (map exp row))) row"

definition log_softmax :: "real list list \<Rightarrow> real list list" where
  "log_softmax xs = map log_softmax_row xs"

text \<open>
  Modelled from the spec: \<^verbatim>\<open>nn.Dropout\<close> is a framework module (section 3: in training
  mode each output is zeroed with probability \<open>p\<close> and the surviving outputs are rescaled
  by \<open>1 / (1 - p)\<close>; in evaluation mode dropout is the identity). In training mode one
  draw of the generator decides for every entry whether it is kept; in evaluation mode
  nothing is drawn.
\<close>

record dropout_module =
  drop_p :: real

definition Dropout :: "real \<Rightarrow> dropout_module" where
  "Dropout q = \<lparr>drop_p = q\<rparr>"

definition drop_row :: "real \<Rightarrow> (nat \<Rightarrow> bool) \<Rightarrow> real list \<Rightarrow> real list" where
  "drop_row q keep row =
     map (\<lambda>(j, v). if keep j then v / (1 - q) else 0) (enumerate 0 row)"

definition dropout_fwd ::
  "dropout_module \<Rightarrow> bool \<Rightarrow> rng \<Rightarrow> real list list \<Rightarrow> real list list \<times> rng" where
  "dropout_fwd d train g xs =
     (if train
      then (map (\<lambda>(i, row). drop_row (drop_p d) (keep_src g (tick g) i) row) (enumerate 0 xs),
            advance g)
      else (xs, g))"

subsection \<open>The two classifiers\<close>

text \<open>
  Cell 3: four linear layers. \<open>training\<close> is the mode flag every \<^verbatim>\<open>nn.Module\<close> carries;
  a module is constructed in training mode.
\<close>

record classifier =
  fc1 :: linear
  fc2 :: linear
  fc3 :: linear
  fc4 :: linear
  training :: bool

text \<open>Cell 16: the same layers and a dropout module.\<close>

record classifier_dropout = classifier +
  dropout :: dropout_module

definition Classifier :: "rng \<Rightarrow> classifier \<times> rng" where
  "Classifier g =
     (let (l1, g1) = Linear 784 256 g;
          (l2, g2) = Linear 256 128 g1;
          (l3, g3) = Linear 128 64 g2;
          (l4, g4) = Linear 64 10 g3
      in (\<lparr>fc1 = l1, fc2 = l2, fc3 = l3, fc4 = l4, training = True\<rparr>, g4))"

definition Classifier_dropout :: "rng \<Rightarrow> classifier_dropout \<times> rng" where
  "Classifier_dropout g =
     (let (l1, g1) = Linear 784 256 g;
          (l2, g2) = Linear 256 128 g1;
          (l3, g3) = Linear 128 64 g2;
          (l4, g4) = Linear 64 10 g3
      in (\<lparr>fc1 = l1, fc2 = l2, fc3 = l3, fc4 = l4, training = True,
           dropout = Dropout (2 / 10)\<rparr>, g4))"

text \<open>\<^verbatim>\<open>model.train()\<close> and \<^verbatim>\<open>model.eval()\<close>.\<close>

definition train_mode :: "'z classifier_scheme \<Rightarrow> 'z classifier_scheme" where
  "train_mode m = m\<lparr>training := True\<rparr>"

definition eval_mode :: "'z classifier_scheme \<Rightarrow> 'z classifier_scheme" where
  "eval_mode m = m\<lparr>training := False\<rparr>"

text \<open>\<^verbatim>\<open>Classifier.forward\<close> of cell 3.\<close>

definition forward_baseline :: "'z classifier_scheme \<Rightarrow> tensor \<Rightarrow> error + real list list" where
  "forward_baseline m x =
     and_then (flatten_input x) (\<lambda>x0.
     and_then (linear_fwd (fc1 m) x0) (\<lambda>a1. let x1 = relu a1 in
     and_then (linear_fwd (fc2 m) x1) (\<lambda>a2. let x2 = relu a2 in
     and_then (linear_fwd (fc3 m) x2) (\<lambda>a3. let x3 = relu a3 in
     and_then (linear_fwd (fc4 m) x3) (\<lambda>a4.
     Inr (log_softmax a4))))))"

text \<open>\<^verbatim>\<open>Classifier.forward\<close> of cell 16.\<close>

definition forward_dropout ::
  "classifier_dropout \<Rightarrow> rng \<Rightarrow> tensor \<Rightarrow> error + (real list list \<times> rng)" where
  "forward_dropout m g x =
     and_then (flatten_input x) (\<lambda>x0.
     and_then (linear_fwd (fc1 m) x0) (\<lambda>a1. let x1 = relu a1 in
     let (x1, g1) = dropout_fwd (dropout m) (training m) g x1 in
     and_then (linear_fwd (fc2 m) x1) (\<lambda>a2. let x2 = relu a2 in
     let (x2, g2) = dropout_fwd (dropout m) (training m) g1 x2 in
     and_then (linear_fwd (fc3 m) x2) (\<lambda>a3. let x3 = relu a3 in
     let (x3, g3) = dropout_fwd (dropout m) (training m) g2 x3 in
     and_then (linear_fwd (fc4 m) x3) (\<lambda>a4.
     Inr (log_softmax a4, g3))))))"


text \<open>
  \<^verbatim>\<open>model(images)\<close> for the baseline module inside the loops: the call draws nothing from
  the generator.
\<close>

definition call_baseline ::
  "'z classifier_scheme \<Rightarrow> rng \<Rightarrow> tensor \<Rightarrow> error + (real list list \<times> rng)" where
  "call_baseline m g x = and_then (forward_baseline m x) (\<lambda>out. Inr (out, g))"

text \<open>The layers have the sizes the constructors give them.\<close>

definition wf_classifier :: "'z classifier_scheme \<Rightarrow> bool" where
  "wf_classifier m =
     (wf_linear 784 256 (fc1 m) \<and> wf_linear 256 128 (fc2 m) \<and>
      wf_linear 128 64 (fc3 m) \<and> wf_linear 64 10 (fc4 m))"

definition is_matrix :: "nat \<Rightarrow> nat \<Rightarrow> real list list \<Rightarrow> bool" where
  "is_matrix b n xs = (length xs = b \<and> list_all (\<lambda>r. length r = n) xs)"

subsection \<open>The pipeline as the specification describes it\<close>

text \<open>
  The specification gives the forward computation as a sequence of stages: affine,
  rectification, optional dropout, ..., affine, log-normalisation. The sequence is
  written down as data and run by an interpreter, to be compared with the two
  \<^verbatim>\<open>forward\<close> methods.
\<close>

datatype stage = Affine linear | Rectify | Drop real | LogNormalize

fun run_stage ::
  "bool \<Rightarrow> stage \<Rightarrow> real list list \<times> rng \<Rightarrow> error + (real list list \<times> rng)" where
  "run_stage tr (Affine l) (xs, g) = and_then (linear_fwd l xs) (\<lambda>ys. Inr (ys, g))"
| "run_stage tr Rectify (xs, g) = Inr (relu xs, g)"
| "run_stage tr (Drop q) (xs, g) = Inr (dropout_fwd (Dropout q) tr g xs)"
| "run_stage tr LogNormalize (xs, g) = Inr (log_softmax xs, g)"

fun run_pipeline ::
  "bool \<Rightarrow> stage list \<Rightarrow> real list list \<times> rng \<Rightarrow> error + (real list list \<times> rng)" where
  "run_pipeline tr [] v = Inr v"
| "run_pipeline tr (st # sts) v = and_then (run_stage tr st v) (run_pipeline tr sts)"

definition spec_pipeline :: "'z classifier_scheme \<Rightarrow> real option \<Rightarrow> stage list" where
  "spec_pipeline m q =
     (let d = (case q of None \<Rightarrow> [] | Some r \<Rightarrow> [Drop r])
      in [Affine (fc1 m), Rectify] @ d @ [Affine (fc2 m), Rectify] @ d @
         [Affine (fc3 m), Rectify] @ d @ [Affine (fc4 m), LogNormalize])"

subsection \<open>Loss and top-1 prediction\<close>

text \<open>
  Modelled from the spec: \<^verbatim>\<open>nn.NLLLoss\<close> is a framework module (glossary: the loss of a
  single prediction is the negated log-probability the model assigned to the true class;
  section 3: a label is one of a fixed finite set of classes). With its default reduction
  the loss of a batch is the mean over its samples. It raises when the batch sizes differ
  and when a label is not a class index. Labels are class indices, so natural numbers.
\<close>

definition NLLLoss :: "real list list \<Rightarrow> nat list \<Rightarrow> error + real" where
  "NLLLoss log_ps labels =
     (if length log_ps \<noteq> length labels then Inl ValueError
      else if list_ex (\<lambda>(row, t). length row \<le> t) (zip log_ps labels) then Inl IndexError
      else Inr (sum_list (map (\<lambda>(row, t). - (row ! t)) (zip log_ps labels))
                / real (length labels)))"

text \<open>
  Modelled from the spec: \<^verbatim>\<open>Tensor.topk\<close> is a framework operation whose code is not part
  of the notebook. Section 4.2 of the specification describes the top-1 choice as the
  single highest-probability class, the first index attaining the maximum on a tie. The
  scan keeps the best entry so far and replaces it only by a strictly larger one.
\<close>

fun argmax_from :: "real \<Rightarrow> nat \<Rightarrow> nat \<Rightarrow> real list \<Rightarrow> real \<times> nat" where
  "argmax_from bv bi i [] = (bv, bi)"
| "argmax_from bv bi i (v # vs) =
     (if bv < v then argmax_from v i (Suc i) vs else argmax_from bv bi (Suc i) vs)"

definition top1 :: "real list \<Rightarrow> real \<times> nat" where
  "top1 row = (case row of [] \<Rightarrow> (0, 0) | v # vs \<Rightarrow> argmax_from v 0 1 vs)"

text \<open>
  \<^verbatim>\<open>log_ps.topk(1, dim = 1)\<close>: the top value and the top class of every row; the operation
  raises when the rows are empty.
\<close>

definition topk1 :: "real list list \<Rightarrow> error + (real list \<times> nat list)" where
  "topk1 xs =
     (if list_ex (\<lambda>row. row = []) xs then Inl RuntimeError
      else Inr (map (fst \<circ> top1) xs, map (snd \<circ> top1) xs))"

text \<open>
  \<^verbatim>\<open>top_class == labels.view(B, 1)\<close>, where \<open>(B, 1)\<close> is the shape of \<^verbatim>\<open>top_class\<close>: the view
  raises when the number of labels is not the number of rows.
\<close>

definition equals :: "nat list \<Rightarrow> nat list \<Rightarrow> error + bool list" where
  "equals top_cls labels =
     (if length labels \<noteq> length top_cls then Inl RuntimeError
      else Inr (map2 (=) top_cls labels))"

text \<open>\<^verbatim>\<open>torch.sum(equals.type(torch.FloatTensor))\<close>.\<close>

definition count_true :: "bool list \<Rightarrow> real" where
  "count_true eqs = real (length (filter id eqs))"

subsection \<open>Datasets and loaders\<close>

record sample =
  image :: tensor
  label :: nat

record loader =
  dataset :: "sample list"
  batch_size :: nat
  shuffle :: bool

text \<open>
  Modelled from the spec: \<^verbatim>\<open>DataLoader\<close> is a framework class (section 6: a partition is
  consumed as a sequence of fixed-size batches, optionally shuffled per traversal;
  section 3: the last batch of an epoch may be smaller). In cell 1 both loaders have
  batches of 64 samples and shuffle.
\<close>

definition DataLoader :: "sample list \<Rightarrow> loader" where
  "DataLoader ds = \<lparr>dataset = ds, batch_size = 64, shuffle = True\<rparr>"

definition chunks :: "nat \<Rightarrow> 'a list \<Rightarrow> 'a list list" where
  "chunks n xs = map (\<lambda>k. take n (drop (k * n) xs)) [0..<(length xs + n - 1) div n]"

text \<open>\<^verbatim>\<open>len(loader)\<close>: the number of batches; the last batch may be smaller.\<close>

definition len_loader :: "loader \<Rightarrow> nat" where
  "len_loader l = (length (dataset l) + batch_size l - 1) div batch_size l"

text \<open>
  \<^verbatim>\<open>iter(loader)\<close>: the order of the samples is drawn (a permutation when the loader
  shuffles) and cut into batches of indices.
\<close>

definition batch_indices :: "loader \<Rightarrow> rng \<Rightarrow> nat list list \<times> rng" where
  "batch_indices l g =
     (let n = length (dataset l);
          (order, g') = (if shuffle l then randperm n g else ([0..<n], g))
      in (chunks (batch_size l) order, g'))"

text \<open>
  Stacking the samples of one batch: the images along a new first dimension, the labels
  into a list. Stacking raises when the shapes of the images differ.
\<close>

definition collate :: "sample list \<Rightarrow> error + (tensor \<times> nat list)" where
  "collate smps =
     (case smps of
        [] \<Rightarrow> Inl RuntimeError
      | s0 # rest \<Rightarrow>
          if list_all (\<lambda>t. shape (image t) = shape (image s0)) rest
          then Inr (\<lparr>shape = length smps # shape (image s0),
                     data = concat (map (\<lambda>t. data (image t)) smps)\<rparr>,
                    map label smps)
          else Inl RuntimeError)"

text \<open>The next batch of the iteration is fetched when the loop asks for it.\<close>

definition next_batch :: "loader \<Rightarrow> nat list \<Rightarrow> error + (tensor \<times> nat list)" where
  "next_batch l idx =
     (if list_all (\<lambda>i. i < length (dataset l)) idx
      then collate (map (\<lambda>i. dataset l ! i) idx)
      else Inl IndexError)"

subsection \<open>Loops\<close>

text \<open>
  A \<^verbatim>\<open>for\<close> statement runs its body on every element in turn. The body ends normally
  or by \<^verbatim>\<open>break\<close>; an error ends the whole run. The \<^verbatim>\<open>else\<close> clause of a \<^verbatim>\<open>for\<close>
  statement runs only when the loop was not left by \<^verbatim>\<open>break\<close>.
\<close>

datatype 's flow = Normal 's | Break 's

fun for_stmt :: "('s \<Rightarrow> 'a \<Rightarrow> error + 's flow) \<Rightarrow> 'a list \<Rightarrow> 's \<Rightarrow> error + 's flow" where
  "for_stmt body [] s = Inr (Normal s)"
| "for_stmt body (x # xs) s =
     (case body s x of
        Inl e \<Rightarrow> Inl e
      | Inr (Break s') \<Rightarrow> Inr (Break s')
      | Inr (Normal s') \<Rightarrow> for_stmt body xs s')"

definition for_else ::
  "('s \<Rightarrow> 'a \<Rightarrow> error + 's flow) \<Rightarrow> ('s \<Rightarrow> error + 's) \<Rightarrow> 'a list \<Rightarrow> 's \<Rightarrow> error + 's" where
  "for_else body els xs s =
     (case for_stmt body xs s of
        Inl e \<Rightarrow> Inl e
      | Inr (Break s') \<Rightarrow> Inr s'
      | Inr (Normal s') \<Rightarrow> els s')"

text \<open>The same loop with the code of the \<^verbatim>\<open>else\<close> clause placed after it.\<close>

definition for_then ::
  "('s \<Rightarrow> 'a \<Rightarrow> error + 's flow) \<Rightarrow> ('s \<Rightarrow> error + 's) \<Rightarrow> 'a list \<Rightarrow> 's \<Rightarrow> error + 's" where
  "for_then body rest xs s =
     (case for_stmt body xs s of
        Inl e \<Rightarrow> Inl e
      | Inr (Break s') \<Rightarrow> rest s'
      | Inr (Normal s') \<Rightarrow> rest s')"

text \<open>The states in which the body of a loop is entered, in order.\<close>

fun pre_states :: "('s \<Rightarrow> 'a \<Rightarrow> error + 's flow) \<Rightarrow> 'a list \<Rightarrow> 's \<Rightarrow> 's list" where
  "pre_states body [] s = []"
| "pre_states body (x # xs) s =
     s # (case body s x of Inr (Normal s') \<Rightarrow> pre_states body xs s' | _ \<Rightarrow> [])"

subsection \<open>The state of a training run\<close>

text \<open>One line of console output: the numbers it prints, before they are formatted.\<close>

record report =
  epoch :: nat
  epochs :: nat
  training_loss :: real
  test_loss :: real
  accuracy_percent :: real

record ('m, 'o) state =
  model :: 'm
  optimizer :: 'o
  generator :: rng
  running_loss :: real
  testing_loss :: real
  accuracy :: real
  stdout :: "report list"

type_synonym parameters = "linear \<times> linear \<times> linear \<times> linear"

definition parameters :: "'z classifier_scheme \<Rightarrow> parameters" where
  "parameters m = (fc1 m, fc2 m, fc3 m, fc4 m)"

definition set_parameters :: "'z classifier_scheme \<Rightarrow> parameters \<Rightarrow> 'z classifier_scheme" where
  "set_parameters m ps =
     (case ps of (l1, l2, l3, l4) \<Rightarrow> m\<lparr>fc1 := l1, fc2 := l2, fc3 := l3, fc4 := l4\<rparr>)"

text \<open>
  The body of the training loop, the same text in cells 13 and 17. \<open>fwd\<close> is the call
  \<^verbatim>\<open>model(images)\<close>. Reverse-mode differentiation and the Adam update are framework
  code (section 1 of the specification: out of scope as an external collaborator), so
  they are the parameter \<open>step\<close>, which stands for \<^verbatim>\<open>optimizer.zero_grad()\<close>,
  \<^verbatim>\<open>loss.backward()\<close> and \<^verbatim>\<open>optimizer.step()\<close> together: from the state of the optimizer,
  the model, the generator the forward pass started from, and the batch, it gives the new
  parameters and the new state of the optimizer. It cannot change the mode of the model.
\<close>

definition train_body ::
  "('z classifier_scheme \<Rightarrow> rng \<Rightarrow> tensor \<Rightarrow> error + (real list list \<times> rng)) \<Rightarrow>
   ('o \<Rightarrow> 'z classifier_scheme \<Rightarrow> rng \<Rightarrow> tensor \<Rightarrow> nat list \<Rightarrow> parameters \<times> 'o) \<Rightarrow>
   ('z classifier_scheme, 'o) state \<Rightarrow> tensor \<times> nat list \<Rightarrow>
   error + ('z classifier_scheme, 'o) state flow" where
  "train_body fwd step s batch =
     (case batch of (images, labels) \<Rightarrow>
        and_then (fwd (model s) (generator s) images) (\<lambda>(log_ps, g').
        and_then (NLLLoss log_ps labels) (\<lambda>loss.
        let (ps, opt') = step (optimizer s) (model s) (generator s) images labels
        in Inr (Normal (s\<lparr>model := set_parameters (model s) ps, optimizer := opt',
                          generator := g', running_loss := running_loss s + loss\<rparr>)))))"

text \<open>The body of the validation loop, the same text in cells 13 and 17.\<close>

definition valid_body ::
  "('m \<Rightarrow> rng \<Rightarrow> tensor \<Rightarrow> error + (real list list \<times> rng)) \<Rightarrow>
   ('m, 'o) state \<Rightarrow> tensor \<times> nat list \<Rightarrow> error + ('m, 'o) state flow" where
  "valid_body fwd s batch =
     (case batch of (images, labels) \<Rightarrow>
        and_then (fwd (model s) (generator s) images) (\<lambda>(log_ps, g').
        and_then (NLLLoss log_ps labels) (\<lambda>loss.
        and_then (topk1 log_ps) (\<lambda>(top_val, top_cls).
        and_then (equals top_cls labels) (\<lambda>eqs.
        Inr (Normal (s\<lparr>generator := g', testing_loss := testing_loss s + loss,
                       accuracy := accuracy s + count_true eqs\<rparr>)))))))"

text \<open>One iteration: fetch the batch, run the body.\<close>

definition train_iter where
  "train_iter fwd step l s idx = and_then (next_batch l idx) (train_body fwd step s)"

definition valid_iter where
  "valid_iter fwd l s idx = and_then (next_batch l idx) (valid_body fwd s)"

text \<open>\<^verbatim>\<open>for images, labels in loader\<close> starts by drawing the order of the batches.\<close>

definition enter_loop ::
  "loader \<Rightarrow> ('m, 'o) state \<Rightarrow> nat list list \<times> ('m, 'o) state" where
  "enter_loop l s =
     (let (batches, g) = batch_indices l (generator s) in (batches, s\<lparr>generator := g\<rparr>))"

text \<open>
  The end of an epoch (the inner \<^verbatim>\<open>else\<close> clause of both cells): the three divisions
  and the printed line. The two losses are Python numbers, and Python raises on a division
  by \<^verbatim>\<open>len(...) = 0\<close>. The third divisor, the size of the held-out set, is not zero
  when the second is not (lemma \<open>len_loader_dataset\<close> below).
\<close>

definition report_epoch ::
  "loader \<Rightarrow> loader \<Rightarrow> nat \<Rightarrow> nat \<Rightarrow> ('m, 'o) state \<Rightarrow> error + ('m, 'o) state" where
  "report_epoch trainloader testloader n_epochs e s =
     (if len_loader trainloader = 0 then Inl ZeroDivisionError
      else let s = s\<lparr>running_loss := running_loss s / real (len_loader trainloader)\<rparr> in
      if len_loader testloader = 0 then Inl ZeroDivisionError
      else let s = s\<lparr>testing_loss := testing_loss s / real (len_loader testloader)\<rparr>;
               s = s\<lparr>accuracy := accuracy s / real (length (dataset testloader))\<rparr> in
      Inr (s\<lparr>stdout := stdout s @
             [\<lparr>epoch = e + 1, epochs = n_epochs, training_loss = running_loss s,
               test_loss = testing_loss s, accuracy_percent = accuracy s * 100\<rparr>]\<rparr>))"


subsection \<open>Cell 13: the baseline loop\<close>

text \<open>\<^verbatim>\<open>running_loss = 0\<close>.\<close>

definition begin_training_baseline :: "('m, 'o) state \<Rightarrow> ('m, 'o) state" where
  "begin_training_baseline s = s\<lparr>running_loss := 0\<rparr>"

text \<open>
  \<^verbatim>\<open>with torch.no_grad(): testing_loss = 0; accuracy = 0\<close>. Gradients are not part of the
  state, so \<^verbatim>\<open>no_grad\<close> changes nothing here.
\<close>

definition begin_validation_baseline :: "('m, 'o) state \<Rightarrow> ('m, 'o) state" where
  "begin_validation_baseline s = (s\<lparr>testing_loss := 0\<rparr>)\<lparr>accuracy := 0\<rparr>"

text \<open>The \<^verbatim>\<open>else\<close> clause of the training loop: the validation pass and the report.\<close>

definition validate_baseline where
  "validate_baseline trainloader testloader n_epochs e s =
     (let (batches, s1) = enter_loop testloader (begin_validation_baseline s)
      in for_else (valid_iter call_baseline testloader)
           (report_epoch trainloader testloader n_epochs e) batches s1)"

text \<open>The body of \<^verbatim>\<open>for e in range(epochs)\<close>.\<close>

definition epoch_baseline where
  "epoch_baseline step trainloader testloader n_epochs s e =
     (let (batches, s1) = enter_loop trainloader (begin_training_baseline s)
      in for_else (train_iter call_baseline step trainloader)
           (validate_baseline trainloader testloader n_epochs e) batches s1)"

definition train_baseline where
  "train_baseline step trainloader testloader n_epochs s =
     for_stmt (\<lambda>s e. and_then (epoch_baseline step trainloader testloader n_epochs s e)
                        (\<lambda>s'. Inr (Normal s')))
       [0..<n_epochs] s"

text \<open>
  The whole cell: \<^verbatim>\<open>model = Classifier()\<close>, the optimizer over its parameters, 30 epochs.
  The three running metrics are not bound before the first epoch binds them; the state
  starts them at zero.
\<close>

definition cell_13 where
  "cell_13 adam step trainloader testloader g =
     (let (m, g1) = Classifier g
      in train_baseline step trainloader testloader 30
           \<lparr>model = m, optimizer = adam (parameters m), generator = g1, running_loss = 0,
            testing_loss = 0, accuracy = 0, stdout = []\<rparr>)"

subsection \<open>Cell 17: the loop of the dropout variant\<close>

text \<open>\<^verbatim>\<open>model.train(); running_loss = 0\<close>.\<close>

definition begin_training_dropout ::
  "('z classifier_scheme, 'o) state \<Rightarrow> ('z classifier_scheme, 'o) state" where
  "begin_training_dropout s = (s\<lparr>model := train_mode (model s)\<rparr>)\<lparr>running_loss := 0\<rparr>"

text \<open>\<^verbatim>\<open>model.eval(); with torch.no_grad(): testing_loss = 0; accuracy = 0\<close>.\<close>

definition begin_validation_dropout ::
  "('z classifier_scheme, 'o) state \<Rightarrow> ('z classifier_scheme, 'o) state" where
  "begin_validation_dropout s =
     ((s\<lparr>model := eval_mode (model s)\<rparr>)\<lparr>testing_loss := 0\<rparr>)\<lparr>accuracy := 0\<rparr>"

definition validate_dropout where
  "validate_dropout trainloader testloader n_epochs e s =
     (let (batches, s1) = enter_loop testloader (begin_validation_dropout s)
      in for_else (valid_iter forward_dropout testloader)
           (report_epoch trainloader testloader n_epochs e) batches s1)"

definition epoch_dropout where
  "epoch_dropout step trainloader testloader n_epochs s e =
     (let (batches, s1) = enter_loop trainloader (begin_training_dropout s)
      in for_else (train_iter forward_dropout step trainloader)
           (validate_dropout trainloader testloader n_epochs e) batches s1)"

definition train_dropout where
  "train_dropout step trainloader testloader n_epochs s =
     for_stmt (\<lambda>s e. and_then (epoch_dropout step trainloader testloader n_epochs s e)
                        (\<lambda>s'. Inr (Normal s')))
       [0..<n_epochs] s"

definition cell_17 where
  "cell_17 adam step trainloader testloader g =
     (let (m, g1) = Classifier_dropout g
      in train_dropout step trainloader testloader 30
           \<lparr>model = m, optimizer = adam (parameters m), generator = g1, running_loss = 0,
            testing_loss = 0, accuracy = 0, stdout = []\<rparr>)"

subsection \<open>The passes of an epoch\<close>

text \<open>
  The two loops of an epoch on their own, and the states in which their bodies are
  entered: what the model and the metrics are at every batch.
\<close>

definition training_pass_baseline where
  "training_pass_baseline step trainloader s =
     (let (batches, s1) = enter_loop trainloader (begin_training_baseline s)
      in for_stmt (train_iter call_baseline step trainloader) batches s1)"

definition validation_pass_baseline where
  "validation_pass_baseline testloader s =
     (let (batches, s1) = enter_loop testloader (begin_validation_baseline s)
      in for_stmt (valid_iter call_baseline testloader) batches s1)"

definition training_pass_dropout where
  "training_pass_dropout step trainloader s =
     (let (batches, s1) = enter_loop trainloader (begin_training_dropout s)
      in for_stmt (train_iter forward_dropout step trainloader) batches s1)"

definition validation_pass_dropout where
  "validation_pass_dropout testloader s =
     (let (batches, s1) = enter_loop testloader (begin_validation_dropout s)
      in for_stmt (valid_iter forward_dropout testloader) batches s1)"

definition training_states_baseline where
  "training_states_baseline step trainloader s =
     (let (batches, s1) = enter_loop trainloader (begin_training_baseline s)
      in pre_states (train_iter call_baseline step trainloader) batches s1)"

definition validation_states_baseline where
  "validation_states_baseline testloader s =
     (let (batches, s1) = enter_loop testloader (begin_validation_baseline s)
      in pre_states (valid_iter call_baseline testloader) batches s1)"

definition training_states_dropout where
  "training_states_dropout step trainloader s =
     (let (batches, s1) = enter_loop trainloader (begin_training_dropout s)
      in pre_states (train_iter forward_dropout step trainloader) batches s1)"

definition validation_states_dropout where
  "validation_states_dropout testloader s =
     (let (batches, s1) = enter_loop testloader (begin_validation_dropout s)
      in pre_states (valid_iter forward_dropout testloader) batches s1)"

subsection \<open>The loops with the else clauses placed after the loops\<close>

text \<open>
  The design notes of the specification read the trailing \<^verbatim>\<open>else\<close> clauses as code that
  follows the loops unconditionally. These are the two epochs written that way.
\<close>

definition validate_baseline_seq where
  "validate_baseline_seq trainloader testloader n_epochs e s =
     (let (batches, s1) = enter_loop testloader (begin_validation_baseline s)
      in for_then (valid_iter call_baseline testloader)
           (report_epoch trainloader testloader n_epochs e) batches s1)"

definition epoch_baseline_seq where
  "epoch_baseline_seq step trainloader testloader n_epochs s e =
     (let (batches, s1) = enter_loop trainloader (begin_training_baseline s)
      in for_then (train_iter call_baseline step trainloader)
           (validate_baseline_seq trainloader testloader n_epochs e) batches s1)"

definition validate_dropout_seq where
  "validate_dropout_seq trainloader testloader n_epochs e s =
     (let (batches, s1) = enter_loop testloader (begin_validation_dropout s)
      in for_then (valid_iter forward_dropout testloader)
           (report_epoch trainloader testloader n_epochs e) batches s1)"

definition epoch_dropout_seq where
  "epoch_dropout_seq step trainloader testloader n_epochs s e =
     (let (batches, s1) = enter_loop trainloader (begin_training_dropout s)
      in for_then (train_iter forward_dropout step trainloader)
           (validate_dropout_seq trainloader testloader n_epochs e) batches s1)"


subsection \<open>Well-formed inputs\<close>

text \<open>
  A dataset as the collaborator of section 6 of the specification supplies it: every
  image is a tensor of shape \<open>1 \<times> 28 \<times> 28\<close>, every label one of the ten classes.
\<close>

definition wf_dataset :: "sample list \<Rightarrow> bool" where
  "wf_dataset ds =
     list_all (\<lambda>t. wf_tensor (image t) \<and> shape (image t) = [1, 28, 28] \<and> label t < 10) ds"

text \<open>An optimizer step gives every parameter a new value of the same shape.\<close>

definition step_keeps_shapes ::
  "('o \<Rightarrow> 'z classifier_scheme \<Rightarrow> rng \<Rightarrow> tensor \<Rightarrow> nat list \<Rightarrow> parameters \<times> 'o) \<Rightarrow> bool" where
  "step_keeps_shapes step =
     (\<forall>opt m g x ls. wf_classifier m \<longrightarrow> wf_classifier (set_parameters m (fst (step opt m g x ls))))"


text \<open>
  What the loops need of the call \<^verbatim>\<open>model(images)\<close>: on a well-shaped model and a batch
  of \<open>k\<close> images it returns \<open>k\<close> rows of ten log-probabilities and leaves the generator
  sound.
\<close>

definition fwd_total ::
  "('z classifier_scheme \<Rightarrow> rng \<Rightarrow> tensor \<Rightarrow> error + (real list list \<times> rng)) \<Rightarrow> bool" where
  "fwd_total fwd =
     (\<forall>m g x k. wf_classifier m \<and> wf_tensor x \<and> shape x = k # [1, 28, 28] \<and> 1 \<le> k \<longrightarrow>
        (\<exists>a4 g'. fwd m g x = Inr (log_softmax a4, g') \<and> is_matrix k 10 a4 \<and>
                  rng_ok g' = rng_ok g))"

definition state_ok :: "('z classifier_scheme, 'o) state \<Rightarrow> bool" where
  "state_ok s = (wf_classifier (model s) \<and> rng_ok (generator s))"


definition loaders_ok :: "loader \<Rightarrow> loader \<Rightarrow> bool" where
  "loaders_ok trainloader testloader =
     (wf_dataset (dataset trainloader) \<and> wf_dataset (dataset testloader) \<and>
      dataset trainloader \<noteq> [] \<and> dataset testloader \<noteq> [] \<and>
      0 < batch_size trainloader \<and> 0 < batch_size testloader)"

subsection \<open>What an epoch measures\<close>

text \<open>The forward computation of cell 3 on one row of the flattened input.\<close>

definition forward_row :: "'z classifier_scheme \<Rightarrow> real list \<Rightarrow> real list" where
  "forward_row m r =
     log_softmax_row (affine_row (fc4 m) (map (max 0)
       (affine_row (fc3 m) (map (max 0)
         (affine_row (fc2 m) (map (max 0)
           (affine_row (fc1 m) r)))))))"

text \<open>The row passes the shape check of each of the four layers.\<close>

definition row_ok :: "'z classifier_scheme \<Rightarrow> real list \<Rightarrow> bool" where
  "row_ok m r =
     (length r = in_features (fc1 m) \<and>
      length (affine_row (fc1 m) r) = in_features (fc2 m) \<and>
      length (affine_row (fc2 m) (map (max 0) (affine_row (fc1 m) r))) = in_features (fc3 m) \<and>
      length (affine_row (fc3 m) (map (max 0) (affine_row (fc2 m) (map (max 0)
         (affine_row (fc1 m) r))))) = in_features (fc4 m))"

text \<open>
  The top-1 class the model gives one sample: the sample is passed as a batch of its own
  through \<^verbatim>\<open>model(images)\<close> and \<^verbatim>\<open>topk(1, dim = 1)\<close>.
\<close>

definition predicted_class ::
  "('m \<Rightarrow> rng \<Rightarrow> tensor \<Rightarrow> error + (real list list \<times> rng)) \<Rightarrow> 'm \<Rightarrow> rng \<Rightarrow> sample \<Rightarrow> nat option" where
  "predicted_class fwd m g smp =
     (case and_then (collate [smp]) (\<lambda>(x, ls).
             and_then (fwd m g x) (\<lambda>(log_ps, g'). topk1 log_ps)) of
        Inr (vals, [c]) \<Rightarrow> Some c
      | _ \<Rightarrow> None)"

text \<open>The held-out samples whose top-1 class is their label.\<close>

definition correct_samples ::
  "('m \<Rightarrow> rng \<Rightarrow> tensor \<Rightarrow> error + (real list list \<times> rng)) \<Rightarrow> 'm \<Rightarrow> rng \<Rightarrow> sample list \<Rightarrow> nat list" where
  "correct_samples fwd m g ds =
     filter (\<lambda>i. predicted_class fwd m g (ds ! i) = Some (label (ds ! i))) [0..<length ds]"

text \<open>
  The loss of one batch in a given state of the run: the batch is fetched, passed through
  the model of that state and compared with its labels.
\<close>

definition batch_result ::
  "('m \<Rightarrow> rng \<Rightarrow> tensor \<Rightarrow> error + (real list list \<times> rng)) \<Rightarrow> loader \<Rightarrow> ('m, 'o) state \<Rightarrow>
   nat list \<Rightarrow> error + real" where
  "batch_result fwd l st idx =
     and_then (next_batch l idx) (\<lambda>(images, labels).
     and_then (fwd (model st) (generator st) images) (\<lambda>(log_ps, g').
     NLLLoss log_ps labels))"

text \<open>
  The loss as a number. Zero stands for a batch on which one of the steps raises; a pass
  that completes has no such batch (lemmas \<open>training_loop_batches\<close> and
  \<open>validation_loop_batches\<close> below).
\<close>

definition batch_loss ::
  "('m \<Rightarrow> rng \<Rightarrow> tensor \<Rightarrow> error + (real list list \<times> rng)) \<Rightarrow> loader \<Rightarrow> ('m, 'o) state \<Rightarrow>
   nat list \<Rightarrow> real" where
  "batch_loss fwd l st idx = (case batch_result fwd l st idx of Inr v \<Rightarrow> v | Inl e \<Rightarrow> 0)"

text \<open>The losses of the batches of a training pass and of a validation pass, in order.\<close>

definition train_losses_baseline where
  "train_losses_baseline step trainloader s =
     (let (batches, s1) = enter_loop trainloader (begin_training_baseline s)
      in map2 (batch_loss call_baseline trainloader)
           (pre_states (train_iter call_baseline step trainloader) batches s1) batches)"

definition train_losses_dropout where
  "train_losses_dropout step trainloader s =
     (let (batches, s1) = enter_loop trainloader (begin_training_dropout s)
      in map2 (batch_loss forward_dropout trainloader)
           (pre_states (train_iter forward_dropout step trainloader) batches s1) batches)"

definition test_losses_baseline where
  "test_losses_baseline testloader s =
     (let (batches, s1) = enter_loop testloader (begin_validation_baseline s)
      in map (batch_loss call_baseline testloader s1) batches)"

definition test_losses_dropout where
  "test_losses_dropout testloader s =
     (let (batches, s1) = enter_loop testloader (begin_validation_dropout s)
      in map (batch_loss forward_dropout testloader s1) batches)"


subsection \<open>A small run\<close>

text \<open>
  A generator that returns zeros, the identity permutation and masks that keep every
  entry; black images; loaders of two samples each; an optimizer step that leaves the
  parameters as they are. The models are those the constructors build from the generator.
\<close>

definition rng0 :: rng where
  "rng0 = \<lparr>tick = 0, uniform_src = (\<lambda>t i. 0), perm_src = (\<lambda>t n. [0..<n]),
           keep_src = (\<lambda>t i j. True)\<rparr>"

definition image0 :: tensor where
  "image0 = \<lparr>shape = [1, 28, 28], data = replicate 784 0\<rparr>"

definition batch0 :: tensor where
  "batch0 = \<lparr>shape = [2, 1, 28, 28], data = replicate 1568 0\<rparr>"

text \<open>A batch of two images that differ: the first is all ones, the second all twos.\<close>

definition batch1 :: tensor where
  "batch1 = \<lparr>shape = [2, 1, 28, 28], data = replicate 784 1 @ replicate 784 2\<rparr>"

definition trainloader0 :: loader where
  "trainloader0 = DataLoader [\<lparr>image = image0, label = 3\<rparr>, \<lparr>image = image0, label = 0\<rparr>]"

definition testloader0 :: loader where
  "testloader0 = DataLoader [\<lparr>image = image0, label = 0\<rparr>, \<lparr>image = image0, label = 7\<rparr>]"

definition step0 :: "unit \<Rightarrow> 'z classifier_scheme \<Rightarrow> rng \<Rightarrow> tensor \<Rightarrow> nat list \<Rightarrow> parameters \<times> unit" where
  "step0 opt m g x ls = (parameters m, opt)"

definition state_baseline0 :: "(classifier, unit) state" where
  "state_baseline0 =
     \<lparr>model = fst (Classifier rng0), optimizer = (), generator = snd (Classifier rng0),
      running_loss = 0, testing_loss = 0, accuracy = 0, stdout = []\<rparr>"

definition state_dropout0 :: "(classifier_dropout, unit) state" where
  "state_dropout0 =
     \<lparr>model = fst (Classifier_dropout rng0), optimizer = (),
      generator = snd (Classifier_dropout rng0),
      running_loss = 0, testing_loss = 0, accuracy = 0, stdout = []\<rparr>"

text \<open>Every parameter of the model is zero, as in the models the small run starts from.\<close>

definition zero_layers :: "'z classifier_scheme \<Rightarrow> bool" where
  "zero_layers m =
     (fc1 m = \<lparr>in_features = 784, out_features = 256,
                weight = replicate 256 (replicate 784 0), bias = replicate 256 0\<rparr> \<and>
      fc2 m = \<lparr>in_features = 256, out_features = 128,
                weight = replicate 128 (replicate 256 0), bias = replicate 128 0\<rparr> \<and>
      fc3 m = \<lparr>in_features = 128, out_features = 64,
                weight = replicate 64 (replicate 128 0), bias = replicate 64 0\<rparr> \<and>
      fc4 m = \<lparr>in_features = 64, out_features = 10,
                weight = replicate 10 (replicate 64 0), bias = replicate 10 0\<rparr>)"

section \<open>Properties\<close>

subsection \<open>Shapes through the layers\<close>

lemma and_then_Inr [simp]: "and_then (Inr v) f = f v"
  by (simp add: and_then_def)

lemma and_then_Inl [simp]: "and_then (Inl e) f = Inl e"
  by (simp add: and_then_def)

lemma and_then_eq_Inr: "and_then r f = Inr y \<longleftrightarrow> (\<exists>v. r = Inr v \<and> f v = Inr y)"
  by (cases r) simp_all


lemma flatten_input_rows:
  assumes "shape x = b # dims" "wf_tensor x"
  shows "flatten_input x =
     (if b = 0 then Inl RuntimeError
      else Inr (map (\<lambda>i. take (prod_list dims) (drop (i * prod_list dims) (data x))) [0..<b]))"
  using assms by (simp add: flatten_input_def view_rows_def numel_def rows_of_def)

lemma flatten_input_matrix:
  assumes "shape x = b # dims" "wf_tensor x" "1 \<le> b"
  shows "\<exists>x0. flatten_input x = Inr x0 \<and> is_matrix b (prod_list dims) x0"
proof -
  have len: "length (data x) = b * prod_list dims"
    using assms by (simp add: wf_tensor_def numel_def)
  have "length (take (prod_list dims) (drop (i * prod_list dims) (data x))) = prod_list dims"
    if "i < b" for i
  proof -
    from that have "Suc i \<le> b" by simp
    then have "Suc i * prod_list dims \<le> b * prod_list dims" by (rule mult_le_mono1)
    then show ?thesis using len by simp
  qed
  then show ?thesis
    using assms
    by (simp add: flatten_input_rows is_matrix_def list_all_iff)
qed

lemma linear_fwd_matrix:
  assumes "wf_linear n k l" "is_matrix b n xs"
  shows "\<exists>ys. linear_fwd l xs = Inr ys \<and> is_matrix b k ys"
  using assms
  by (simp add: wf_linear_def is_matrix_def linear_fwd_def affine_row_def list_all_iff)

lemma relu_matrix: "is_matrix b n xs \<Longrightarrow> is_matrix b n (relu xs)"
  by (simp add: is_matrix_def relu_def list_all_iff)

lemma dropout_fwd_matrix:
  "is_matrix b n xs \<Longrightarrow> is_matrix b n (fst (dropout_fwd d t g xs))"
  by (auto simp add: is_matrix_def dropout_fwd_def drop_row_def list_all_iff enumerate_eq_zip in_set_zip)

lemma log_softmax_matrix: "is_matrix b n xs \<Longrightarrow> is_matrix b n (log_softmax xs)"
  by (simp add: is_matrix_def log_softmax_def log_softmax_row_def list_all_iff)

lemma sum_list_exp_pos: "row \<noteq> [] \<Longrightarrow> 0 < sum_list (map exp (row :: real list))"
proof -
  assume "row \<noteq> []"
  then obtain v vs where row: "row = v # vs" by (cases row) auto
  have "0 \<le> sum_list (map exp vs)" by (rule sum_list_nonneg) auto
  then show ?thesis by (simp add: row add_pos_nonneg)
qed

lemma exp_log_softmax_row:
  assumes "row \<noteq> []"
  shows "sum_list (map exp (log_softmax_row row)) = 1"
proof -
  let ?S = "sum_list (map exp row)"
  have pos: "0 < ?S" using assms by (rule sum_list_exp_pos)
  have "map exp (log_softmax_row row) = map (\<lambda>v. exp v / ?S) row"
    using pos by (simp add: log_softmax_row_def)
  moreover have "sum_list (map (\<lambda>v. exp v / c) row) = sum_list (map exp row) / c" for c :: real
    by (induction row) (simp_all add: add_divide_distrib)
  ultimately show ?thesis using pos by simp
qed

subsection \<open>The forward pass returns log-probabilities\<close>

lemma wf_Linear: "wf_linear n k (fst (Linear n k g))"
  by (simp add: Linear_def wf_linear_def Let_def list_all_iff)

lemma wf_Classifier: "wf_classifier (fst (Classifier g))"
  using wf_Linear
  by (simp add: Classifier_def wf_classifier_def split_beta Let_def)

lemma wf_Classifier_dropout: "wf_classifier (fst (Classifier_dropout g))"
  using wf_Linear
  by (simp add: Classifier_dropout_def wf_classifier_def split_beta Let_def)

lemma dropout_fwd_eval [simp]: "dropout_fwd d False g xs = (xs, g)"
  by (simp add: dropout_fwd_def)

lemma forward_dropout_eval:
  "\<not> training m \<Longrightarrow>
   forward_dropout m g x = and_then (forward_baseline m x) (\<lambda>out. Inr (out, g))"
  by (simp add: forward_dropout_def forward_baseline_def and_then_def split: sum.splits)

lemma forward_baseline_matrix:
  assumes "wf_classifier m" "wf_tensor x" "shape x = b # dims" "1 \<le> b" "prod_list dims = 784"
  shows "\<exists>a4. forward_baseline m x = Inr (log_softmax a4) \<and> is_matrix b 10 a4"
proof -
  from assms obtain x0 where x0: "flatten_input x = Inr x0" "is_matrix b 784 x0"
    using flatten_input_matrix[of x b dims] by auto
  from assms(1) have l: "wf_linear 784 256 (fc1 m)" "wf_linear 256 128 (fc2 m)"
      "wf_linear 128 64 (fc3 m)" "wf_linear 64 10 (fc4 m)"
    by (simp_all add: wf_classifier_def)
  from linear_fwd_matrix[OF l(1) x0(2)] obtain a1 where
    a1: "linear_fwd (fc1 m) x0 = Inr a1" "is_matrix b 256 a1" by auto
  from linear_fwd_matrix[OF l(2) relu_matrix[OF a1(2)]] obtain a2 where
    a2: "linear_fwd (fc2 m) (relu a1) = Inr a2" "is_matrix b 128 a2" by auto
  from linear_fwd_matrix[OF l(3) relu_matrix[OF a2(2)]] obtain a3 where
    a3: "linear_fwd (fc3 m) (relu a2) = Inr a3" "is_matrix b 64 a3" by auto
  from linear_fwd_matrix[OF l(4) relu_matrix[OF a3(2)]] obtain a4 where
    a4: "linear_fwd (fc4 m) (relu a3) = Inr a4" "is_matrix b 10 a4" by auto
  have "forward_baseline m x = Inr (log_softmax a4)"
    using x0 a1 a2 a3 a4 by (simp add: forward_baseline_def)
  with a4(2) show ?thesis by blast
qed

lemma forward_dropout_matrix:
  assumes "wf_classifier m" "wf_tensor x" "shape x = b # dims" "1 \<le> b" "prod_list dims = 784"
  shows "\<exists>a4 g'. forward_dropout m g x = Inr (log_softmax a4, g') \<and> is_matrix b 10 a4"
proof -
  let ?d = "dropout_fwd (dropout m) (training m)"
  from assms obtain x0 where x0: "flatten_input x = Inr x0" "is_matrix b 784 x0"
    using flatten_input_matrix[of x b dims] by auto
  from assms(1) have l: "wf_linear 784 256 (fc1 m)" "wf_linear 256 128 (fc2 m)"
      "wf_linear 128 64 (fc3 m)" "wf_linear 64 10 (fc4 m)"
    by (simp_all add: wf_classifier_def)
  from linear_fwd_matrix[OF l(1) x0(2)] obtain a1 where
    a1: "linear_fwd (fc1 m) x0 = Inr a1" "is_matrix b 256 a1" by auto
  obtain x1 g1 where d1: "?d g (relu a1) = (x1, g1)" by (cases "?d g (relu a1)")
  have m1: "is_matrix b 256 x1"
    using dropout_fwd_matrix[OF relu_matrix[OF a1(2)], of "dropout m" "training m" g] d1 by simp
  from linear_fwd_matrix[OF l(2) m1] obtain a2 where
    a2: "linear_fwd (fc2 m) x1 = Inr a2" "is_matrix b 128 a2" by auto
  obtain x2 g2 where d2: "?d g1 (relu a2) = (x2, g2)" by (cases "?d g1 (relu a2)")
  have m2: "is_matrix b 128 x2"
    using dropout_fwd_matrix[OF relu_matrix[OF a2(2)], of "dropout m" "training m" g1] d2 by simp
  from linear_fwd_matrix[OF l(3) m2] obtain a3 where
    a3: "linear_fwd (fc3 m) x2 = Inr a3" "is_matrix b 64 a3" by auto
  obtain x3 g3 where d3: "?d g2 (relu a3) = (x3, g3)" by (cases "?d g2 (relu a3)")
  have m3: "is_matrix b 64 x3"
    using dropout_fwd_matrix[OF relu_matrix[OF a3(2)], of "dropout m" "training m" g2] d3 by simp
  from linear_fwd_matrix[OF l(4) m3] obtain a4 where
    a4: "linear_fwd (fc4 m) x3 = Inr a4" "is_matrix b 10 a4" by auto
  have "forward_dropout m g x = Inr (log_softmax a4, g3)"
    using x0 a1 a2 a3 a4 d1 d2 d3 by (simp add: forward_dropout_def)
  with a4(2) show ?thesis by blast
qed

lemma log_softmax_probabilities:
  assumes "is_matrix b 10 a4"
  shows "length (log_softmax a4) = b \<and>
     (\<forall>row\<in>set (log_softmax a4). length row = 10 \<and> sum_list (map exp row) = 1)"
proof -
  have "length r = 10 \<Longrightarrow> r \<noteq> []" for r :: "real list" by auto
  then show ?thesis
    using assms
    by (auto simp add: is_matrix_def log_softmax_def list_all_iff exp_log_softmax_row
        simp del: length_0_conv) (simp add: log_softmax_row_def)
qed

text \<open>
  Claim C2. For every batch size \<open>b \<ge> 1\<close> and every input of \<open>b\<close> images of 784 pixels
  each, the forward pass of either classifier returns \<open>b\<close> rows of ten log-probabilities,
  and in every row the exponentials of the ten entries sum to one.
\<close>
theorem forward_log_probabilities:
  assumes "wf_classifier mb" "wf_classifier md" "wf_tensor x"
    and "shape x = b # dims" "1 \<le> b" "prod_list dims = 784"
  shows "(\<exists>out. forward_baseline mb x = Inr out \<and> length out = b \<and>
            (\<forall>row\<in>set out. length row = 10 \<and> sum_list (map exp row) = 1)) \<and>
         (\<exists>out g'. forward_dropout md g x = Inr (out, g') \<and> length out = b \<and>
            (\<forall>row\<in>set out. length row = 10 \<and> sum_list (map exp row) = 1))"
proof
  from forward_baseline_matrix[OF assms(1,3-6)] obtain a4 where
    "forward_baseline mb x = Inr (log_softmax a4)" "is_matrix b 10 a4" by auto
  then show "\<exists>out. forward_baseline mb x = Inr out \<and> length out = b \<and>
            (\<forall>row\<in>set out. length row = 10 \<and> sum_list (map exp row) = 1)"
    using log_softmax_probabilities by blast
next
  from forward_dropout_matrix[OF assms(2,3-6), of g] obtain a4 g' where
    "forward_dropout md g x = Inr (log_softmax a4, g')" "is_matrix b 10 a4" by auto
  then show "\<exists>out g'. forward_dropout md g x = Inr (out, g') \<and> length out = b \<and>
            (\<forall>row\<in>set out. length row = 10 \<and> sum_list (map exp row) = 1)"
    using log_softmax_probabilities by blast
qed

subsection \<open>Flattening, determinism and the pipeline\<close>

lemma flatten_input_shape:
  assumes "shape x = b # dims" "prod_list dims = n"
  shows "flatten_input x = flatten_input (x\<lparr>shape := [b, n]\<rparr>)"
  using assms by (simp add: flatten_input_def view_rows_def numel_def rows_of_def)

text \<open>
  Claim C6. In evaluation mode the forward pass is deterministic: whatever the state of the
  generator, two forward passes of the same model on the same input give the same output
  (or the same error), and the pass draws nothing from the generator. The baseline call
  is deterministic in either mode.
\<close>
theorem eval_forward_deterministic:
  assumes "\<not> training md"
  shows "map_sum id fst (forward_dropout md g1 x) = map_sum id fst (forward_dropout md g2 x) \<and>
         map_sum id fst (call_baseline mb g1 x) = map_sum id fst (call_baseline mb g2 x) \<and>
         (\<forall>out g'. forward_dropout md g1 x = Inr (out, g') \<longrightarrow> g' = g1)"
  using assms
  by (auto simp add: forward_dropout_eval call_baseline_def and_then_def split: sum.splits)

lemma run_pipeline_baseline:
  "and_then (flatten_input x) (\<lambda>x0. map_sum id fst (run_pipeline tr (spec_pipeline m None) (x0, g)))
   = forward_baseline m x"
  by (simp add: spec_pipeline_def forward_baseline_def and_then_def Let_def split: sum.splits)

lemma run_stage_Affine:
  "run_stage tr (Affine l) v = and_then (linear_fwd l (fst v)) (\<lambda>ys. Inr (ys, snd v))"
  by (cases v) simp

lemma run_stage_Rectify: "run_stage tr Rectify v = Inr (relu (fst v), snd v)"
  by (cases v) simp

lemma run_stage_Drop: "run_stage tr (Drop q) v = Inr (dropout_fwd (Dropout q) tr (snd v) (fst v))"
  by (cases v) simp

lemma run_stage_LogNormalize: "run_stage tr LogNormalize v = Inr (log_softmax (fst v), snd v)"
  by (cases v) simp

lemma Dropout_drop_p: "dropout_fwd (Dropout (drop_p d)) = dropout_fwd d"
  by (intro ext) (simp add: dropout_fwd_def Dropout_def)

lemma and_then_assoc: "and_then (and_then r f) h = and_then r (\<lambda>v. and_then (f v) h)"
  by (cases r) simp_all

lemma run_pipeline_dropout:
  "and_then (flatten_input x)
     (\<lambda>x0. run_pipeline (training m) (spec_pipeline m (Some (drop_p (dropout m)))) (x0, g))
   = forward_dropout m g x"
  by (simp add: spec_pipeline_def forward_dropout_def Let_def split_beta Dropout_drop_p
      run_stage_Affine run_stage_Rectify run_stage_Drop run_stage_LogNormalize and_then_assoc
      del: run_stage.simps)

text \<open>
  Claim C3. The forward pass is the pipeline of the specification: affine, rectification,
  affine, rectification, affine, rectification, affine, log-normalisation along the class
  dimension, for both classifiers. The dropout variant has a dropout stage after each of
  the three rectifications, which acts in training mode only; the baseline has none, and
  its result depends neither on the mode nor on the generator. The constructors give the
  four layers the sizes 784 to 256, 256 to 128, 128 to 64 and 64 to 10, and the dropout
  module the probability 0.2.
\<close>
theorem forward_is_pipeline:
  "forward_baseline mb x =
     and_then (flatten_input x)
       (\<lambda>x0. map_sum id fst (run_pipeline tr (spec_pipeline mb None) (x0, g))) \<and>
   forward_dropout md g x =
     and_then (flatten_input x)
       (\<lambda>x0. run_pipeline (training md) (spec_pipeline md (Some (drop_p (dropout md)))) (x0, g)) \<and>
   wf_classifier (fst (Classifier g0)) \<and>
   wf_classifier (fst (Classifier_dropout g0)) \<and>
   drop_p (dropout (fst (Classifier_dropout g0))) = 2 / 10"
  using run_pipeline_baseline[of x tr mb g] run_pipeline_dropout[of x md g]
    wf_Classifier[of g0] wf_Classifier_dropout[of g0]
  by (simp add: Classifier_dropout_def split_beta Let_def Dropout_def)

subsection \<open>Loops\<close>

lemma for_stmt_no_break:
  assumes "\<And>s x s'. body s x \<noteq> Inr (Break s')"
  shows "for_stmt body xs s \<noteq> Inr (Break s')"
  using assms
  by (induction xs arbitrary: s) (auto split: sum.splits flow.splits)

lemma for_else_eq_for_then:
  assumes "\<And>s x s'. body s x \<noteq> Inr (Break s')"
  shows "for_else body k xs s = for_then body k xs s"
  using for_stmt_no_break[of body xs s, OF assms]
  by (auto simp add: for_else_def for_then_def split: sum.splits flow.splits)

lemma for_stmt_invariant:
  assumes "for_stmt body xs s = Inr (Normal s')" "P s"
    and "\<And>s x s'. P s \<Longrightarrow> body s x = Inr (Normal s') \<Longrightarrow> P s'"
  shows "P s'"
  using assms
proof (induction xs arbitrary: s)
  case Nil
  then show ?case by simp
next
  case (Cons x xs)
  from Cons.prems(1) obtain s1 where s1: "body s x = Inr (Normal s1)"
      "for_stmt body xs s1 = Inr (Normal s')"
    by (auto split: sum.splits flow.splits)
  from Cons.prems(3)[OF Cons.prems(2) s1(1)] have "P s1" .
  from Cons.IH[OF s1(2) this Cons.prems(3)] show ?case by simp
qed

lemma pre_states_invariant:
  assumes "P s" and "\<And>s x s'. P s \<Longrightarrow> body s x = Inr (Normal s') \<Longrightarrow> P s'"
    and "st \<in> set (pre_states body xs s)"
  shows "P st"
  using assms
proof (induction xs arbitrary: s)
  case Nil
  then show ?case by simp
next
  case (Cons x xs)
  show ?case
  proof (cases "st = s")
    case True
    with Cons.prems(1) show ?thesis by simp
  next
    case False
    with Cons.prems(3) obtain s1 where s1: "body s x = Inr (Normal s1)"
        "st \<in> set (pre_states body xs s1)"
      by (cases "body s x"; simp split: flow.splits) metis
    from Cons.prems(2)[OF Cons.prems(1) s1(1)] have "P s1" .
    from Cons.IH[OF this Cons.prems(2) s1(2)] show ?thesis by simp
  qed
qed

lemma for_stmt_cong:
  assumes "P s" and "\<And>s x. P s \<Longrightarrow> body1 s x = body2 s x"
    and "\<And>s x s'. P s \<Longrightarrow> body2 s x = Inr (Normal s') \<Longrightarrow> P s'"
  shows "for_stmt body1 xs s = for_stmt body2 xs s"
  using assms
proof (induction xs arbitrary: s)
  case Nil
  then show ?case by simp
next
  case (Cons x xs)
  have eq: "body1 s x = body2 s x" using Cons.prems(1,2) by blast
  show ?case
  proof (cases "body2 s x")
    case (Inl e)
    with eq show ?thesis by simp
  next
    case (Inr fl)
    show ?thesis
    proof (cases fl)
      case (Normal s1)
      with Inr Cons.prems have "P s1" by blast
      from Cons.IH[OF this Cons.prems(2,3)] show ?thesis using eq Inr Normal by simp
    next
      case (Break s1)
      with Inr eq show ?thesis by simp
    qed
  qed
qed

lemma pre_states_cong:
  assumes "P s" and "\<And>s x. P s \<Longrightarrow> body1 s x = body2 s x"
    and "\<And>s x s'. P s \<Longrightarrow> body2 s x = Inr (Normal s') \<Longrightarrow> P s'"
  shows "pre_states body1 xs s = pre_states body2 xs s"
  using assms
proof (induction xs arbitrary: s)
  case Nil
  then show ?case by simp
next
  case (Cons x xs)
  have eq: "body1 s x = body2 s x" using Cons.prems(1,2) by blast
  show ?case
  proof (cases "body2 s x")
    case (Inl e)
    with eq show ?thesis by simp
  next
    case (Inr fl)
    show ?thesis
    proof (cases fl)
      case (Normal s1)
      with Inr Cons.prems have "P s1" by blast
      from Cons.IH[OF this Cons.prems(2,3)] show ?thesis using eq Inr Normal by simp
    next
      case (Break s1)
      with Inr eq show ?thesis by simp
    qed
  qed
qed

subsection \<open>The bodies\<close>

lemma train_body_Normal:
  assumes "train_body fwd step s batch = Inr fl"
  shows "\<exists>log_ps g' loss.
     fwd (model s) (generator s) (fst batch) = Inr (log_ps, g') \<and>
     NLLLoss log_ps (snd batch) = Inr loss \<and>
     fl = Normal (s\<lparr>model := set_parameters (model s)
                       (fst (step (optimizer s) (model s) (generator s) (fst batch) (snd batch))),
                  optimizer := snd (step (optimizer s) (model s) (generator s) (fst batch) (snd batch)),
                  generator := g', running_loss := running_loss s + loss\<rparr>)"
  using assms
  by (cases batch)
     (auto simp add: train_body_def and_then_eq_Inr split_beta Let_def)

lemma valid_body_Normal:
  assumes "valid_body fwd s batch = Inr fl"
  shows "\<exists>log_ps g' loss.
     fwd (model s) (generator s) (fst batch) = Inr (log_ps, g') \<and>
     NLLLoss log_ps (snd batch) = Inr loss \<and>
     \<not> list_ex (\<lambda>row. row = []) log_ps \<and> length (snd batch) = length log_ps \<and>
     fl = Normal (s\<lparr>generator := g', testing_loss := testing_loss s + loss,
                  accuracy := accuracy s +
                    count_true (map2 (=) (map (snd \<circ> top1) log_ps) (snd batch))\<rparr>)"
  using assms
  by (cases batch)
     (auto simp add: valid_body_def and_then_eq_Inr split_beta topk1_def equals_def
        split: if_splits)

lemma train_iter_Normal:
  assumes "train_iter fwd step l s idx = Inr fl"
  shows "\<exists>batch. next_batch l idx = Inr batch \<and> train_body fwd step s batch = Inr fl"
  using assms by (simp add: train_iter_def and_then_eq_Inr)

lemma valid_iter_Normal:
  assumes "valid_iter fwd l s idx = Inr fl"
  shows "\<exists>batch. next_batch l idx = Inr batch \<and> valid_body fwd s batch = Inr fl"
  using assms by (simp add: valid_iter_def and_then_eq_Inr)

lemma train_iter_no_break: "train_iter fwd step l s idx \<noteq> Inr (Break s')"
proof
  assume "train_iter fwd step l s idx = Inr (Break s')"
  from train_iter_Normal[OF this] obtain batch where
    "train_body fwd step s batch = Inr (Break s')" by blast
  from train_body_Normal[OF this] show False by blast
qed

lemma valid_iter_no_break: "valid_iter fwd l s idx \<noteq> Inr (Break s')"
proof
  assume "valid_iter fwd l s idx = Inr (Break s')"
  from valid_iter_Normal[OF this] obtain batch where
    "valid_body fwd s batch = Inr (Break s')" by blast
  from valid_body_Normal[OF this] show False by blast
qed

lemma validate_baseline_seq_eq:
  "validate_baseline trl tel n e = validate_baseline_seq trl tel n e"
  by (intro ext)
     (simp add: validate_baseline_def validate_baseline_seq_def split_beta
        for_else_eq_for_then[OF valid_iter_no_break])

lemma validate_dropout_seq_eq:
  "validate_dropout trl tel n e = validate_dropout_seq trl tel n e"
  by (intro ext)
     (simp add: validate_dropout_def validate_dropout_seq_def split_beta
        for_else_eq_for_then[OF valid_iter_no_break])

text \<open>
  Claim C9. No body of a batch loop leaves its loop by \<^verbatim>\<open>break\<close>, so an epoch with the
  trailing \<^verbatim>\<open>else\<close> clauses is the epoch with the code of the clauses placed after the
  loops: both give the same final state (parameters, metrics, printed lines) or the same
  error, for every input.
\<close>
theorem else_clauses_unconditional:
  "epoch_baseline step trl tel n s e = epoch_baseline_seq step trl tel n s e \<and>
   epoch_dropout step' trl tel n s' e = epoch_dropout_seq step' trl tel n s' e"
  by (simp add: epoch_baseline_def epoch_baseline_seq_def epoch_dropout_def
      epoch_dropout_seq_def split_beta validate_baseline_seq_eq validate_dropout_seq_eq
      for_else_eq_for_then[OF train_iter_no_break])

subsection \<open>Modes and parameters\<close>

lemma training_set_parameters [simp]: "training (set_parameters m ps) = training m"
  by (simp add: set_parameters_def split_beta)

lemma train_iter_training:
  assumes "train_iter fwd step l s idx = Inr (Normal s')"
  shows "training (model s') = training (model s)"
proof -
  from train_iter_Normal[OF assms] obtain batch where
    "train_body fwd step s batch = Inr (Normal s')" by blast
  from train_body_Normal[OF this] show ?thesis by auto
qed

lemma valid_iter_model:
  assumes "valid_iter fwd l s idx = Inr (Normal s')"
  shows "model s' = model s"
proof -
  from valid_iter_Normal[OF assms] obtain batch where
    "valid_body fwd s batch = Inr (Normal s')" by blast
  from valid_body_Normal[OF this] show ?thesis by auto
qed

lemma enter_loop_model [simp]: "model (snd (enter_loop l s)) = model s"
  by (simp add: enter_loop_def split_beta)

lemma training_states_mode:
  assumes "st \<in> set (pre_states (train_iter fwd step l) xs s)"
  shows "training (model st) = training (model s)"
  by (rule pre_states_invariant[where P = "\<lambda>u. training (model u) = training (model s)",
        OF _ _ assms])
     (simp_all add: train_iter_training)

lemma validation_states_model:
  assumes "st \<in> set (pre_states (valid_iter fwd l) xs s)"
  shows "model st = model s"
  by (rule pre_states_invariant[where P = "\<lambda>u. model u = model s", OF _ _ assms])
     (simp_all add: valid_iter_model)

lemma validation_loop_model:
  assumes "for_stmt (valid_iter fwd l) xs s = Inr (Normal s')"
  shows "model s' = model s"
  by (rule for_stmt_invariant[where P = "\<lambda>u. model u = model s", OF assms])
     (simp_all add: valid_iter_model)

text \<open>
  Claim C1, as the code has it. In the loop of the dropout variant (cell 17) the model is in
  training mode whenever the body of the training loop is entered, and in evaluation mode
  whenever the body of the validation loop is entered: \<^verbatim>\<open>model.train()\<close> opens every
  training pass and \<^verbatim>\<open>model.eval()\<close> every validation pass. The baseline loop (cell 13)
  never sets the mode: in both of its passes the model has the mode it entered the epoch
  with, and the baseline forward pass gives the same output in either mode.
\<close>
theorem mode_during_passes:
  "(\<forall>st\<in>set (training_states_dropout step trl s). training (model st)) \<and>
   (\<forall>st\<in>set (validation_states_dropout tel s). \<not> training (model st)) \<and>
   (\<forall>st\<in>set (training_states_baseline step' trl sb).
       training (model st) = training (model sb)) \<and>
   (\<forall>st\<in>set (validation_states_baseline tel sb).
       training (model st) = training (model sb)) \<and>
   forward_baseline (train_mode mb) x = forward_baseline (eval_mode mb) x"
proof (intro conjI ballI)
  fix st assume "st \<in> set (training_states_dropout step trl s)"
  then show "training (model st)"
    by (auto simp add: training_states_dropout_def split_beta begin_training_dropout_def
        train_mode_def dest!: training_states_mode)
next
  fix st assume "st \<in> set (validation_states_dropout tel s)"
  then show "\<not> training (model st)"
    by (auto simp add: validation_states_dropout_def split_beta begin_validation_dropout_def
        eval_mode_def dest!: validation_states_model)
next
  fix st assume "st \<in> set (training_states_baseline step' trl sb)"
  then show "training (model st) = training (model sb)"
    by (auto simp add: training_states_baseline_def split_beta begin_training_baseline_def
        dest!: training_states_mode)
next
  fix st assume "st \<in> set (validation_states_baseline tel sb)"
  then show "training (model st) = training (model sb)"
    by (auto simp add: validation_states_baseline_def split_beta begin_validation_baseline_def
        dest!: validation_states_model)
next
  show "forward_baseline (train_mode mb) x = forward_baseline (eval_mode mb) x"
    by (simp add: forward_baseline_def train_mode_def eval_mode_def)
qed

lemma parameters_eval_mode [simp]: "parameters (eval_mode m) = parameters m"
  by (simp add: parameters_def eval_mode_def)

lemma report_epoch_model:
  "report_epoch trl tel n e s = Inr s' \<Longrightarrow> model s' = model s"
  by (auto simp add: report_epoch_def Let_def split: if_splits)

lemma validate_baseline_passes:
  "validate_baseline trl tel n e s =
     (case validation_pass_baseline tel s of
        Inl err \<Rightarrow> Inl err
      | Inr (Break s') \<Rightarrow> Inr s'
      | Inr (Normal s') \<Rightarrow> report_epoch trl tel n e s')"
  by (simp add: validate_baseline_def validation_pass_baseline_def for_else_def split_beta)

lemma validate_dropout_passes:
  "validate_dropout trl tel n e s =
     (case validation_pass_dropout tel s of
        Inl err \<Rightarrow> Inl err
      | Inr (Break s') \<Rightarrow> Inr s'
      | Inr (Normal s') \<Rightarrow> report_epoch trl tel n e s')"
  by (simp add: validate_dropout_def validation_pass_dropout_def for_else_def split_beta)

lemma epoch_baseline_passes:
  "epoch_baseline step trl tel n s e =
     (case training_pass_baseline step trl s of
        Inl err \<Rightarrow> Inl err
      | Inr (Break s') \<Rightarrow> Inr s'
      | Inr (Normal s') \<Rightarrow> validate_baseline trl tel n e s')"
  by (simp add: epoch_baseline_def training_pass_baseline_def for_else_def split_beta)

lemma epoch_dropout_passes:
  "epoch_dropout step trl tel n s e =
     (case training_pass_dropout step trl s of
        Inl err \<Rightarrow> Inl err
      | Inr (Break s') \<Rightarrow> Inr s'
      | Inr (Normal s') \<Rightarrow> validate_dropout trl tel n e s')"
  by (simp add: epoch_dropout_def training_pass_dropout_def for_else_def split_beta)

lemma validation_pass_baseline_no_break: "validation_pass_baseline tel s \<noteq> Inr (Break s')"
  by (simp add: validation_pass_baseline_def split_beta for_stmt_no_break[OF valid_iter_no_break])

lemma validation_pass_dropout_no_break: "validation_pass_dropout tel s \<noteq> Inr (Break s')"
  by (simp add: validation_pass_dropout_def split_beta for_stmt_no_break[OF valid_iter_no_break])

lemma training_pass_baseline_no_break: "training_pass_baseline step trl s \<noteq> Inr (Break s')"
  by (simp add: training_pass_baseline_def split_beta for_stmt_no_break[OF train_iter_no_break])

lemma training_pass_dropout_no_break: "training_pass_dropout step trl s \<noteq> Inr (Break s')"
  by (simp add: training_pass_dropout_def split_beta for_stmt_no_break[OF train_iter_no_break])

lemma validation_pass_baseline_model:
  "validation_pass_baseline tel s = Inr (Normal s') \<Longrightarrow> model s' = model s"
  by (auto simp add: validation_pass_baseline_def split_beta begin_validation_baseline_def
      dest!: validation_loop_model)

lemma validation_pass_dropout_model:
  "validation_pass_dropout tel s = Inr (Normal s') \<Longrightarrow> model s' = eval_mode (model s)"
  by (auto simp add: validation_pass_dropout_def split_beta begin_validation_dropout_def
      dest!: validation_loop_model)

text \<open>
  Claim C5. A validation pass leaves the parameters of the model as they were: they are
  the same in every state in which the body of the validation loop is entered, after the
  pass, and after the report that follows it, in both loops.
\<close>
theorem validation_keeps_parameters:
  "(validation_pass_baseline tel sb = Inr (Normal sb') \<longrightarrow>
      parameters (model sb') = parameters (model sb)) \<and>
   (validation_pass_dropout tel sd = Inr (Normal sd') \<longrightarrow>
      parameters (model sd') = parameters (model sd)) \<and>
   (\<forall>st\<in>set (validation_states_baseline tel sb). parameters (model st) = parameters (model sb)) \<and>
   (\<forall>st\<in>set (validation_states_dropout tel sd). parameters (model st) = parameters (model sd)) \<and>
   (validate_baseline trl tel n e sb = Inr sb'' \<longrightarrow>
      parameters (model sb'') = parameters (model sb)) \<and>
   (validate_dropout trl tel n e sd = Inr sd'' \<longrightarrow>
      parameters (model sd'') = parameters (model sd))"
proof (intro conjI impI ballI)
  assume "validation_pass_baseline tel sb = Inr (Normal sb')"
  then show "parameters (model sb') = parameters (model sb)"
    by (simp add: validation_pass_baseline_model)
next
  assume "validation_pass_dropout tel sd = Inr (Normal sd')"
  then show "parameters (model sd') = parameters (model sd)"
    by (simp add: validation_pass_dropout_model)
next
  fix st assume "st \<in> set (validation_states_baseline tel sb)"
  then show "parameters (model st) = parameters (model sb)"
    by (auto simp add: validation_states_baseline_def split_beta begin_validation_baseline_def
        dest!: validation_states_model)
next
  fix st assume "st \<in> set (validation_states_dropout tel sd)"
  then show "parameters (model st) = parameters (model sd)"
    by (auto simp add: validation_states_dropout_def split_beta begin_validation_dropout_def
        dest!: validation_states_model)
next
  assume "validate_baseline trl tel n e sb = Inr sb''"
  then show "parameters (model sb'') = parameters (model sb)"
    by (auto simp add: validate_baseline_passes validation_pass_baseline_no_break
        split: sum.splits flow.splits
        dest!: validation_pass_baseline_model report_epoch_model)
next
  assume "validate_dropout trl tel n e sd = Inr sd''"
  then show "parameters (model sd'') = parameters (model sd)"
    by (auto simp add: validate_dropout_passes validation_pass_dropout_no_break
        split: sum.splits flow.splits
        dest!: validation_pass_dropout_model report_epoch_model)
qed

subsection \<open>Batches\<close>

lemma chunk_index_bound:
  assumes "0 < n" "k < (len + n - 1) div n"
  shows "k * n < (len :: nat)"
proof -
  from assms have "Suc k \<le> (len + n - 1) div n" by simp
  with assms(1) have "Suc k * n \<le> len + n - 1"
    by (simp add: less_eq_div_iff_mult_less_eq)
  with assms(1) show ?thesis by simp
qed

lemma chunks_nonempty:
  assumes "0 < n" "c \<in> set (chunks n xs)"
  shows "c \<noteq> [] \<and> set c \<subseteq> set xs"
proof -
  from assms(2) obtain k where k: "k < (length xs + n - 1) div n" "c = take n (drop (k * n) xs)"
    by (auto simp add: chunks_def)
  from chunk_index_bound[OF assms(1) k(1)] have "k * n < length xs" .
  with assms(1) k(2) show ?thesis
    by (auto dest: in_set_takeD in_set_dropD)
qed

lemma length_chunks: "length (chunks n xs) = (length xs + n - 1) div n"
  by (simp add: chunks_def)

lemma rng_ok_advance [simp]: "rng_ok (advance g) = rng_ok g"
  by (simp add: rng_ok_def advance_def)

lemma batch_indices_ok:
  assumes "rng_ok g" "0 < batch_size l" "c \<in> set (fst (batch_indices l g))"
  shows "c \<noteq> [] \<and> list_all (\<lambda>i. i < length (dataset l)) c"
proof -
  let ?order = "fst (if shuffle l then randperm (length (dataset l)) g
                     else ([0..<length (dataset l)], g))"
  have set: "set ?order = {0..<length (dataset l)}"
    using assms(1) by (simp add: randperm_def rng_ok_def)
  from assms(3) have "c \<in> set (chunks (batch_size l) ?order)"
    by (simp add: batch_indices_def Let_def split_beta)
  from chunks_nonempty[OF assms(2) this] set show ?thesis
    by (auto simp add: list_all_iff)
qed

lemma batch_indices_rng_ok: "rng_ok (snd (batch_indices l g)) = rng_ok g"
  by (simp add: batch_indices_def Let_def split_beta randperm_def)

lemma length_batch_indices:
  assumes "rng_ok g"
  shows "length (fst (batch_indices l g)) = len_loader l"
proof -
  have "length (perm_src g (tick g) n) = n" for n
  proof -
    from assms have "distinct (perm_src g (tick g) n)" "set (perm_src g (tick g) n) = {0..<n}"
      by (simp_all add: rng_ok_def)
    then show ?thesis using distinct_card by fastforce
  qed
  then show ?thesis
    by (simp add: batch_indices_def Let_def split_beta randperm_def length_chunks len_loader_def)
qed

lemma length_concat_data:
  assumes "list_all (\<lambda>t. length (data (image t)) = n) smps"
  shows "length (concat (map (\<lambda>t. data (image t)) smps)) = length smps * n"
  using assms by (induction smps) simp_all

lemma next_batch_ok:
  assumes "wf_dataset (dataset l)" "c \<noteq> []" "list_all (\<lambda>i. i < length (dataset l)) c"
  shows "\<exists>x ls. next_batch l c = Inr (x, ls) \<and> wf_tensor x \<and>
           shape x = length c # [1, 28, 28] \<and> length ls = length c \<and> list_all (\<lambda>t. t < 10) ls"
proof -
  let ?smps = "map (\<lambda>i. dataset l ! i) c"
  have all: "list_all (\<lambda>t. wf_tensor (image t) \<and> shape (image t) = [1, 28, 28] \<and> label t < 10) ?smps"
    using assms(1,3) by (auto simp add: wf_dataset_def list_all_iff)
  then have len: "list_all (\<lambda>t. length (data (image t)) = 784) ?smps"
    by (auto simp add: list_all_iff wf_tensor_def numel_def)
  from assms(2) obtain i c' where c: "c = i # c'" by (cases c) auto
  have "collate ?smps =
      Inr (\<lparr>shape = length c # [1, 28, 28], data = concat (map (\<lambda>t. data (image t)) ?smps)\<rparr>,
           map label ?smps)"
    using all by (simp add: collate_def c list_all_iff)
  moreover have "wf_tensor \<lparr>shape = length c # [1, 28, 28],
      data = concat (map (\<lambda>t. data (image t)) ?smps)\<rparr>"
    using length_concat_data[OF len] by (simp add: wf_tensor_def numel_def)
  moreover have "list_all (\<lambda>t. t < 10) (map label ?smps)"
    using all by (auto simp add: list_all_iff)
  ultimately show ?thesis
    using assms(3) by (simp add: next_batch_def)
qed

subsection \<open>The bodies succeed\<close>

text \<open>What the loops need of the call \<open>model(images)\<close>.\<close>


lemma fwd_total_baseline: "fwd_total call_baseline"
  unfolding fwd_total_def
proof (intro allI impI)
  fix m :: "'a classifier_scheme" and g x k
  assume h: "wf_classifier m \<and> wf_tensor x \<and> shape x = k # [1, 28, 28] \<and> 1 \<le> k"
  then obtain a4 where "forward_baseline m x = Inr (log_softmax a4)" "is_matrix k 10 a4"
    using forward_baseline_matrix[of m x k "[1, 28, 28]"] by auto
  then show "\<exists>a4 g'. call_baseline m g x = Inr (log_softmax a4, g') \<and> is_matrix k 10 a4 \<and>
      rng_ok g' = rng_ok g"
    by (auto simp add: call_baseline_def)
qed

lemma dropout_fwd_rng_ok [simp]: "rng_ok (snd (dropout_fwd d t g xs)) = rng_ok g"
  by (simp add: dropout_fwd_def)

lemma forward_dropout_rng_ok:
  assumes "forward_dropout m g x = Inr (out, g')"
  shows "rng_ok g' = rng_ok g"
  using assms
  by (auto simp add: forward_dropout_def and_then_eq_Inr split_beta Let_def)

lemma fwd_total_dropout: "fwd_total forward_dropout"
  unfolding fwd_total_def
proof (intro allI impI)
  fix m :: classifier_dropout and g x k
  assume h: "wf_classifier m \<and> wf_tensor x \<and> shape x = k # [1, 28, 28] \<and> 1 \<le> k"
  then obtain a4 g' where *: "forward_dropout m g x = Inr (log_softmax a4, g')" "is_matrix k 10 a4"
    using forward_dropout_matrix[of m x k "[1, 28, 28]" g] by auto
  with forward_dropout_rng_ok[OF *(1)]
  show "\<exists>a4 g'. forward_dropout m g x = Inr (log_softmax a4, g') \<and> is_matrix k 10 a4 \<and>
      rng_ok g' = rng_ok g"
    by blast
qed

lemma NLLLoss_ok:
  assumes "is_matrix k 10 log_ps" "length ls = k" "list_all (\<lambda>t. t < 10) ls"
  shows "\<exists>loss. NLLLoss log_ps ls = Inr loss"
proof -
  have "\<not> length row \<le> t" if "(row, t) \<in> set (zip log_ps ls)" for row t
  proof -
    from that have "row \<in> set log_ps" "t \<in> set ls"
      by (auto dest: set_zip_leftD set_zip_rightD)
    with assms show ?thesis by (auto simp add: list_all_iff is_matrix_def)
  qed
  then have "\<not> list_ex (\<lambda>(row, t). length row \<le> t) (zip log_ps ls)"
    by (auto simp add: list_ex_iff)
  then show ?thesis using assms by (simp add: NLLLoss_def is_matrix_def)
qed


lemma train_body_ok:
  assumes "fwd_total fwd" "step_keeps_shapes step" "state_ok s"
    and "wf_tensor x" "shape x = k # [1, 28, 28]" "1 \<le> k" "length ls = k" "list_all (\<lambda>t. t < 10) ls"
  shows "\<exists>s'. train_body fwd step s (x, ls) = Inr (Normal s') \<and> state_ok s'"
proof -
  from assms(1,3,4,5,6) obtain a4 g' where
    f: "fwd (model s) (generator s) x = Inr (log_softmax a4, g')" "is_matrix k 10 a4"
      "rng_ok g' = rng_ok (generator s)"
    unfolding fwd_total_def state_ok_def by blast
  from NLLLoss_ok[OF log_softmax_matrix[OF f(2)] assms(7,8)] obtain loss where
    l: "NLLLoss (log_softmax a4) ls = Inr loss" by blast
  have "wf_classifier (set_parameters (model s)
      (fst (step (optimizer s) (model s) (generator s) x ls)))"
    using assms(2,3) unfolding step_keeps_shapes_def state_ok_def by blast
  then show ?thesis
    using f l assms(3) by (simp add: train_body_def split_beta state_ok_def)
qed

lemma valid_body_ok:
  assumes "fwd_total fwd" "state_ok s"
    and "wf_tensor x" "shape x = k # [1, 28, 28]" "1 \<le> k" "length ls = k" "list_all (\<lambda>t. t < 10) ls"
  shows "\<exists>s'. valid_body fwd s (x, ls) = Inr (Normal s') \<and> state_ok s'"
proof -
  from assms(1,2,3,4,5) obtain a4 g' where
    f: "fwd (model s) (generator s) x = Inr (log_softmax a4, g')" "is_matrix k 10 a4"
      "rng_ok g' = rng_ok (generator s)"
    unfolding fwd_total_def state_ok_def by blast
  have m: "is_matrix k 10 (log_softmax a4)" by (rule log_softmax_matrix[OF f(2)])
  from NLLLoss_ok[OF m assms(6,7)] obtain loss where
    l: "NLLLoss (log_softmax a4) ls = Inr loss" by blast
  have ne: "\<not> list_ex (\<lambda>row. row = []) (log_softmax a4)"
    using m by (auto simp add: is_matrix_def list_ex_iff list_all_iff)
  have len: "length (log_softmax a4) = k" using m by (simp add: is_matrix_def)
  show ?thesis
    using f l ne len assms(2,6)
    by (simp add: valid_body_def topk1_def equals_def state_ok_def)
qed

lemma for_stmt_success:
  assumes "P s" "list_all Q xs"
    and "\<And>s x. P s \<Longrightarrow> Q x \<Longrightarrow> \<exists>s'. body s x = Inr (Normal s') \<and> P s'"
  shows "\<exists>s'. for_stmt body xs s = Inr (Normal s') \<and> P s'"
  using assms
proof (induction xs arbitrary: s)
  case Nil
  then show ?case by simp
next
  case (Cons x xs)
  from Cons.prems obtain s1 where s1: "body s x = Inr (Normal s1)" "P s1" by auto
  from Cons.IH[OF s1(2) _ Cons.prems(3)] Cons.prems(2) s1(1) show ?case by simp
qed

lemma train_iter_ok:
  assumes "fwd_total fwd" "step_keeps_shapes step" "wf_dataset (dataset l)" "state_ok s"
    and "c \<noteq> [] \<and> list_all (\<lambda>i. i < length (dataset l)) c"
  shows "\<exists>s'. train_iter fwd step l s c = Inr (Normal s') \<and> state_ok s'"
proof -
  from next_batch_ok[OF assms(3)] assms(5) obtain x ls where
    b: "next_batch l c = Inr (x, ls)" "wf_tensor x" "shape x = length c # [1, 28, 28]"
       "length ls = length c" "list_all (\<lambda>t. t < 10) ls" by blast
  from assms(5) have "1 \<le> length c" by (cases c) auto
  from train_body_ok[OF assms(1,2,4) b(2,3) this b(4,5)] b(1) show ?thesis
    by (simp add: train_iter_def)
qed

lemma valid_iter_ok:
  assumes "fwd_total fwd" "wf_dataset (dataset l)" "state_ok s"
    and "c \<noteq> [] \<and> list_all (\<lambda>i. i < length (dataset l)) c"
  shows "\<exists>s'. valid_iter fwd l s c = Inr (Normal s') \<and> state_ok s'"
proof -
  from next_batch_ok[OF assms(2)] assms(4) obtain x ls where
    b: "next_batch l c = Inr (x, ls)" "wf_tensor x" "shape x = length c # [1, 28, 28]"
       "length ls = length c" "list_all (\<lambda>t. t < 10) ls" by blast
  from assms(4) have "1 \<le> length c" by (cases c) auto
  from valid_body_ok[OF assms(1,3) b(2,3) this b(4,5)] b(1) show ?thesis
    by (simp add: valid_iter_def)
qed

subsection \<open>The passes succeed\<close>

lemma wf_classifier_train_mode [simp]: "wf_classifier (train_mode m) = wf_classifier m"
  by (simp add: wf_classifier_def train_mode_def)

lemma wf_classifier_eval_mode [simp]: "wf_classifier (eval_mode m) = wf_classifier m"
  by (simp add: wf_classifier_def eval_mode_def)

lemma enter_loop_generator:
  "generator (snd (enter_loop l s)) = snd (batch_indices l (generator s))"
  by (simp add: enter_loop_def split_beta)

lemma fst_enter_loop: "fst (enter_loop l s) = fst (batch_indices l (generator s))"
  by (simp add: enter_loop_def split_beta)

lemma state_ok_enter_loop [simp]: "state_ok (snd (enter_loop l s)) = state_ok s"
  by (simp add: state_ok_def enter_loop_generator batch_indices_rng_ok)

lemma state_ok_begin [simp]:
  "state_ok (begin_training_baseline s) = state_ok s"
  "state_ok (begin_validation_baseline s) = state_ok s"
  "state_ok (begin_training_dropout s) = state_ok s"
  "state_ok (begin_validation_dropout s) = state_ok s"
  by (simp_all add: state_ok_def begin_training_baseline_def begin_validation_baseline_def
      begin_training_dropout_def begin_validation_dropout_def)

lemma enter_loop_batches_ok:
  assumes "state_ok s" "0 < batch_size l"
  shows "list_all (\<lambda>c. c \<noteq> [] \<and> list_all (\<lambda>i. i < length (dataset l)) c) (fst (enter_loop l s))"
  using batch_indices_ok[of "generator s" l] assms
  by (simp add: list_all_iff fst_enter_loop state_ok_def)

lemma training_loop_ok:
  assumes "fwd_total fwd" "step_keeps_shapes step" "wf_dataset (dataset l)" "0 < batch_size l"
    and "state_ok s"
  shows "\<exists>s'. for_stmt (train_iter fwd step l) (fst (enter_loop l s)) (snd (enter_loop l s))
            = Inr (Normal s') \<and> state_ok s'"
proof (rule for_stmt_success[where P = state_ok and
      Q = "\<lambda>c. c \<noteq> [] \<and> list_all (\<lambda>i. i < length (dataset l)) c"])
  show "state_ok (snd (enter_loop l s))" using assms(5) by simp
  show "list_all (\<lambda>c. c \<noteq> [] \<and> list_all (\<lambda>i. i < length (dataset l)) c) (fst (enter_loop l s))"
    by (rule enter_loop_batches_ok[OF assms(5,4)])
  show "\<exists>s'. train_iter fwd step l u c = Inr (Normal s') \<and> state_ok s'"
    if "state_ok u" "c \<noteq> [] \<and> list_all (\<lambda>i. i < length (dataset l)) c" for u c
    by (rule train_iter_ok[OF assms(1,2,3) that])
qed

lemma validation_loop_ok:
  assumes "fwd_total fwd" "wf_dataset (dataset l)" "0 < batch_size l" "state_ok s"
  shows "\<exists>s'. for_stmt (valid_iter fwd l) (fst (enter_loop l s)) (snd (enter_loop l s))
            = Inr (Normal s') \<and> state_ok s'"
proof (rule for_stmt_success[where P = state_ok and
      Q = "\<lambda>c. c \<noteq> [] \<and> list_all (\<lambda>i. i < length (dataset l)) c"])
  show "state_ok (snd (enter_loop l s))" using assms(4) by simp
  show "list_all (\<lambda>c. c \<noteq> [] \<and> list_all (\<lambda>i. i < length (dataset l)) c) (fst (enter_loop l s))"
    by (rule enter_loop_batches_ok[OF assms(4,3)])
  show "\<exists>s'. valid_iter fwd l u c = Inr (Normal s') \<and> state_ok s'"
    if "state_ok u" "c \<noteq> [] \<and> list_all (\<lambda>i. i < length (dataset l)) c" for u c
    by (rule valid_iter_ok[OF assms(1,2) that])
qed

lemma training_pass_baseline_ok:
  assumes "step_keeps_shapes step" "wf_dataset (dataset l)" "0 < batch_size l" "state_ok s"
  shows "\<exists>s'. training_pass_baseline step l s = Inr (Normal s') \<and> state_ok s'"
  using training_loop_ok[OF fwd_total_baseline assms(1,2,3), of "begin_training_baseline s"] assms(4)
  by (simp add: training_pass_baseline_def split_beta)

lemma training_pass_dropout_ok:
  assumes "step_keeps_shapes step" "wf_dataset (dataset l)" "0 < batch_size l" "state_ok s"
  shows "\<exists>s'. training_pass_dropout step l s = Inr (Normal s') \<and> state_ok s'"
  using training_loop_ok[OF fwd_total_dropout assms(1,2,3), of "begin_training_dropout s"] assms(4)
  by (simp add: training_pass_dropout_def split_beta)

lemma validation_pass_baseline_ok:
  assumes "wf_dataset (dataset l)" "0 < batch_size l" "state_ok s"
  shows "\<exists>s'. validation_pass_baseline l s = Inr (Normal s') \<and> state_ok s'"
  using validation_loop_ok[OF fwd_total_baseline assms(1,2), of "begin_validation_baseline s"] assms(3)
  by (simp add: validation_pass_baseline_def split_beta)

lemma validation_pass_dropout_ok:
  assumes "wf_dataset (dataset l)" "0 < batch_size l" "state_ok s"
  shows "\<exists>s'. validation_pass_dropout l s = Inr (Normal s') \<and> state_ok s'"
  using validation_loop_ok[OF fwd_total_dropout assms(1,2), of "begin_validation_dropout s"] assms(3)
  by (simp add: validation_pass_dropout_def split_beta)

lemma len_loader_pos:
  assumes "dataset l \<noteq> []" "0 < batch_size l"
  shows "0 < len_loader l"
proof -
  from assms have "batch_size l \<le> length (dataset l) + batch_size l - 1"
    by (cases "dataset l") auto
  with assms(2) show ?thesis
    by (simp add: len_loader_def div_greater_zero_iff)
qed

lemma report_epoch_ok:
  assumes "loaders_ok trl tel" "state_ok s"
  shows "\<exists>s'. report_epoch trl tel n e s = Inr s' \<and> state_ok s'"
  using assms len_loader_pos[of trl] len_loader_pos[of tel]
  by (simp add: report_epoch_def loaders_ok_def Let_def state_ok_def)

lemma epoch_baseline_ok:
  assumes "step_keeps_shapes step" "loaders_ok trl tel" "state_ok s"
  shows "\<exists>s'. epoch_baseline step trl tel n s e = Inr s' \<and> state_ok s'"
proof -
  from assms(2) have l: "wf_dataset (dataset trl)" "0 < batch_size trl"
      "wf_dataset (dataset tel)" "0 < batch_size tel"
    by (simp_all add: loaders_ok_def)
  from training_pass_baseline_ok[OF assms(1) l(1,2) assms(3)] obtain s1 where
    s1: "training_pass_baseline step trl s = Inr (Normal s1)" "state_ok s1" by blast
  from validation_pass_baseline_ok[OF l(3,4) s1(2)] obtain s2 where
    s2: "validation_pass_baseline tel s1 = Inr (Normal s2)" "state_ok s2" by blast
  from report_epoch_ok[OF assms(2) s2(2)] s1 s2 show ?thesis
    by (simp add: epoch_baseline_passes validate_baseline_passes)
qed

lemma epoch_dropout_ok:
  assumes "step_keeps_shapes step" "loaders_ok trl tel" "state_ok s"
  shows "\<exists>s'. epoch_dropout step trl tel n s e = Inr s' \<and> state_ok s'"
proof -
  from assms(2) have l: "wf_dataset (dataset trl)" "0 < batch_size trl"
      "wf_dataset (dataset tel)" "0 < batch_size tel"
    by (simp_all add: loaders_ok_def)
  from training_pass_dropout_ok[OF assms(1) l(1,2) assms(3)] obtain s1 where
    s1: "training_pass_dropout step trl s = Inr (Normal s1)" "state_ok s1" by blast
  from validation_pass_dropout_ok[OF l(3,4) s1(2)] obtain s2 where
    s2: "validation_pass_dropout tel s1 = Inr (Normal s2)" "state_ok s2" by blast
  from report_epoch_ok[OF assms(2) s2(2)] s1 s2 show ?thesis
    by (simp add: epoch_dropout_passes validate_dropout_passes)
qed

subsection \<open>The forward pass works row by row\<close>

lemma linear_fwd_Inr:
  "linear_fwd l xs = Inr ys \<longleftrightarrow>
     list_all (\<lambda>x. length x = in_features l) xs \<and> ys = map (affine_row l) xs"
  by (auto simp add: linear_fwd_def)

lemma forward_baseline_rowwise:
  "forward_baseline m x =
     and_then (flatten_input x) (\<lambda>rows.
       if list_all (row_ok m) rows then Inr (map (forward_row m) rows) else Inl RuntimeError)"
proof (cases "flatten_input x")
  case (Inl e)
  then show ?thesis by (simp add: forward_baseline_def)
next
  case (Inr rows)
  show ?thesis
  proof (cases "list_all (row_ok m) rows")
    case True
    then show ?thesis
      using Inr
      by (simp add: forward_baseline_def linear_fwd_def relu_def log_softmax_def
          list_all_iff row_ok_def forward_row_def)
  next
    case False
    then show ?thesis
      using Inr
      by (auto simp add: forward_baseline_def linear_fwd_def relu_def log_softmax_def
          list_all_iff row_ok_def forward_row_def)
  qed
qed

lemma take_drop_concat:
  assumes "list_all (\<lambda>d. length d = n) ds" "i < length ds"
  shows "take n (drop (i * n) (concat ds)) = ds ! i"
  using assms
proof (induction ds arbitrary: i)
  case Nil
  then show ?case by simp
next
  case (Cons d ds)
  show ?case
  proof (cases i)
    case 0
    with Cons.prems show ?thesis by simp
  next
    case (Suc j)
    with Cons.prems have "take n (drop (j * n) (concat ds)) = ds ! j"
      using Cons.IH[of j] by simp
    with Cons.prems Suc show ?thesis by simp
  qed
qed

lemma collate_Inr:
  assumes "collate smps = Inr (x, ls)"
  shows "smps \<noteq> [] \<and> ls = map label smps \<and>
         x = \<lparr>shape = length smps # shape (image (hd smps)),
              data = concat (map (\<lambda>t. data (image t)) smps)\<rparr> \<and>
         list_all (\<lambda>t. shape (image t) = shape (image (hd smps))) smps"
  using assms
  by (cases smps) (auto simp add: collate_def split: if_splits)

lemma flatten_collate:
  assumes "collate smps = Inr (x, ls)" "list_all (\<lambda>t. wf_tensor (image t)) smps"
  shows "flatten_input x = Inr (map (\<lambda>t. data (image t)) smps)"
proof -
  let ?sh = "shape (image (hd smps))"
  let ?n = "prod_list ?sh"
  let ?ds = "map (\<lambda>t. data (image t)) smps"
  from collate_Inr[OF assms(1)] have c: "smps \<noteq> []"
      "x = \<lparr>shape = length smps # ?sh, data = concat ?ds\<rparr>"
      "list_all (\<lambda>t. shape (image t) = ?sh) smps" by simp_all
  have len: "list_all (\<lambda>d. length d = ?n) ?ds"
    using c(3) assms(2) by (auto simp add: list_all_iff wf_tensor_def numel_def)
  have lc: "length (concat ?ds) = length smps * ?n"
    using length_concat_data[of ?n smps] len by (simp add: list_all_iff)
  have wf: "wf_tensor x" using lc by (simp add: c(2) wf_tensor_def numel_def)
  have sh: "shape x = length smps # ?sh" by (simp add: c(2))
  have "map (\<lambda>i. take ?n (drop (i * ?n) (data x))) [0..<length smps] = ?ds"
  proof (rule nth_equalityI)
    show "length (map (\<lambda>i. take ?n (drop (i * ?n) (data x))) [0..<length smps]) = length ?ds"
      by simp
  next
    fix i assume "i < length (map (\<lambda>i. take ?n (drop (i * ?n) (data x))) [0..<length smps])"
    then have i: "i < length ?ds" by simp
    from take_drop_concat[OF len i] i
    show "map (\<lambda>i. take ?n (drop (i * ?n) (data x))) [0..<length smps] ! i = ?ds ! i"
      by (simp add: c(2))
  qed
  with flatten_input_rows[OF sh wf] c(1) show ?thesis by simp
qed

subsection \<open>The validation loop counts the correct samples\<close>

lemma next_batch_Inr:
  assumes "next_batch l idx = Inr (x, ls)"
  shows "list_all (\<lambda>i. i < length (dataset l)) idx \<and>
         collate (map (\<lambda>i. dataset l ! i) idx) = Inr (x, ls)"
  using assms by (auto simp add: next_batch_def split: if_splits)

lemma count_true_map2:
  "count_true (map2 (=) (map f xs) (map h xs)) = real (length (filter (\<lambda>x. f x = h x) xs))"
  by (induction xs) (simp_all add: count_true_def)

lemma topk1_single:
  "row \<noteq> [] \<Longrightarrow> topk1 [row] = Inr ([fst (top1 row)], [snd (top1 row)])"
  by (simp add: topk1_def)

lemma predicted_class_baseline:
  assumes "wf_tensor (image smp)" "row_ok m (data (image smp))"
    and "forward_row m (data (image smp)) \<noteq> []"
  shows "predicted_class call_baseline m g smp
         = Some (snd (top1 (forward_row m (data (image smp)))))"
proof -
  obtain x ls where c: "collate [smp] = Inr (x, ls)"
    by (simp add: collate_def)
  from flatten_collate[OF c] assms(1) have "flatten_input x = Inr [data (image smp)]" by simp
  then have "forward_baseline m x = Inr [forward_row m (data (image smp))]"
    using assms(2) by (simp add: forward_baseline_rowwise)
  then show ?thesis
    using c assms(3) by (simp add: predicted_class_def call_baseline_def topk1_single)
qed

lemma valid_iter_baseline_step:
  assumes "valid_iter call_baseline l s idx = Inr (Normal s')"
    and "list_all (\<lambda>t. wf_tensor (image t)) (dataset l)"
  shows "model s' = model s \<and> generator s' = generator s \<and>
         testing_loss s' = testing_loss s + batch_loss call_baseline l s idx \<and>
         accuracy s' = accuracy s +
           real (length (filter (\<lambda>i. predicted_class call_baseline (model s) g (dataset l ! i)
                                       = Some (label (dataset l ! i))) idx))"
proof -
  let ?m = "model s"
  let ?smps = "map (\<lambda>i. dataset l ! i) idx"
  let ?rows = "map (\<lambda>t. data (image t)) ?smps"
  from valid_iter_Normal[OF assms(1)] obtain x ls where
    b: "next_batch l idx = Inr (x, ls)" "valid_body call_baseline s (x, ls) = Inr (Normal s')"
    by (metis surj_pair)
  from valid_body_Normal[OF b(2)] obtain log_ps g' loss where
    v: "call_baseline ?m (generator s) x = Inr (log_ps, g')" "NLLLoss log_ps ls = Inr loss"
       "\<not> list_ex (\<lambda>row. row = []) log_ps" "length ls = length log_ps"
       "s' = s\<lparr>generator := g', testing_loss := testing_loss s + loss,
               accuracy := accuracy s + count_true (map2 (=) (map (snd \<circ> top1) log_ps) ls)\<rparr>"
    by auto
  from v(1) have f: "forward_baseline ?m x = Inr log_ps" and g': "g' = generator s"
    by (auto simp add: call_baseline_def and_then_eq_Inr)
  from next_batch_Inr[OF b(1)] have idx: "list_all (\<lambda>i. i < length (dataset l)) idx"
    and c: "collate ?smps = Inr (x, ls)" by simp_all
  have wf: "list_all (\<lambda>t. wf_tensor (image t)) ?smps"
    using idx assms(2) by (auto simp add: list_all_iff)
  from flatten_collate[OF c wf] have fl: "flatten_input x = Inr ?rows" .
  from f fl have rows: "list_all (row_ok ?m) ?rows" and out: "log_ps = map (forward_row ?m) ?rows"
    by (auto simp add: forward_baseline_rowwise split: if_splits)
  from collate_Inr[OF c] have ls: "ls = map label ?smps" by simp
  have pc: "predicted_class call_baseline ?m g (dataset l ! i)
            = Some (snd (top1 (forward_row ?m (data (image (dataset l ! i))))))"
    if "i \<in> set idx" for i
  proof (rule predicted_class_baseline)
    from that idx assms(2) show "wf_tensor (image (dataset l ! i))"
      by (auto simp add: list_all_iff)
    from that rows show "row_ok ?m (data (image (dataset l ! i)))"
      by (auto simp add: list_all_iff)
    from that have "forward_row ?m (data (image (dataset l ! i))) \<in> set log_ps"
      unfolding out by (simp add: image_iff) blast
    with v(3) show "forward_row ?m (data (image (dataset l ! i))) \<noteq> []"
      by (auto simp add: list_ex_iff)
  qed
  have "count_true (map2 (=) (map (snd \<circ> top1) log_ps) ls)
        = real (length (filter (\<lambda>i. snd (top1 (forward_row ?m (data (image (dataset l ! i)))))
                                      = label (dataset l ! i)) idx))"
    using count_true_map2[of "\<lambda>i. snd (top1 (forward_row ?m (data (image (dataset l ! i)))))"
        idx "\<lambda>i. label (dataset l ! i)"]
    by (simp add: out ls comp_def)
  also have "\<dots> = real (length (filter (\<lambda>i. predicted_class call_baseline ?m g (dataset l ! i)
                                      = Some (label (dataset l ! i))) idx))"
    by (simp add: pc cong: filter_cong)
  finally have acc: "count_true (map2 (=) (map (snd \<circ> top1) log_ps) ls)
        = real (length (filter (\<lambda>i. predicted_class call_baseline ?m g (dataset l ! i)
                                      = Some (label (dataset l ! i))) idx))" .
  have bl: "batch_loss call_baseline l s idx = loss"
    using b(1) v(1,2) by (simp add: batch_loss_def batch_result_def)
  show ?thesis
    using v(5) g' acc bl by simp
qed

lemma batch_loss_cong:
  "model s1 = model s2 \<Longrightarrow> generator s1 = generator s2 \<Longrightarrow>
   batch_loss fwd l s1 idx = batch_loss fwd l s2 idx"
  by (simp add: batch_loss_def batch_result_def)

lemma validation_loop_baseline_metrics:
  assumes "for_stmt (valid_iter call_baseline l) xs s = Inr (Normal s')"
    and "list_all (\<lambda>t. wf_tensor (image t)) (dataset l)"
  shows "model s' = model s \<and> generator s' = generator s \<and>
         testing_loss s' = testing_loss s + sum_list (map (batch_loss call_baseline l s) xs) \<and>
         accuracy s' = accuracy s +
           real (length (filter (\<lambda>i. predicted_class call_baseline (model s) g (dataset l ! i)
                                       = Some (label (dataset l ! i))) (concat xs)))"
  using assms(1)
proof (induction xs arbitrary: s)
  case Nil
  then show ?case by simp
next
  case (Cons idx xs)
  from Cons.prems obtain s1 where s1: "valid_iter call_baseline l s idx = Inr (Normal s1)"
      "for_stmt (valid_iter call_baseline l) xs s1 = Inr (Normal s')"
    by (auto split: sum.splits flow.splits)
  note st = valid_iter_baseline_step[OF s1(1) assms(2), of g]
  note ih = Cons.IH[OF s1(2)]
  have bl: "map (batch_loss call_baseline l s1) xs = map (batch_loss call_baseline l s) xs"
    using st by (simp add: batch_loss_cong[of s1 s])
  show ?case
    using st ih bl by simp
qed

lemma concat_take_chunks:
  "concat (map (\<lambda>k. take n (drop (k * n) xs)) [0..<m]) = take (m * n) xs"
proof (induction m)
  case 0
  then show ?case by simp
next
  case (Suc m)
  have "take (m * n) xs @ take n (drop (m * n) xs) = take (m * n + n) xs"
    by (simp add: take_add)
  with Suc show ?case by (simp add: add.commute)
qed

lemma concat_chunks:
  assumes "0 < n"
  shows "concat (chunks n xs) = xs"
proof -
  let ?a = "length xs + n - 1"
  have "?a div n * n = ?a - ?a mod n" by (simp add: minus_mod_eq_div_mult)
  moreover have "?a mod n < n" using assms by simp
  ultimately have "length xs \<le> ?a div n * n" using assms by linarith
  then show ?thesis by (simp add: chunks_def concat_take_chunks)
qed

lemma batch_indices_concat:
  assumes "rng_ok g" "0 < batch_size l"
  shows "distinct (concat (fst (batch_indices l g))) \<and>
         set (concat (fst (batch_indices l g))) = {0..<length (dataset l)}"
  using assms
  by (simp add: batch_indices_def Let_def split_beta concat_chunks randperm_def rng_ok_def)

lemma length_filter_permutation:
  assumes "distinct xs" "set xs = {0..<n}"
  shows "length (filter P xs) = length (filter P [0..<n])"
proof -
  have "length (filter P xs) = card ({i. P i} \<inter> set xs)"
    using assms(1) by (simp add: distinct_length_filter)
  also have "\<dots> = card ({i. P i} \<inter> set [0..<n])" using assms(2) by simp
  also have "\<dots> = length (filter P [0..<n])"
    by (simp add: distinct_length_filter)
  finally show ?thesis .
qed

subsection \<open>The forward pass flattens its input\<close>

lemma length_affine_row:
  "wf_linear n k l \<Longrightarrow> length (affine_row l r) = k"
  by (simp add: wf_linear_def affine_row_def)

lemma row_ok_wf:
  assumes "wf_classifier m" "length r = 784"
  shows "row_ok m r"
proof -
  from assms(1) have l: "wf_linear 784 256 (fc1 m)" "wf_linear 256 128 (fc2 m)"
      "wf_linear 128 64 (fc3 m)" "wf_linear 64 10 (fc4 m)"
    by (simp_all add: wf_classifier_def)
  from l have f: "in_features (fc1 m) = 784" "in_features (fc2 m) = 256"
      "in_features (fc3 m) = 128" "in_features (fc4 m) = 64"
    by (simp_all add: wf_linear_def)
  show ?thesis
    using assms(2)
    by (simp add: row_ok_def f length_affine_row[OF l(1)] length_affine_row[OF l(2)]
        length_affine_row[OF l(3)])
qed

lemma flatten_input_content:
  assumes "shape x = b # dims" "prod_list dims = n" "wf_tensor x" "1 \<le> b"
  shows "\<exists>rows. flatten_input x = Inr rows \<and> length rows = b \<and>
           list_all (\<lambda>r. length r = n) rows \<and> concat rows = data x"
proof -
  let ?rows = "map (\<lambda>i. take n (drop (i * n) (data x))) [0..<b]"
  have fl: "flatten_input x = Inr ?rows"
    using flatten_input_rows[OF assms(1,3)] assms(2,4) by simp
  from flatten_input_matrix[OF assms(1,3,4)] fl assms(2)
  have m: "is_matrix b n ?rows" by simp
  have "length (data x) = b * n"
    using assms(1,2,3) by (simp add: wf_tensor_def numel_def)
  then have "concat ?rows = data x" by (simp add: concat_take_chunks)
  with fl m show ?thesis unfolding is_matrix_def by blast
qed

lemma forward_dropout_rows:
  assumes "flatten_input x = Inr rows"
  shows "forward_dropout m g x
         = run_pipeline (training m) (spec_pipeline m (Some (drop_p (dropout m)))) (rows, g)"
  using run_pipeline_dropout[of x m g] assms by simp

text \<open>
  Claim C10. The forward pass flattens its input itself, by a reshape that keeps the first
  (batch) dimension: for every well-formed input whose first dimension is \<open>b \<ge> 1\<close> and
  whose other dimensions multiply to 784, the view gives \<open>b\<close> rows of 784 elements each,
  which are the elements of the input in order. The baseline output is the forward
  computation applied to each of these rows, the output of the dropout variant is its
  pipeline run on these rows (in evaluation mode the same row-wise computation), and
  both have \<open>b\<close> rows. So the output is the output for the same elements given in shape
  \<open>b \<times> 784\<close>, and such an input is accepted by a model with the layer sizes of the
  constructors; the caller need not flatten.
\<close>
theorem forward_flattens_input:
  assumes "shape x = b # dims" "prod_list dims = 784"
  shows "forward_baseline mb x = forward_baseline mb (x\<lparr>shape := [b, 784]\<rparr>) \<and>
         forward_dropout md g x = forward_dropout md g (x\<lparr>shape := [b, 784]\<rparr>) \<and>
         (wf_classifier mb \<and> wf_classifier md \<and> wf_tensor x \<and> 1 \<le> b \<longrightarrow>
            (\<exists>out. forward_baseline mb x = Inr out) \<and>
            (\<exists>out g'. forward_dropout md g x = Inr (out, g'))) \<and>
         (wf_tensor x \<and> 1 \<le> b \<longrightarrow>
            (\<exists>rows. flatten_input x = Inr rows \<and> length rows = b \<and>
               list_all (\<lambda>r. length r = 784) rows \<and> concat rows = data x \<and>
               forward_dropout md g x
                 = run_pipeline (training md)
                     (spec_pipeline md (Some (drop_p (dropout md)))) (rows, g) \<and>
               (wf_classifier mb \<longrightarrow>
                  forward_baseline mb x = Inr (map (forward_row mb) rows)) \<and>
               (wf_classifier md \<longrightarrow>
                  (\<exists>out g'. forward_dropout md g x = Inr (out, g') \<and> length out = b)) \<and>
               (wf_classifier md \<and> \<not> training md \<longrightarrow>
                  forward_dropout md g x = Inr (map (forward_row md) rows, g))))"
proof -
  have e1: "forward_baseline mb x = forward_baseline mb (x\<lparr>shape := [b, 784]\<rparr>)"
    by (simp add: forward_baseline_def flatten_input_shape[OF assms])
  have e2: "forward_dropout md g x = forward_dropout md g (x\<lparr>shape := [b, 784]\<rparr>)"
    by (simp add: forward_dropout_def flatten_input_shape[OF assms])
  have acc: "(\<exists>out. forward_baseline mb x = Inr out) \<and>
      (\<exists>out g'. forward_dropout md g x = Inr (out, g'))"
    if h: "wf_classifier mb \<and> wf_classifier md \<and> wf_tensor x \<and> 1 \<le> b"
    using forward_baseline_matrix[of mb x b dims] forward_dropout_matrix[of md x b dims g]
      assms h by blast
  have rows: "\<exists>rows. flatten_input x = Inr rows \<and> length rows = b \<and>
      list_all (\<lambda>r. length r = 784) rows \<and> concat rows = data x \<and>
      forward_dropout md g x
        = run_pipeline (training md) (spec_pipeline md (Some (drop_p (dropout md)))) (rows, g) \<and>
      (wf_classifier mb \<longrightarrow> forward_baseline mb x = Inr (map (forward_row mb) rows)) \<and>
      (wf_classifier md \<longrightarrow>
         (\<exists>out g'. forward_dropout md g x = Inr (out, g') \<and> length out = b)) \<and>
      (wf_classifier md \<and> \<not> training md \<longrightarrow>
         forward_dropout md g x = Inr (map (forward_row md) rows, g))"
    if h: "wf_tensor x \<and> 1 \<le> b"
  proof -
    from h have wf: "wf_tensor x" and b: "1 \<le> b" by simp_all
    from flatten_input_content[OF assms wf b] obtain rows where
      r: "flatten_input x = Inr rows" "length rows = b"
         "list_all (\<lambda>r. length r = 784) rows" "concat rows = data x" by blast
    have base: "forward_baseline m x = Inr (map (forward_row m) rows)"
      if "wf_classifier m" for m :: "'z classifier_scheme"
    proof -
      from r(3) that have "list_all (row_ok m) rows"
        by (auto simp add: list_all_iff intro: row_ok_wf)
      then show ?thesis by (simp add: forward_baseline_rowwise r(1))
    qed
    have d1: "\<exists>out g'. forward_dropout md g x = Inr (out, g') \<and> length out = b"
      if w: "wf_classifier md"
    proof -
      from forward_dropout_matrix[OF w wf assms(1) b assms(2), of g] obtain a4 g' where
        "forward_dropout md g x = Inr (log_softmax a4, g')" "is_matrix b 10 a4" by blast
      then show ?thesis by (auto simp add: is_matrix_def log_softmax_def)
    qed
    have d2: "forward_dropout md g x = Inr (map (forward_row md) rows, g)"
      if "wf_classifier md \<and> \<not> training md"
      using that base[of md] by (simp add: forward_dropout_eval)
    from r forward_dropout_rows[OF r(1), of md g] base[of mb] d1 d2 show ?thesis by blast
  qed
  from e1 e2 acc rows show ?thesis by blast
qed

subsection \<open>Evaluation mode\<close>

lemma forward_dropout_eval_call:
  "\<not> training m \<Longrightarrow> forward_dropout m g x = call_baseline m g x"
  by (simp add: forward_dropout_eval call_baseline_def)

lemma valid_iter_dropout_eval:
  assumes "\<not> training (model s)"
  shows "valid_iter forward_dropout l s idx = valid_iter call_baseline l s idx"
proof -
  have "valid_body forward_dropout s = valid_body call_baseline s"
    using assms by (intro ext) (simp add: valid_body_def forward_dropout_eval_call)
  then show ?thesis by (simp add: valid_iter_def)
qed

lemma validation_loop_dropout_eval:
  assumes "\<not> training (model s)"
  shows "for_stmt (valid_iter forward_dropout l) xs s = for_stmt (valid_iter call_baseline l) xs s"
proof (rule for_stmt_cong[where P = "\<lambda>u. \<not> training (model u)"])
  show "\<not> training (model s)" by (rule assms)
  show "valid_iter forward_dropout l u x = valid_iter call_baseline l u x"
    if "\<not> training (model u)" for u x
    using that by (rule valid_iter_dropout_eval)
  show "\<not> training (model u')"
    if "\<not> training (model u)" "valid_iter call_baseline l u x = Inr (Normal u')" for u x u'
    using that valid_iter_model[of call_baseline l u x u'] by simp
qed

lemma predicted_class_dropout_eval:
  "\<not> training m \<Longrightarrow> predicted_class forward_dropout m g smp = predicted_class call_baseline m g smp"
  by (simp add: predicted_class_def forward_dropout_eval_call)

lemma batch_loss_dropout_eval:
  "\<not> training (model st) \<Longrightarrow> batch_loss forward_dropout l st idx = batch_loss call_baseline l st idx"
  by (simp add: batch_loss_def batch_result_def forward_dropout_eval_call)

subsection \<open>Accumulated training loss\<close>

lemma train_iter_step:
  assumes "train_iter fwd step l s idx = Inr (Normal s')"
  shows "running_loss s' = running_loss s + batch_loss fwd l s idx \<and>
         (\<exists>x out. fwd (model s) (generator s) x = Inr (out, generator s'))"
proof -
  from train_iter_Normal[OF assms] obtain x ls where
    b: "next_batch l idx = Inr (x, ls)" "train_body fwd step s (x, ls) = Inr (Normal s')"
    by (metis surj_pair)
  from train_body_Normal[OF b(2)] obtain log_ps g' loss where
    v: "fwd (model s) (generator s) x = Inr (log_ps, g')" "NLLLoss log_ps ls = Inr loss"
       "running_loss s' = running_loss s + loss" "generator s' = g'"
    by auto
  have "batch_loss fwd l s idx = loss" using b(1) v(1,2) by (simp add: batch_loss_def batch_result_def)
  with v show ?thesis by auto
qed

lemma training_loop_running_loss:
  assumes "for_stmt (train_iter fwd step l) xs s = Inr (Normal s')"
  shows "running_loss s' = running_loss s +
           sum_list (map2 (batch_loss fwd l) (pre_states (train_iter fwd step l) xs s) xs) \<and>
         length (pre_states (train_iter fwd step l) xs s) = length xs"
  using assms
proof (induction xs arbitrary: s)
  case Nil
  then show ?case by simp
next
  case (Cons idx xs)
  from Cons.prems obtain s1 where s1: "train_iter fwd step l s idx = Inr (Normal s1)"
      "for_stmt (train_iter fwd step l) xs s1 = Inr (Normal s')"
    by (auto split: sum.splits flow.splits)
  from train_iter_step[OF s1(1)] Cons.IH[OF s1(2)] s1(1) show ?case by simp
qed

lemma training_loop_rng_ok:
  assumes "for_stmt (train_iter fwd step l) xs s = Inr (Normal s')"
    and "\<And>m g x out g'. fwd m g x = Inr (out, g') \<Longrightarrow> rng_ok g' = rng_ok g"
  shows "rng_ok (generator s') = rng_ok (generator s)"
proof (rule for_stmt_invariant[where P = "\<lambda>u. rng_ok (generator u) = rng_ok (generator s)",
      OF assms(1)])
  show "rng_ok (generator s) = rng_ok (generator s)" by simp
  show "rng_ok (generator u') = rng_ok (generator s)"
    if "rng_ok (generator u) = rng_ok (generator s)"
      "train_iter fwd step l u x = Inr (Normal u')" for u x u'
  proof -
    from train_iter_step[OF that(2)] obtain x out where
      "fwd (model u) (generator u) x = Inr (out, generator u')" by blast
    from assms(2)[OF this] that(1) show ?thesis by simp
  qed
qed

lemma train_iter_batch_result:
  assumes "train_iter fwd step l s idx = Inr (Normal s')"
  shows "\<exists>v. batch_result fwd l s idx = Inr v"
proof -
  from train_iter_Normal[OF assms] obtain x ls where
    b: "next_batch l idx = Inr (x, ls)" "train_body fwd step s (x, ls) = Inr (Normal s')"
    by (metis surj_pair)
  from train_body_Normal[OF b(2)] obtain log_ps g' loss where
    "fwd (model s) (generator s) x = Inr (log_ps, g')" "NLLLoss log_ps ls = Inr loss"
    by auto
  with b(1) show ?thesis by (simp add: batch_result_def)
qed

lemma valid_iter_batch_result:
  assumes "valid_iter fwd l s idx = Inr (Normal s')"
  shows "\<exists>v. batch_result fwd l s idx = Inr v"
proof -
  from valid_iter_Normal[OF assms] obtain x ls where
    b: "next_batch l idx = Inr (x, ls)" "valid_body fwd s (x, ls) = Inr (Normal s')"
    by (metis surj_pair)
  from valid_body_Normal[OF b(2)] obtain log_ps g' loss where
    "fwd (model s) (generator s) x = Inr (log_ps, g')" "NLLLoss log_ps ls = Inr loss"
    by auto
  with b(1) show ?thesis by (simp add: batch_result_def)
qed

lemma training_loop_batches:
  assumes "for_stmt (train_iter fwd step l) xs s = Inr (Normal s')"
  shows "list_all (\<lambda>(st, idx). \<exists>v. batch_result fwd l st idx = Inr v)
           (zip (pre_states (train_iter fwd step l) xs s) xs)"
  using assms
proof (induction xs arbitrary: s)
  case Nil
  then show ?case by simp
next
  case (Cons idx xs)
  from Cons.prems obtain s1 where s1: "train_iter fwd step l s idx = Inr (Normal s1)"
      "for_stmt (train_iter fwd step l) xs s1 = Inr (Normal s')"
    by (auto split: sum.splits flow.splits)
  from train_iter_batch_result[OF s1(1)] Cons.IH[OF s1(2)] s1(1) show ?case by simp
qed

lemma validation_loop_batches:
  assumes "for_stmt (valid_iter fwd l) xs s = Inr (Normal s')"
  shows "list_all (\<lambda>(st, idx). \<exists>v. batch_result fwd l st idx = Inr v)
           (zip (pre_states (valid_iter fwd l) xs s) xs)"
  using assms
proof (induction xs arbitrary: s)
  case Nil
  then show ?case by simp
next
  case (Cons idx xs)
  from Cons.prems obtain s1 where s1: "valid_iter fwd l s idx = Inr (Normal s1)"
      "for_stmt (valid_iter fwd l) xs s1 = Inr (Normal s')"
    by (auto split: sum.splits flow.splits)
  from valid_iter_batch_result[OF s1(1)] Cons.IH[OF s1(2)] s1(1) show ?case by simp
qed

subsection \<open>Losses are not negative\<close>

lemma exp_le_sum_list_exp:
  "v \<in> set row \<Longrightarrow> exp v \<le> sum_list (map exp (row :: real list))"
proof (induction row)
  case Nil
  then show ?case by simp
next
  case (Cons a row)
  have nn: "0 \<le> sum_list (map exp row)" by (rule sum_list_nonneg) auto
  show ?case
  proof (cases "v = a")
    case True
    with nn show ?thesis by simp
  next
    case False
    with Cons have "exp v \<le> sum_list (map exp row)" by simp
    moreover have "sum_list (map exp (a # row)) = exp a + sum_list (map exp row)" by simp
    ultimately show ?thesis using exp_ge_zero[of a] by linarith
  qed
qed

lemma log_softmax_row_nonpos:
  assumes "u \<in> set (log_softmax_row row)"
  shows "u \<le> 0"
proof -
  from assms obtain v where v: "v \<in> set row" "u = ln (exp v / sum_list (map exp row))"
    by (auto simp add: log_softmax_row_def)
  from v(1) have ne: "row \<noteq> []" by auto
  have pos: "0 < sum_list (map exp row)" by (rule sum_list_exp_pos[OF ne])
  have "exp v / sum_list (map exp row) \<le> 1"
    using exp_le_sum_list_exp[OF v(1)] pos by simp
  moreover have "0 < exp v / sum_list (map exp row)" using pos by simp
  ultimately show ?thesis using v(2) by simp
qed

lemma NLLLoss_nonneg:
  assumes "NLLLoss (log_softmax a) ls = Inr loss"
  shows "0 \<le> loss"
proof -
  let ?z = "zip (log_softmax a) ls"
  from assms have ok: "\<not> list_ex (\<lambda>(row, t). length row \<le> t) ?z"
    and loss: "loss = sum_list (map (\<lambda>(row, t). - (row ! t)) ?z) / real (length ls)"
    by (auto simp add: NLLLoss_def split: if_splits)
  have "0 \<le> - (row ! t)" if "(row, t) \<in> set ?z" for row t
  proof -
    from that ok have t: "t < length row" by (auto simp add: list_ex_iff)
    from that have "row \<in> set (log_softmax a)" by (rule set_zip_leftD)
    then obtain r where "row = log_softmax_row r" by (auto simp add: log_softmax_def)
    with t log_softmax_row_nonpos[of "row ! t" r] show ?thesis by simp
  qed
  then have "0 \<le> sum_list (map (\<lambda>(row, t). - (row ! t)) ?z)"
    by (intro sum_list_nonneg) auto
  then show ?thesis by (simp add: loss)
qed

lemma forward_baseline_log_softmax:
  "forward_baseline m x = Inr out \<Longrightarrow> \<exists>a. out = log_softmax a"
  by (auto simp add: forward_baseline_def and_then_eq_Inr)

lemma call_baseline_log_softmax:
  "call_baseline m g x = Inr (out, g') \<Longrightarrow> (\<exists>a. out = log_softmax a) \<and> g' = g"
  by (auto simp add: call_baseline_def and_then_eq_Inr dest: forward_baseline_log_softmax)

lemma forward_dropout_log_softmax:
  "forward_dropout m g x = Inr (out, g') \<Longrightarrow> \<exists>a. out = log_softmax a"
  by (auto simp add: forward_dropout_def and_then_eq_Inr split_beta Let_def)

lemma batch_loss_nonneg:
  assumes "\<And>m g x out g'. fwd m g x = Inr (out, g') \<Longrightarrow> \<exists>a. out = log_softmax a"
  shows "0 \<le> batch_loss fwd l st idx"
proof (cases "batch_result fwd l st idx")
  case (Inl e)
  then show ?thesis by (simp add: batch_loss_def batch_result_def)
next
  case (Inr v)
  then obtain x ls out g' where "fwd (model st) (generator st) x = Inr (out, g')"
      "NLLLoss out ls = Inr v"
    by (auto simp add: batch_result_def and_then_eq_Inr)
  with assms NLLLoss_nonneg have "0 \<le> v" by blast
  with Inr show ?thesis by (simp add: batch_loss_def batch_result_def)
qed

lemma batch_loss_baseline_nonneg: "0 \<le> batch_loss call_baseline l st idx"
  by (rule batch_loss_nonneg) (auto dest: call_baseline_log_softmax)

lemma batch_loss_dropout_nonneg: "0 \<le> batch_loss forward_dropout l st idx"
  by (rule batch_loss_nonneg) (auto dest: forward_dropout_log_softmax)

lemma map2_nonneg:
  assumes "\<And>a b. 0 \<le> f a b"
  shows "list_all (\<lambda>v. 0 \<le> (v :: real)) (map2 f xs ys)"
  using assms by (auto simp add: list_all_iff)

lemma train_losses_baseline_nonneg: "list_all (\<lambda>v. 0 \<le> v) (train_losses_baseline step trl s)"
  by (simp add: train_losses_baseline_def split_beta map2_nonneg batch_loss_baseline_nonneg)

lemma train_losses_dropout_nonneg: "list_all (\<lambda>v. 0 \<le> v) (train_losses_dropout step trl s)"
  by (simp add: train_losses_dropout_def split_beta map2_nonneg batch_loss_dropout_nonneg)

subsection \<open>Frames of the two loop bodies\<close>

lemma train_iter_frame:
  assumes "train_iter fwd step l s idx = Inr (Normal s')"
  shows "stdout s' = stdout s \<and> testing_loss s' = testing_loss s \<and> accuracy s' = accuracy s"
proof -
  from train_iter_Normal[OF assms] obtain batch where
    "train_body fwd step s batch = Inr (Normal s')" by blast
  from train_body_Normal[OF this] show ?thesis by auto
qed

lemma valid_iter_frame:
  assumes "valid_iter fwd l s idx = Inr (Normal s')"
  shows "stdout s' = stdout s \<and> running_loss s' = running_loss s \<and> optimizer s' = optimizer s"
proof -
  from valid_iter_Normal[OF assms] obtain batch where
    "valid_body fwd s batch = Inr (Normal s')" by blast
  from valid_body_Normal[OF this] show ?thesis by auto
qed

lemma training_loop_frame:
  assumes "for_stmt (train_iter fwd step l) xs s = Inr (Normal s')"
  shows "stdout s' = stdout s"
  by (rule for_stmt_invariant[where P = "\<lambda>u. stdout u = stdout s", OF assms])
     (simp_all add: train_iter_frame)

lemma validation_loop_frame:
  assumes "for_stmt (valid_iter fwd l) xs s = Inr (Normal s')"
  shows "stdout s' = stdout s \<and> running_loss s' = running_loss s"
  by (rule for_stmt_invariant[where
        P = "\<lambda>u. stdout u = stdout s \<and> running_loss u = running_loss s", OF assms])
     (simp_all add: valid_iter_frame)

lemma enter_loop_fields [simp]:
  "running_loss (snd (enter_loop l s)) = running_loss s"
  "testing_loss (snd (enter_loop l s)) = testing_loss s"
  "accuracy (snd (enter_loop l s)) = accuracy s"
  "stdout (snd (enter_loop l s)) = stdout s"
  "optimizer (snd (enter_loop l s)) = optimizer s"
  by (simp_all add: enter_loop_def split_beta)

lemma length_enter_loop:
  "rng_ok (generator s) \<Longrightarrow> length (fst (enter_loop l s)) = len_loader l"
  by (simp add: fst_enter_loop length_batch_indices)

subsection \<open>The report\<close>

lemma len_loader_dataset:
  assumes "0 < len_loader l"
  shows "0 < length (dataset l)"
proof (rule ccontr)
  assume "\<not> 0 < length (dataset l)"
  then have "len_loader l = (batch_size l - 1) div batch_size l"
    by (simp add: len_loader_def)
  also have "\<dots> = 0"
    by (cases "batch_size l = 0") simp_all
  finally show False using assms by simp
qed

lemma report_epoch_Inr:
  assumes "report_epoch trl tel n e s = Inr s'"
  shows "0 < len_loader trl \<and> 0 < len_loader tel \<and> 0 < length (dataset tel) \<and>
         running_loss s' = running_loss s / real (len_loader trl) \<and>
         testing_loss s' = testing_loss s / real (len_loader tel) \<and>
         accuracy s' = accuracy s / real (length (dataset tel)) \<and>
         stdout s' = stdout s @
           [\<lparr>epoch = e + 1, epochs = n, training_loss = running_loss s',
             test_loss = testing_loss s', accuracy_percent = accuracy s' * 100\<rparr>] \<and>
         model s' = model s \<and> generator s' = generator s"
  using assms len_loader_dataset[of tel]
  by (auto simp add: report_epoch_def Let_def split: if_splits)

lemma len_loader_batch_size: "0 < len_loader l \<Longrightarrow> 0 < batch_size l"
  by (cases "batch_size l = 0") (simp_all add: len_loader_def)

subsection \<open>The validation pass\<close>

lemma validation_loop_metrics:
  assumes loop: "for_stmt (valid_iter call_baseline l) (fst (enter_loop l s0))
                    (snd (enter_loop l s0)) = Inr (Normal s2)"
    and zero: "testing_loss s0 = 0" "accuracy s0 = 0"
    and ok: "rng_ok (generator s0)" "0 < batch_size l"
    and wf: "list_all (\<lambda>t. wf_tensor (image t)) (dataset l)"
  shows "model s2 = model s0 \<and>
         testing_loss s2 = sum_list (map (batch_loss call_baseline l (snd (enter_loop l s0)))
                                      (fst (enter_loop l s0))) \<and>
         accuracy s2 = real (length (correct_samples call_baseline (model s0) g (dataset l))) \<and>
         length (fst (enter_loop l s0)) = len_loader l \<and>
         running_loss s2 = running_loss s0 \<and> stdout s2 = stdout s0"
proof -
  let ?P = "\<lambda>i. predicted_class call_baseline (model s0) g (dataset l ! i)
                   = Some (label (dataset l ! i))"
  note m = validation_loop_baseline_metrics[OF loop wf, of g]
  from batch_indices_concat[OF ok] have
    "distinct (concat (fst (enter_loop l s0)))"
    "set (concat (fst (enter_loop l s0))) = {0..<length (dataset l)}"
    by (simp_all add: fst_enter_loop)
  from length_filter_permutation[OF this, of ?P]
  have "length (filter ?P (concat (fst (enter_loop l s0))))
        = length (correct_samples call_baseline (model s0) g (dataset l))"
    by (simp add: correct_samples_def)
  with m zero validation_loop_frame[OF loop] length_enter_loop[OF ok(1), of l]
  show ?thesis by simp
qed

lemma validation_pass_baseline_metrics:
  assumes "validation_pass_baseline tel s1 = Inr (Normal s2)"
    and "rng_ok (generator s1)" "0 < batch_size tel"
    and "list_all (\<lambda>t. wf_tensor (image t)) (dataset tel)"
  shows "model s2 = model s1 \<and>
         testing_loss s2 = sum_list (test_losses_baseline tel s1) \<and>
         accuracy s2 = real (length (correct_samples call_baseline (model s1) g (dataset tel))) \<and>
         length (test_losses_baseline tel s1) = len_loader tel \<and>
         running_loss s2 = running_loss s1 \<and> stdout s2 = stdout s1"
proof -
  let ?s0 = "begin_validation_baseline s1"
  from assms(1) have loop: "for_stmt (valid_iter call_baseline tel) (fst (enter_loop tel ?s0))
      (snd (enter_loop tel ?s0)) = Inr (Normal s2)"
    by (simp add: validation_pass_baseline_def split_beta)
  have z: "testing_loss ?s0 = 0" "accuracy ?s0 = 0" "rng_ok (generator ?s0)"
    using assms(2) by (simp_all add: begin_validation_baseline_def)
  from validation_loop_metrics[OF loop z(1,2,3) assms(3,4), of g]
  show ?thesis
    by (simp add: test_losses_baseline_def split_beta begin_validation_baseline_def)
qed

lemma validation_pass_dropout_metrics:
  assumes "validation_pass_dropout tel s1 = Inr (Normal s2)"
    and "rng_ok (generator s1)" "0 < batch_size tel"
    and "list_all (\<lambda>t. wf_tensor (image t)) (dataset tel)"
  shows "model s2 = eval_mode (model s1) \<and>
         testing_loss s2 = sum_list (test_losses_dropout tel s1) \<and>
         accuracy s2 = real (length (correct_samples forward_dropout (eval_mode (model s1)) g
                                        (dataset tel))) \<and>
         length (test_losses_dropout tel s1) = len_loader tel \<and>
         running_loss s2 = running_loss s1 \<and> stdout s2 = stdout s1"
proof -
  let ?s0 = "begin_validation_dropout s1"
  let ?e = "snd (enter_loop tel ?s0)"
  have ev: "\<not> training (model ?e)" "\<not> training (eval_mode (model s1))"
    by (simp_all add: begin_validation_dropout_def eval_mode_def)
  from assms(1) have "for_stmt (valid_iter forward_dropout tel) (fst (enter_loop tel ?s0)) ?e
      = Inr (Normal s2)"
    by (simp add: validation_pass_dropout_def split_beta)
  then have loop: "for_stmt (valid_iter call_baseline tel) (fst (enter_loop tel ?s0)) ?e
      = Inr (Normal s2)"
    by (simp add: validation_loop_dropout_eval[OF ev(1)])
  have z: "testing_loss ?s0 = 0" "accuracy ?s0 = 0" "rng_ok (generator ?s0)"
    using assms(2) by (simp_all add: begin_validation_dropout_def)
  have bl: "batch_loss forward_dropout tel ?e = batch_loss call_baseline tel ?e"
    by (intro ext) (rule batch_loss_dropout_eval[OF ev(1)])
  have cs: "correct_samples forward_dropout (eval_mode (model s1)) g (dataset tel)
        = correct_samples call_baseline (eval_mode (model s1)) g (dataset tel)"
    by (simp add: correct_samples_def predicted_class_dropout_eval[OF ev(2)])
  have f: "model ?s0 = eval_mode (model s1)" "running_loss ?s0 = running_loss s1"
      "stdout ?s0 = stdout s1"
    by (simp_all add: begin_validation_dropout_def)
  from validation_loop_metrics[OF loop z(1,2,3) assms(3,4), of g]
  show ?thesis
    by (simp add: test_losses_dropout_def split_beta bl cs f)
qed

subsection \<open>The training pass\<close>

lemma training_pass_baseline_metrics:
  assumes "training_pass_baseline step trl s = Inr (Normal s1)"
  shows "running_loss s1 = sum_list (train_losses_baseline step trl s) \<and>
         (rng_ok (generator s) \<longrightarrow>
            length (train_losses_baseline step trl s) = len_loader trl \<and> rng_ok (generator s1)) \<and>
         stdout s1 = stdout s"
proof -
  let ?s0 = "begin_training_baseline s"
  from assms have loop: "for_stmt (train_iter call_baseline step trl) (fst (enter_loop trl ?s0))
      (snd (enter_loop trl ?s0)) = Inr (Normal s1)"
    by (simp add: training_pass_baseline_def split_beta)
  have g: "rng_ok (generator s1) = rng_ok (generator (snd (enter_loop trl ?s0)))"
    by (rule training_loop_rng_ok[OF loop]) (auto dest: call_baseline_log_softmax)
  have g0: "rng_ok (generator (snd (enter_loop trl ?s0))) = rng_ok (generator s)"
    by (simp add: enter_loop_generator batch_indices_rng_ok begin_training_baseline_def)
  from training_loop_running_loss[OF loop] training_loop_frame[OF loop] g g0
    length_enter_loop[of ?s0 trl]
  show ?thesis
    by (simp add: train_losses_baseline_def split_beta begin_training_baseline_def)
qed

lemma training_pass_dropout_metrics:
  assumes "training_pass_dropout step trl s = Inr (Normal s1)"
  shows "running_loss s1 = sum_list (train_losses_dropout step trl s) \<and>
         (rng_ok (generator s) \<longrightarrow>
            length (train_losses_dropout step trl s) = len_loader trl \<and> rng_ok (generator s1)) \<and>
         stdout s1 = stdout s"
proof -
  let ?s0 = "begin_training_dropout s"
  from assms have loop: "for_stmt (train_iter forward_dropout step trl) (fst (enter_loop trl ?s0))
      (snd (enter_loop trl ?s0)) = Inr (Normal s1)"
    by (simp add: training_pass_dropout_def split_beta)
  have g: "rng_ok (generator s1) = rng_ok (generator (snd (enter_loop trl ?s0)))"
    by (rule training_loop_rng_ok[OF loop]) (rule forward_dropout_rng_ok)
  have g0: "rng_ok (generator (snd (enter_loop trl ?s0))) = rng_ok (generator s)"
    by (simp add: enter_loop_generator batch_indices_rng_ok begin_training_dropout_def)
  from training_loop_running_loss[OF loop] training_loop_frame[OF loop] g g0
    length_enter_loop[of ?s0 trl]
  show ?thesis
    by (simp add: train_losses_dropout_def split_beta begin_training_dropout_def)
qed

subsection \<open>An epoch\<close>

lemma epoch_baseline_Inr:
  assumes "epoch_baseline step trl tel n s e = Inr s'"
  shows "\<exists>s1 s2. training_pass_baseline step trl s = Inr (Normal s1) \<and>
           validation_pass_baseline tel s1 = Inr (Normal s2) \<and>
           report_epoch trl tel n e s2 = Inr s'"
proof -
  from assms obtain s1 where s1: "training_pass_baseline step trl s = Inr (Normal s1)"
      "validate_baseline trl tel n e s1 = Inr s'"
    using training_pass_baseline_no_break[of step trl s]
    by (auto simp add: epoch_baseline_passes split: sum.splits flow.splits)
  from s1(2) obtain s2 where "validation_pass_baseline tel s1 = Inr (Normal s2)"
      "report_epoch trl tel n e s2 = Inr s'"
    using validation_pass_baseline_no_break[of tel s1]
    by (auto simp add: validate_baseline_passes split: sum.splits flow.splits)
  with s1(1) show ?thesis by blast
qed

lemma epoch_dropout_Inr:
  assumes "epoch_dropout step trl tel n s e = Inr s'"
  shows "\<exists>s1 s2. training_pass_dropout step trl s = Inr (Normal s1) \<and>
           validation_pass_dropout tel s1 = Inr (Normal s2) \<and>
           report_epoch trl tel n e s2 = Inr s'"
proof -
  from assms obtain s1 where s1: "training_pass_dropout step trl s = Inr (Normal s1)"
      "validate_dropout trl tel n e s1 = Inr s'"
    using training_pass_dropout_no_break[of step trl s]
    by (auto simp add: epoch_dropout_passes split: sum.splits flow.splits)
  from s1(2) obtain s2 where "validation_pass_dropout tel s1 = Inr (Normal s2)"
      "report_epoch trl tel n e s2 = Inr s'"
    using validation_pass_dropout_no_break[of tel s1]
    by (auto simp add: validate_dropout_passes split: sum.splits flow.splits)
  with s1(1) show ?thesis by blast
qed

subsection \<open>Top-1\<close>

lemma argmax_from_spec:
  assumes "drop i row = vs" "bi < i" "i \<le> length row" "row ! bi = bv"
    and "\<forall>j<i. row ! j \<le> bv" "\<forall>j<bi. row ! j < bv"
    and "argmax_from bv bi i vs = (v, k)"
  shows "k < length row \<and> row ! k = v \<and> (\<forall>j<length row. row ! j \<le> v) \<and> (\<forall>j<k. row ! j < v)"
  using assms
proof (induction vs arbitrary: bv bi i)
  case Nil
  then have "i = length row" by simp
  with Nil show ?case by auto
next
  case (Cons u us)
  from Cons.prems(1) have i: "i < length row"
    by (metis drop_all leI list.distinct(1))
  with Cons.prems(1) have u: "row ! i = u" and d: "drop (Suc i) row = us"
    by (metis Cons_nth_drop_Suc list.inject)+
  show ?case
  proof (cases "bv < u")
    case True
    with Cons.prems(7) have a: "argmax_from u i (Suc i) us = (v, k)" by simp
    have le: "\<forall>j<Suc i. row ! j \<le> u"
      using Cons.prems(5) True u by (auto simp add: less_Suc_eq intro: order_trans less_imp_le)
    have lt: "\<forall>j<i. row ! j < u"
      using Cons.prems(5) True by (auto intro: le_less_trans)
    from Cons.IH[OF d _ _ u le lt a] i show ?thesis by simp
  next
    case False
    with Cons.prems(7) have a: "argmax_from bv bi (Suc i) us = (v, k)" by simp
    have le: "\<forall>j<Suc i. row ! j \<le> bv"
      using Cons.prems(5) False u by (auto simp add: less_Suc_eq)
    from Cons.IH[OF d _ _ Cons.prems(4) le Cons.prems(6) a] i Cons.prems(2) show ?thesis by simp
  qed
qed

lemma top1_spec:
  assumes "row \<noteq> []"
  shows "snd (top1 row) < length row \<and> row ! snd (top1 row) = fst (top1 row) \<and>
         (\<forall>j<length row. row ! j \<le> row ! snd (top1 row)) \<and>
         (\<forall>j<snd (top1 row). row ! j < row ! snd (top1 row))"
proof -
  from assms obtain u us where row: "row = u # us" by (cases row) auto
  obtain v k where a: "argmax_from u 0 1 us = (v, k)" by (cases "argmax_from u 0 1 us")
  have t: "top1 row = (v, k)" using a by (simp add: top1_def row)
  have "k < length row \<and> row ! k = v \<and> (\<forall>j<length row. row ! j \<le> v) \<and> (\<forall>j<k. row ! j < v)"
    by (rule argmax_from_spec[OF _ _ _ _ _ _ a]) (simp_all add: row)
  then show ?thesis by (simp add: t)
qed

lemma count_true_zip:
  "length xs = length ys \<Longrightarrow>
   count_true (map2 (=) (map f xs) ys) = real (length (filter (\<lambda>(x, y). f x = y) (zip xs ys)))"
  by (induction xs ys rule: list_induct2) (simp_all add: count_true_def)

text \<open>
  Claim C8. The top-1 prediction of a row is the index of its largest entry, the first such
  index when several entries are largest; and the count the validation body adds to the
  accuracy is the number of rows of the batch whose top-1 prediction is their label.
\<close>
theorem top1_first_argmax:
  "(row \<noteq> [] \<longrightarrow>
      snd (top1 row) < length row \<and> row ! snd (top1 row) = fst (top1 row) \<and>
      (\<forall>j<length row. row ! j \<le> row ! snd (top1 row)) \<and>
      (\<forall>j<snd (top1 row). row ! j < row ! snd (top1 row))) \<and>
   (valid_body fwd s (x, ls) = Inr (Normal s') \<longrightarrow>
      (\<exists>log_ps g'. fwd (model s) (generator s) x = Inr (log_ps, g') \<and>
         list_all (\<lambda>r. r \<noteq> []) log_ps \<and> length log_ps = length ls \<and>
         accuracy s' = accuracy s +
           real (length (filter (\<lambda>(r, t). snd (top1 r) = t) (zip log_ps ls)))))"
proof (rule conjI; rule impI)
  assume "row \<noteq> []"
  then show "snd (top1 row) < length row \<and> row ! snd (top1 row) = fst (top1 row) \<and>
      (\<forall>j<length row. row ! j \<le> row ! snd (top1 row)) \<and>
      (\<forall>j<snd (top1 row). row ! j < row ! snd (top1 row))"
    by (rule top1_spec)
next
  assume "valid_body fwd s (x, ls) = Inr (Normal s')"
  from valid_body_Normal[OF this] obtain log_ps g' loss where
    v: "fwd (model s) (generator s) x = Inr (log_ps, g')"
       "\<not> list_ex (\<lambda>row. row = []) log_ps" "length ls = length log_ps"
       "s' = s\<lparr>generator := g', testing_loss := testing_loss s + loss,
               accuracy := accuracy s + count_true (map2 (=) (map (snd \<circ> top1) log_ps) ls)\<rparr>"
    by auto
  from v(3) have "count_true (map2 (=) (map (snd \<circ> top1) log_ps) ls)
      = real (length (filter (\<lambda>(r, t). snd (top1 r) = t) (zip log_ps ls)))"
    using count_true_zip[of log_ps ls "snd \<circ> top1"] by simp
  with v show "\<exists>log_ps g'. fwd (model s) (generator s) x = Inr (log_ps, g') \<and>
         list_all (\<lambda>r. r \<noteq> []) log_ps \<and> length log_ps = length ls \<and>
         accuracy s' = accuracy s +
           real (length (filter (\<lambda>(r, t). snd (top1 r) = t) (zip log_ps ls)))"
    by (auto simp add: list_ex_iff list_all_iff)
qed

subsection \<open>Metrics of an epoch\<close>

lemma pre_states_hd: "pre_states body xs s \<noteq> [] \<Longrightarrow> hd (pre_states body xs s) = s"
  by (cases xs) simp_all

lemma accuracy_bounds:
  fixes ds :: "sample list"
  assumes "0 < length ds" "acc = real (length (correct_samples fwd m g ds)) / real (length ds)"
  shows "0 \<le> acc \<and> acc \<le> 1 \<and>
         (acc = 1 \<longrightarrow> (\<forall>i<length ds. predicted_class fwd m g (ds ! i) = Some (label (ds ! i))))"
proof -
  let ?P = "\<lambda>i. predicted_class fwd m g (ds ! i) = Some (label (ds ! i))"
  have le: "length (correct_samples fwd m g ds) \<le> length ds"
    using length_filter_le[of ?P "[0..<length ds]"] by (simp add: correct_samples_def)
  have all: "\<forall>i<length ds. ?P i" if "acc = 1"
  proof (rule ccontr)
    assume "\<not> (\<forall>i<length ds. ?P i)"
    then obtain i where "i \<in> set [0..<length ds]" "\<not> ?P i" by auto
    from length_filter_less[of i "[0..<length ds]" ?P, OF this] have "length (correct_samples fwd m g ds) < length ds"
      by (simp add: correct_samples_def)
    with assms that show False by simp
  qed
  from le assms all show ?thesis by simp
qed

lemma epoch_baseline_metrics:
  assumes "epoch_baseline step trl tel n s e = Inr s'"
    and "rng_ok (generator s)" "list_all (\<lambda>t. wf_tensor (image t)) (dataset tel)"
  shows "\<exists>s1. training_pass_baseline step trl s = Inr (Normal s1) \<and>
     length (train_losses_baseline step trl s) = len_loader trl \<and>
     length (test_losses_baseline tel s1) = len_loader tel \<and>
     0 < len_loader trl \<and> 0 < len_loader tel \<and> 0 < length (dataset tel) \<and>
     running_loss s' = sum_list (train_losses_baseline step trl s) / real (len_loader trl) \<and>
     testing_loss s' = sum_list (test_losses_baseline tel s1) / real (len_loader tel) \<and>
     accuracy s' = real (length (correct_samples call_baseline (model s') g (dataset tel)))
                   / real (length (dataset tel)) \<and>
     stdout s' = stdout s @
       [\<lparr>epoch = e + 1, epochs = n, training_loss = running_loss s',
         test_loss = testing_loss s', accuracy_percent = accuracy s' * 100\<rparr>]"
proof -
  from epoch_baseline_Inr[OF assms(1)] obtain s1 s2 where
    p: "training_pass_baseline step trl s = Inr (Normal s1)"
       "validation_pass_baseline tel s1 = Inr (Normal s2)"
       "report_epoch trl tel n e s2 = Inr s'" by blast
  note r = report_epoch_Inr[OF p(3)]
  note t = training_pass_baseline_metrics[OF p(1)]
  from t assms(2) have g1: "rng_ok (generator s1)" by simp
  from r have bs: "0 < batch_size tel" by (simp add: len_loader_batch_size)
  note v = validation_pass_baseline_metrics[OF p(2) g1 bs assms(3), of g]
  from p(1) r t v assms(2) show ?thesis by simp
qed

lemma epoch_dropout_metrics:
  assumes "epoch_dropout step trl tel n s e = Inr s'"
    and "rng_ok (generator s)" "list_all (\<lambda>t. wf_tensor (image t)) (dataset tel)"
  shows "\<exists>s1. training_pass_dropout step trl s = Inr (Normal s1) \<and>
     length (train_losses_dropout step trl s) = len_loader trl \<and>
     length (test_losses_dropout tel s1) = len_loader tel \<and>
     0 < len_loader trl \<and> 0 < len_loader tel \<and> 0 < length (dataset tel) \<and>
     running_loss s' = sum_list (train_losses_dropout step trl s) / real (len_loader trl) \<and>
     testing_loss s' = sum_list (test_losses_dropout tel s1) / real (len_loader tel) \<and>
     accuracy s' = real (length (correct_samples forward_dropout (model s') g (dataset tel)))
                   / real (length (dataset tel)) \<and>
     stdout s' = stdout s @
       [\<lparr>epoch = e + 1, epochs = n, training_loss = running_loss s',
         test_loss = testing_loss s', accuracy_percent = accuracy s' * 100\<rparr>]"
proof -
  from epoch_dropout_Inr[OF assms(1)] obtain s1 s2 where
    p: "training_pass_dropout step trl s = Inr (Normal s1)"
       "validation_pass_dropout tel s1 = Inr (Normal s2)"
       "report_epoch trl tel n e s2 = Inr s'" by blast
  note r = report_epoch_Inr[OF p(3)]
  note t = training_pass_dropout_metrics[OF p(1)]
  from t assms(2) have g1: "rng_ok (generator s1)" by simp
  from r have bs: "0 < batch_size tel" by (simp add: len_loader_batch_size)
  note v = validation_pass_dropout_metrics[OF p(2) g1 bs assms(3), of g]
  from p(1) r t v assms(2) show ?thesis by simp
qed

subsection \<open>Reported metrics\<close>

lemma validation_pass_baseline_frame:
  assumes "validation_pass_baseline tel s1 = Inr (Normal s2)"
  shows "running_loss s2 = running_loss s1 \<and> stdout s2 = stdout s1"
proof -
  from assms have "for_stmt (valid_iter call_baseline tel)
      (fst (enter_loop tel (begin_validation_baseline s1)))
      (snd (enter_loop tel (begin_validation_baseline s1))) = Inr (Normal s2)"
    by (simp add: validation_pass_baseline_def split_beta)
  from validation_loop_frame[OF this] show ?thesis
    by (simp add: begin_validation_baseline_def)
qed

lemma validation_pass_dropout_frame:
  assumes "validation_pass_dropout tel s1 = Inr (Normal s2)"
  shows "running_loss s2 = running_loss s1 \<and> stdout s2 = stdout s1"
proof -
  from assms have "for_stmt (valid_iter forward_dropout tel)
      (fst (enter_loop tel (begin_validation_dropout s1)))
      (snd (enter_loop tel (begin_validation_dropout s1))) = Inr (Normal s2)"
    by (simp add: validation_pass_dropout_def split_beta)
  from validation_loop_frame[OF this] show ?thesis
    by (simp add: begin_validation_dropout_def)
qed

lemma sum_list_nonneg_all: "list_all (\<lambda>v. 0 \<le> v) xs \<Longrightarrow> 0 \<le> sum_list (xs :: real list)"
  by (rule sum_list_nonneg) (simp add: list_all_iff)

lemma epoch_baseline_training_loss:
  assumes "epoch_baseline step trl tel n s e = Inr s'"
  shows "stdout s' \<noteq> [] \<and> training_loss (last (stdout s')) = running_loss s' \<and>
         running_loss s' = sum_list (train_losses_baseline step trl s) / real (len_loader trl)"
proof -
  from epoch_baseline_Inr[OF assms] obtain s1 s2 where
    p: "training_pass_baseline step trl s = Inr (Normal s1)"
       "validation_pass_baseline tel s1 = Inr (Normal s2)"
       "report_epoch trl tel n e s2 = Inr s'" by blast
  from report_epoch_Inr[OF p(3)] training_pass_baseline_metrics[OF p(1)]
    validation_pass_baseline_frame[OF p(2)]
  show ?thesis by simp
qed

lemma epoch_dropout_training_loss:
  assumes "epoch_dropout step trl tel n s e = Inr s'"
  shows "stdout s' \<noteq> [] \<and> training_loss (last (stdout s')) = running_loss s' \<and>
         running_loss s' = sum_list (train_losses_dropout step trl s) / real (len_loader trl)"
proof -
  from epoch_dropout_Inr[OF assms] obtain s1 s2 where
    p: "training_pass_dropout step trl s = Inr (Normal s1)"
       "validation_pass_dropout tel s1 = Inr (Normal s2)"
       "report_epoch trl tel n e s2 = Inr s'" by blast
  from report_epoch_Inr[OF p(3)] training_pass_dropout_metrics[OF p(1)]
    validation_pass_dropout_frame[OF p(2)]
  show ?thesis by simp
qed

text \<open>
  Claim C7. In every epoch that reaches its report the reported mean training loss is not
  negative, in both loops: the loss of every training batch is not negative, being the
  mean of negated log-probabilities, and the report divides their sum by the number of
  batches.
\<close>
theorem training_loss_nonneg:
  "(epoch_baseline step trl tel n s e = Inr s' \<longrightarrow>
      stdout s' \<noteq> [] \<and> 0 \<le> training_loss (last (stdout s'))) \<and>
   (epoch_dropout step' trl tel n sd e = Inr sd' \<longrightarrow>
      stdout sd' \<noteq> [] \<and> 0 \<le> training_loss (last (stdout sd'))) \<and>
   list_all (\<lambda>v. 0 \<le> v) (train_losses_baseline step trl s) \<and>
   list_all (\<lambda>v. 0 \<le> v) (train_losses_dropout step' trl sd)"
proof (intro conjI impI)
  assume a: "epoch_baseline step trl tel n s e = Inr s'"
  from epoch_baseline_training_loss[OF a] show "stdout s' \<noteq> []" by simp
  from epoch_baseline_training_loss[OF a]
    sum_list_nonneg_all[OF train_losses_baseline_nonneg[of step trl s]]
  show "0 \<le> training_loss (last (stdout s'))" by simp
next
  assume a: "epoch_dropout step' trl tel n sd e = Inr sd'"
  from epoch_dropout_training_loss[OF a] show "stdout sd' \<noteq> []" by simp
  from epoch_dropout_training_loss[OF a]
    sum_list_nonneg_all[OF train_losses_dropout_nonneg[of step' trl sd]]
  show "0 \<le> training_loss (last (stdout sd'))" by simp
next
  show "list_all (\<lambda>v. 0 \<le> v) (train_losses_baseline step trl s)"
    by (rule train_losses_baseline_nonneg)
  show "list_all (\<lambda>v. 0 \<le> v) (train_losses_dropout step' trl sd)"
    by (rule train_losses_dropout_nonneg)
qed

lemma training_states_baseline_reset:
  "training_states_baseline step trl s \<noteq> [] \<Longrightarrow>
   running_loss (hd (training_states_baseline step trl s)) = 0"
  by (simp add: training_states_baseline_def split_beta pre_states_hd begin_training_baseline_def)

lemma training_states_dropout_reset:
  "training_states_dropout step trl s \<noteq> [] \<Longrightarrow>
   running_loss (hd (training_states_dropout step trl s)) = 0"
  by (simp add: training_states_dropout_def split_beta pre_states_hd begin_training_dropout_def)

lemma validation_states_baseline_reset:
  "validation_states_baseline tel s \<noteq> [] \<Longrightarrow>
   testing_loss (hd (validation_states_baseline tel s)) = 0 \<and>
   accuracy (hd (validation_states_baseline tel s)) = 0"
  by (simp add: validation_states_baseline_def split_beta pre_states_hd
      begin_validation_baseline_def)

lemma validation_states_dropout_reset:
  "validation_states_dropout tel s \<noteq> [] \<Longrightarrow>
   testing_loss (hd (validation_states_dropout tel s)) = 0 \<and>
   accuracy (hd (validation_states_dropout tel s)) = 0"
  by (simp add: validation_states_dropout_def split_beta pre_states_hd
      begin_validation_dropout_def)

text \<open>
  Claim C4. In every epoch that reaches its report, in both loops: the reported mean
  training loss is the sum of the losses of the training batches divided by the number of
  training batches, the reported mean validation loss is the sum of the losses of the
  held-out batches divided by their number, and the reported accuracy is the number of
  held-out samples whose top-1 class is their label divided by the number of held-out
  samples. So the accuracy lies between 0 and 1, and it is 1 only if the top-1 class of
  every held-out sample is its label. Each metric is zero when the body of its pass is
  first entered.
\<close>
theorem epoch_metrics:
  assumes "rng_ok (generator s)" "rng_ok (generator sd)"
    and "list_all (\<lambda>t. wf_tensor (image t)) (dataset tel)"
  shows
   "(epoch_baseline step trl tel n s e = Inr s' \<longrightarrow>
      (\<exists>s1. training_pass_baseline step trl s = Inr (Normal s1) \<and>
         length (train_losses_baseline step trl s) = len_loader trl \<and>
         length (test_losses_baseline tel s1) = len_loader tel \<and>
         running_loss s' = sum_list (train_losses_baseline step trl s) / real (len_loader trl) \<and>
         testing_loss s' = sum_list (test_losses_baseline tel s1) / real (len_loader tel) \<and>
         accuracy s' = real (length (correct_samples call_baseline (model s') g (dataset tel)))
                       / real (length (dataset tel)) \<and>
         stdout s' = stdout s @
           [\<lparr>epoch = e + 1, epochs = n, training_loss = running_loss s',
             test_loss = testing_loss s', accuracy_percent = accuracy s' * 100\<rparr>] \<and>
         0 \<le> accuracy s' \<and> accuracy s' \<le> 1 \<and>
         (accuracy s' = 1 \<longrightarrow>
            (\<forall>i<length (dataset tel).
                predicted_class call_baseline (model s') g (dataset tel ! i)
                = Some (label (dataset tel ! i)))))) \<and>
    (epoch_dropout step' trl tel n sd e = Inr sd' \<longrightarrow>
      (\<exists>s1. training_pass_dropout step' trl sd = Inr (Normal s1) \<and>
         length (train_losses_dropout step' trl sd) = len_loader trl \<and>
         length (test_losses_dropout tel s1) = len_loader tel \<and>
         running_loss sd' = sum_list (train_losses_dropout step' trl sd) / real (len_loader trl) \<and>
         testing_loss sd' = sum_list (test_losses_dropout tel s1) / real (len_loader tel) \<and>
         accuracy sd' = real (length (correct_samples forward_dropout (model sd') g (dataset tel)))
                        / real (length (dataset tel)) \<and>
         stdout sd' = stdout sd @
           [\<lparr>epoch = e + 1, epochs = n, training_loss = running_loss sd',
             test_loss = testing_loss sd', accuracy_percent = accuracy sd' * 100\<rparr>] \<and>
         0 \<le> accuracy sd' \<and> accuracy sd' \<le> 1 \<and>
         (accuracy sd' = 1 \<longrightarrow>
            (\<forall>i<length (dataset tel).
                predicted_class forward_dropout (model sd') g (dataset tel ! i)
                = Some (label (dataset tel ! i)))))) \<and>
    (training_states_baseline step trl s \<noteq> [] \<longrightarrow>
       running_loss (hd (training_states_baseline step trl s)) = 0) \<and>
    (training_states_dropout step' trl sd \<noteq> [] \<longrightarrow>
       running_loss (hd (training_states_dropout step' trl sd)) = 0) \<and>
    (validation_states_baseline tel s \<noteq> [] \<longrightarrow>
       testing_loss (hd (validation_states_baseline tel s)) = 0 \<and>
       accuracy (hd (validation_states_baseline tel s)) = 0) \<and>
    (validation_states_dropout tel sd \<noteq> [] \<longrightarrow>
       testing_loss (hd (validation_states_dropout tel sd)) = 0 \<and>
       accuracy (hd (validation_states_dropout tel sd)) = 0)"
proof -
  have b: "\<exists>s1. training_pass_baseline step trl s = Inr (Normal s1) \<and>
         length (train_losses_baseline step trl s) = len_loader trl \<and>
         length (test_losses_baseline tel s1) = len_loader tel \<and>
         running_loss s' = sum_list (train_losses_baseline step trl s) / real (len_loader trl) \<and>
         testing_loss s' = sum_list (test_losses_baseline tel s1) / real (len_loader tel) \<and>
         accuracy s' = real (length (correct_samples call_baseline (model s') g (dataset tel)))
                       / real (length (dataset tel)) \<and>
         stdout s' = stdout s @
           [\<lparr>epoch = e + 1, epochs = n, training_loss = running_loss s',
             test_loss = testing_loss s', accuracy_percent = accuracy s' * 100\<rparr>] \<and>
         0 \<le> accuracy s' \<and> accuracy s' \<le> 1 \<and>
         (accuracy s' = 1 \<longrightarrow>
            (\<forall>i<length (dataset tel).
                predicted_class call_baseline (model s') g (dataset tel ! i)
                = Some (label (dataset tel ! i))))"
    if a: "epoch_baseline step trl tel n s e = Inr s'"
  proof -
    from epoch_baseline_metrics[OF a assms(1,3), of g] obtain s1 where
      m: "training_pass_baseline step trl s = Inr (Normal s1)"
         "length (train_losses_baseline step trl s) = len_loader trl"
         "length (test_losses_baseline tel s1) = len_loader tel"
         "0 < length (dataset tel)"
         "running_loss s' = sum_list (train_losses_baseline step trl s) / real (len_loader trl)"
         "testing_loss s' = sum_list (test_losses_baseline tel s1) / real (len_loader tel)"
         "accuracy s' = real (length (correct_samples call_baseline (model s') g (dataset tel)))
                       / real (length (dataset tel))"
         "stdout s' = stdout s @
           [\<lparr>epoch = e + 1, epochs = n, training_loss = running_loss s',
             test_loss = testing_loss s', accuracy_percent = accuracy s' * 100\<rparr>]"
      by blast
    from accuracy_bounds[OF m(4,7)] m show ?thesis by blast
  qed
  have d: "\<exists>s1. training_pass_dropout step' trl sd = Inr (Normal s1) \<and>
         length (train_losses_dropout step' trl sd) = len_loader trl \<and>
         length (test_losses_dropout tel s1) = len_loader tel \<and>
         running_loss sd' = sum_list (train_losses_dropout step' trl sd) / real (len_loader trl) \<and>
         testing_loss sd' = sum_list (test_losses_dropout tel s1) / real (len_loader tel) \<and>
         accuracy sd' = real (length (correct_samples forward_dropout (model sd') g (dataset tel)))
                        / real (length (dataset tel)) \<and>
         stdout sd' = stdout sd @
           [\<lparr>epoch = e + 1, epochs = n, training_loss = running_loss sd',
             test_loss = testing_loss sd', accuracy_percent = accuracy sd' * 100\<rparr>] \<and>
         0 \<le> accuracy sd' \<and> accuracy sd' \<le> 1 \<and>
         (accuracy sd' = 1 \<longrightarrow>
            (\<forall>i<length (dataset tel).
                predicted_class forward_dropout (model sd') g (dataset tel ! i)
                = Some (label (dataset tel ! i))))"
    if a: "epoch_dropout step' trl tel n sd e = Inr sd'"
  proof -
    from epoch_dropout_metrics[OF a assms(2,3), of g] obtain s1 where
      m: "training_pass_dropout step' trl sd = Inr (Normal s1)"
         "length (train_losses_dropout step' trl sd) = len_loader trl"
         "length (test_losses_dropout tel s1) = len_loader tel"
         "0 < length (dataset tel)"
         "running_loss sd' = sum_list (train_losses_dropout step' trl sd) / real (len_loader trl)"
         "testing_loss sd' = sum_list (test_losses_dropout tel s1) / real (len_loader tel)"
         "accuracy sd' = real (length (correct_samples forward_dropout (model sd') g (dataset tel)))
                       / real (length (dataset tel))"
         "stdout sd' = stdout sd @
           [\<lparr>epoch = e + 1, epochs = n, training_loss = running_loss sd',
             test_loss = testing_loss sd', accuracy_percent = accuracy sd' * 100\<rparr>]"
      by blast
    from accuracy_bounds[OF m(4,7)] m show ?thesis by blast
  qed
  from b d training_states_baseline_reset[of step trl s]
    training_states_dropout_reset[of step' trl sd]
    validation_states_baseline_reset[of tel s] validation_states_dropout_reset[of tel sd]
  show ?thesis by blast
qed

subsection \<open>The small run is well-formed\<close>

lemma rng_ok_rng0: "rng_ok rng0"
  by (simp add: rng_ok_def rng0_def)

lemma rng_ok_Linear [simp]: "rng_ok (snd (Linear n k g)) = rng_ok g"
  by (simp add: Linear_def Let_def)

lemma rng_ok_Classifier [simp]: "rng_ok (snd (Classifier g)) = rng_ok g"
  by (simp add: Classifier_def split_beta Let_def)

lemma rng_ok_Classifier_dropout [simp]: "rng_ok (snd (Classifier_dropout g)) = rng_ok g"
  by (simp add: Classifier_dropout_def split_beta Let_def)

lemma training_Classifier [simp]:
  "training (fst (Classifier g))" "training (fst (Classifier_dropout g))"
  by (simp_all add: Classifier_def Classifier_dropout_def split_beta Let_def)

lemma state_ok_baseline0: "state_ok state_baseline0"
  by (simp add: state_ok_def state_baseline0_def wf_Classifier rng_ok_rng0)

lemma state_ok_dropout0: "state_ok state_dropout0"
  by (simp add: state_ok_def state_dropout0_def wf_Classifier_dropout rng_ok_rng0)

lemma wf_image0: "wf_tensor image0" "shape image0 = [1, 28, 28]"
  by (simp_all add: image0_def wf_tensor_def numel_def)

lemma wf_batch0: "wf_tensor batch0" "shape batch0 = 2 # [1, 28, 28]"
  by (simp_all add: batch0_def wf_tensor_def numel_def)

lemma loaders_ok0: "loaders_ok trainloader0 testloader0"
  by (simp add: loaders_ok_def trainloader0_def testloader0_def DataLoader_def wf_dataset_def
      wf_image0)

lemma wf_images_testloader0: "list_all (\<lambda>t. wf_tensor (image t)) (dataset testloader0)"
  by (simp add: testloader0_def DataLoader_def wf_image0)

lemma step0_keeps_shapes: "step_keeps_shapes step0"
  by (simp add: step_keeps_shapes_def step0_def set_parameters_def parameters_def
      wf_classifier_def)

lemma len_loader0: "len_loader trainloader0 = 1" "len_loader testloader0 = 1"
  by (simp_all add: len_loader_def trainloader0_def testloader0_def DataLoader_def)

lemma pre_states_entry: "xs \<noteq> [] \<Longrightarrow> s \<in> set (pre_states body xs s)"
  by (cases xs) simp_all

lemma enter_loop_nonempty:
  assumes "rng_ok (generator s)" "0 < len_loader l"
  shows "fst (enter_loop l s) \<noteq> []"
  using length_enter_loop[OF assms(1), of l] assms(2) by auto

lemma training_pass_baseline_mode:
  assumes "training_pass_baseline step l s = Inr (Normal s1)"
  shows "training (model s1) = training (model s)"
proof -
  let ?s0 = "begin_training_baseline s"
  from assms have loop: "for_stmt (train_iter call_baseline step l) (fst (enter_loop l ?s0))
      (snd (enter_loop l ?s0)) = Inr (Normal s1)"
    by (simp add: training_pass_baseline_def split_beta)
  have "training (model s1) = training (model (snd (enter_loop l ?s0)))"
    by (rule for_stmt_invariant[where
          P = "\<lambda>u. training (model u) = training (model (snd (enter_loop l ?s0)))", OF loop])
       (simp_all add: train_iter_training)
  then show ?thesis by (simp add: begin_training_baseline_def)
qed

subsection \<open>The small run, computed\<close>

text \<open>
  In the small run every parameter is zero, so every image gets ten equal
  log-probabilities \<open>ln (1 / 10)\<close>, the top-1 class of every sample is class 0, and the
  optimizer step changes nothing. Of the two held-out samples one has label 0: the
  reported accuracy is one half.
\<close>

lemma Linear_zero:
  "uniform_src g = (\<lambda>t i. 0) \<Longrightarrow>
   fst (Linear n k g) = \<lparr>in_features = n, out_features = k,
      weight = replicate k (replicate n 0), bias = replicate k 0\<rparr>"
  by (simp add: Linear_def Let_def advance_def map_replicate_const)

lemma uniform_src_Linear: "uniform_src (snd (Linear n k g)) = uniform_src g"
  by (simp add: Linear_def Let_def advance_def)

lemma dot_zero: "dot (replicate n 0) x = 0"
proof -
  have "sum_list (map2 (*) (replicate n (0::real)) x) = 0"
  proof (induction n arbitrary: x)
    case 0
    then show ?case by simp
  next
    case (Suc n)
    then show ?case by (cases x) simp_all
  qed
  then show ?thesis by (simp add: dot_def)
qed

lemma affine_row_zero:
  "affine_row \<lparr>in_features = n, out_features = k,
      weight = replicate k (replicate n 0), bias = replicate k 0\<rparr> x = replicate k 0"
  by (simp add: affine_row_def zip_replicate dot_zero)

lemma zero_layers_Classifier:
  "uniform_src g = (\<lambda>t i. 0) \<Longrightarrow> zero_layers (fst (Classifier g))"
  by (simp add: zero_layers_def Classifier_def split_beta Let_def Linear_zero uniform_src_Linear)

lemma zero_layers_Classifier_dropout:
  "uniform_src g = (\<lambda>t i. 0) \<Longrightarrow> zero_layers (fst (Classifier_dropout g))"
  by (simp add: zero_layers_def Classifier_dropout_def split_beta Let_def Linear_zero
      uniform_src_Linear)

lemma zero_layers_mode [simp]:
  "zero_layers (eval_mode m) = zero_layers m" "zero_layers (train_mode m) = zero_layers m"
  by (simp_all add: zero_layers_def eval_mode_def train_mode_def)

lemma forward_row_zero:
  assumes "zero_layers m"
  shows "forward_row m r = replicate 10 (ln (1 / 10))"
proof -
  have "exp 0 / sum_list (map exp (replicate 10 (0::real))) = 1 / 10"
    by (simp add: sum_list_replicate)
  then show ?thesis
    using assms
    by (simp add: forward_row_def zero_layers_def affine_row_zero log_softmax_row_def)
qed

lemma row_ok_zero:
  assumes "zero_layers m" "length r = 784"
  shows "row_ok m r"
  using assms by (simp add: row_ok_def zero_layers_def affine_row_zero)

lemma argmax_from_replicate: "argmax_from c bi i (replicate n c) = (c, bi)"
  by (induction n arbitrary: i) simp_all

lemma top1_replicate: "top1 (replicate (Suc n) c) = (c, 0)"
  by (simp add: top1_def argmax_from_replicate)

lemma predicted_class_zero:
  assumes "zero_layers m"
  shows "predicted_class call_baseline m g \<lparr>image = image0, label = t\<rparr> = Some 0"
proof -
  have n: "(10::nat) = Suc 9" by simp
  have "predicted_class call_baseline m g \<lparr>image = image0, label = t\<rparr>
        = Some (snd (top1 (forward_row m (data (image \<lparr>image = image0, label = t\<rparr>)))))"
  proof (rule predicted_class_baseline)
    show "wf_tensor (image \<lparr>image = image0, label = t\<rparr>)" by (simp add: wf_image0)
    show "row_ok m (data (image \<lparr>image = image0, label = t\<rparr>))"
      by (simp add: row_ok_zero[OF assms] image0_def)
    show "forward_row m (data (image \<lparr>image = image0, label = t\<rparr>)) \<noteq> []"
      by (simp add: forward_row_zero[OF assms])
  qed
  also have "\<dots> = Some 0"
    by (simp add: forward_row_zero[OF assms]) (simp only: n top1_replicate snd_conv)
  finally show ?thesis .
qed

lemma correct_samples_zero:
  assumes "zero_layers m"
  shows "correct_samples call_baseline m g (dataset testloader0) = [0]"
proof -
  have u: "[0..<2] = [0, Suc 0]" by (simp add: upt_rec)
  show ?thesis
    by (simp add: correct_samples_def testloader0_def DataLoader_def u
        predicted_class_zero[OF assms])
qed

lemma set_parameters_parameters [simp]: "set_parameters m (parameters m) = m"
  by (simp add: set_parameters_def parameters_def)

lemma train_iter_step0_model:
  assumes "train_iter fwd step0 l s idx = Inr (Normal s')"
  shows "model s' = model s"
proof -
  from train_iter_Normal[OF assms] obtain batch where
    "train_body fwd step0 s batch = Inr (Normal s')" by blast
  from train_body_Normal[OF this] show ?thesis by (auto simp add: step0_def)
qed

lemma training_loop_step0_model:
  assumes "for_stmt (train_iter fwd step0 l) xs s = Inr (Normal s')"
  shows "model s' = model s"
  by (rule for_stmt_invariant[where P = "\<lambda>u. model u = model s", OF assms])
     (simp_all add: train_iter_step0_model)

lemma epoch_baseline_step0_model:
  assumes "epoch_baseline step0 trl tel n s e = Inr s'"
  shows "model s' = model s"
proof -
  from epoch_baseline_Inr[OF assms] obtain s1 s2 where
    p: "training_pass_baseline step0 trl s = Inr (Normal s1)"
       "validation_pass_baseline tel s1 = Inr (Normal s2)"
       "report_epoch trl tel n e s2 = Inr s'" by blast
  from p(1) have "for_stmt (train_iter call_baseline step0 trl)
      (fst (enter_loop trl (begin_training_baseline s)))
      (snd (enter_loop trl (begin_training_baseline s))) = Inr (Normal s1)"
    by (simp add: training_pass_baseline_def split_beta)
  from training_loop_step0_model[OF this] have "model s1 = model s"
    by (simp add: begin_training_baseline_def)
  with validation_pass_baseline_model[OF p(2)] report_epoch_model[OF p(3)]
  show ?thesis by simp
qed

lemma epoch_dropout_step0_model:
  assumes "epoch_dropout step0 trl tel n s e = Inr s'"
  shows "model s' = eval_mode (model s)"
proof -
  from epoch_dropout_Inr[OF assms] obtain s1 s2 where
    p: "training_pass_dropout step0 trl s = Inr (Normal s1)"
       "validation_pass_dropout tel s1 = Inr (Normal s2)"
       "report_epoch trl tel n e s2 = Inr s'" by blast
  from p(1) have "for_stmt (train_iter forward_dropout step0 trl)
      (fst (enter_loop trl (begin_training_dropout s)))
      (snd (enter_loop trl (begin_training_dropout s))) = Inr (Normal s1)"
    by (simp add: training_pass_dropout_def split_beta)
  from training_loop_step0_model[OF this] have "model s1 = train_mode (model s)"
    by (simp add: begin_training_dropout_def)
  with validation_pass_dropout_model[OF p(2)] report_epoch_model[OF p(3)]
  show ?thesis by (simp add: eval_mode_def train_mode_def)
qed

lemma zero_layers_baseline0: "zero_layers (model state_baseline0)"
  by (simp add: state_baseline0_def zero_layers_Classifier rng0_def)

lemma zero_layers_dropout0: "zero_layers (model state_dropout0)"
  by (simp add: state_dropout0_def zero_layers_Classifier_dropout rng0_def)

lemma perm_src_Linear [simp]: "perm_src (snd (Linear n k g)) = perm_src g"
  by (simp add: Linear_def Let_def advance_def)

lemma perm_src_Classifier [simp]: "perm_src (snd (Classifier g)) = perm_src g"
  by (simp add: Classifier_def split_beta Let_def)

lemma chunks_small: "chunks 64 [0, Suc 0] = [[0, Suc 0]]"
  by (simp add: chunks_def)

lemma enter_loop_trainloader0:
  assumes "perm_src (generator s) = (\<lambda>t n. [0..<n])"
  shows "fst (enter_loop trainloader0 s) = [[0, Suc 0]]"
proof -
  have u: "[0..<2] = [0, Suc 0]" by (simp add: upt_rec)
  show ?thesis
    using assms
    by (simp add: fst_enter_loop batch_indices_def trainloader0_def DataLoader_def randperm_def
        u chunks_small)
qed

lemma NLLLoss_small:
  "NLLLoss [replicate 10 (ln (1 / 10)), replicate 10 (ln (1 / 10))] [3, 0] = Inr (ln 10)"
proof -
  have "- ln (1 / 10 :: real) = ln 10" by (simp add: ln_div)
  then show ?thesis by (simp add: NLLLoss_def)
qed

lemma batch_result_zero:
  assumes "zero_layers (model st)"
  shows "batch_result call_baseline trainloader0 st [0, Suc 0] = Inr (ln 10)"
proof -
  let ?smps = "[\<lparr>image = image0, label = 3\<rparr>, \<lparr>image = image0, label = 0\<rparr>]"
  obtain x where c: "collate ?smps = Inr (x, [3, 0])"
    by (simp add: collate_def)
  have nb: "next_batch trainloader0 [0, Suc 0] = Inr (x, [3, 0])"
    using c by (simp add: next_batch_def trainloader0_def DataLoader_def)
  have "flatten_input x = Inr (map (\<lambda>t. data (image t)) ?smps)"
    by (rule flatten_collate[OF c]) (simp add: wf_image0)
  then have fl: "flatten_input x = Inr [data image0, data image0]" by simp
  have l: "length (data image0) = 784" by (simp add: image0_def)
  have "forward_baseline (model st) x
        = Inr [replicate 10 (ln (1 / 10)), replicate 10 (ln (1 / 10))]"
    by (simp add: forward_baseline_rowwise fl row_ok_zero[OF assms l] forward_row_zero[OF assms])
  then show ?thesis
    by (simp add: batch_result_def nb call_baseline_def NLLLoss_small)
qed

lemma train_losses_baseline0:
  "train_losses_baseline step0 trainloader0 state_baseline0 = [ln 10]"
proof -
  let ?s0 = "begin_training_baseline state_baseline0"
  have p: "perm_src (generator ?s0) = (\<lambda>t n. [0..<n])"
    by (simp add: begin_training_baseline_def state_baseline0_def rng0_def)
  have z: "zero_layers (model (snd (enter_loop trainloader0 ?s0)))"
    using zero_layers_baseline0 by (simp add: begin_training_baseline_def)
  show ?thesis
    by (simp add: train_losses_baseline_def split_beta enter_loop_trainloader0[OF p]
        batch_loss_def batch_result_zero[OF z])
qed

lemma correct_samples_dropout_eval:
  "\<not> training m \<Longrightarrow> correct_samples forward_dropout m g ds = correct_samples call_baseline m g ds"
  by (simp add: correct_samples_def predicted_class_dropout_eval)

lemma flatten_input_batch0: "flatten_input batch0 = Inr [replicate 784 0, replicate 784 0]"
proof -
  have u: "[0..<2] = [0, Suc 0]" by (simp add: upt_rec)
  show ?thesis
    by (simp add: flatten_input_rows[OF wf_batch0(2) wf_batch0(1)] u) (simp add: batch0_def)
qed

lemma forward_baseline_batch0:
  assumes "zero_layers m"
  shows "forward_baseline m batch0 = Inr [replicate 10 (ln (1 / 10)), replicate 10 (ln (1 / 10))]"
  by (simp add: forward_baseline_rowwise flatten_input_batch0 row_ok_zero[OF assms]
      forward_row_zero[OF assms])

lemma wf_batch1: "wf_tensor batch1" "shape batch1 = 2 # [1, 28, 28]"
  by (simp_all add: batch1_def wf_tensor_def numel_def)

lemma flatten_input_batch1: "flatten_input batch1 = Inr [replicate 784 1, replicate 784 2]"
proof -
  have u: "[0..<2] = [0, Suc 0]" by (simp add: upt_rec)
  show ?thesis
    by (simp add: flatten_input_rows[OF wf_batch1(2) wf_batch1(1)] u) (simp add: batch1_def)
qed

subsection \<open>Witnesses\<close>

theorem forward_log_probabilities_witness:
  "wf_classifier (fst (Classifier rng0)) \<and> wf_classifier (fst (Classifier_dropout rng0)) \<and>
   wf_tensor batch0 \<and> shape batch0 = 2 # [1, 28, 28] \<and> (1::nat) \<le> 2 \<and>
   prod_list [1, 28, 28] = (784::nat) \<and>
   forward_baseline (fst (Classifier rng0)) batch0
     = Inr [replicate 10 (ln (1 / 10)), replicate 10 (ln (1 / 10))] \<and>
   (\<exists>out. forward_baseline (fst (Classifier rng0)) batch0 = Inr out \<and> length out = 2 \<and>
      list_all (\<lambda>row. length row = 10 \<and> sum_list (map exp row) = 1) out) \<and>
   (\<exists>out g'. forward_dropout (fst (Classifier_dropout rng0)) rng0 batch0 = Inr (out, g') \<and>
      length out = 2 \<and> list_all (\<lambda>row. length row = 10 \<and> sum_list (map exp row) = 1) out)"
proof -
  have h: "wf_classifier (fst (Classifier rng0))" "wf_classifier (fst (Classifier_dropout rng0))"
      "wf_tensor batch0" "shape batch0 = 2 # [1, 28, 28]" "(1::nat) \<le> 2"
      "prod_list [1, 28, 28] = (784::nat)"
    by (simp_all add: wf_Classifier wf_Classifier_dropout wf_batch0)
  have v: "forward_baseline (fst (Classifier rng0)) batch0
      = Inr [replicate 10 (ln (1 / 10)), replicate 10 (ln (1 / 10))]"
    by (rule forward_baseline_batch0) (simp add: zero_layers_Classifier rng0_def)
  have "(\<exists>out. forward_baseline (fst (Classifier rng0)) batch0 = Inr out \<and> length out = 2 \<and>
      list_all (\<lambda>row. length row = 10 \<and> sum_list (map exp row) = 1) out) \<and>
   (\<exists>out g'. forward_dropout (fst (Classifier_dropout rng0)) rng0 batch0 = Inr (out, g') \<and>
      length out = 2 \<and> list_all (\<lambda>row. length row = 10 \<and> sum_list (map exp row) = 1) out)"
    using forward_log_probabilities[OF h, of rng0] by (simp add: list_all_iff)
  with h v show ?thesis by blast
qed

theorem forward_flattens_input_witness:
  "shape batch1 = 2 # [1, 28, 28] \<and> prod_list [1, 28, 28] = (784::nat) \<and>
   wf_classifier (fst (Classifier rng0)) \<and> wf_classifier (fst (Classifier_dropout rng0)) \<and>
   wf_tensor batch1 \<and> (1::nat) \<le> 2 \<and>
   forward_baseline (fst (Classifier rng0)) batch1
     = forward_baseline (fst (Classifier rng0)) (batch1\<lparr>shape := [2, 784]\<rparr>) \<and>
   forward_dropout (fst (Classifier_dropout rng0)) rng0 batch1
     = forward_dropout (fst (Classifier_dropout rng0)) rng0 (batch1\<lparr>shape := [2, 784]\<rparr>) \<and>
   (\<exists>out. forward_baseline (fst (Classifier rng0)) batch1 = Inr out) \<and>
   (\<exists>out g'. forward_dropout (fst (Classifier_dropout rng0)) rng0 batch1 = Inr (out, g')) \<and>
   flatten_input batch1 = Inr [replicate 784 1, replicate 784 2] \<and>
   concat [replicate 784 1, replicate 784 2] = data batch1 \<and>
   forward_baseline (fst (Classifier rng0)) batch1
     = Inr [forward_row (fst (Classifier rng0)) (replicate 784 1),
            forward_row (fst (Classifier rng0)) (replicate 784 2)] \<and>
   (\<exists>out g'. forward_dropout (fst (Classifier_dropout rng0)) rng0 batch1 = Inr (out, g') \<and>
      length out = 2)"
proof -
  have h: "shape batch1 = 2 # [1, 28, 28]" "prod_list [1, 28, 28] = (784::nat)"
    by (simp_all add: wf_batch1)
  have w: "wf_classifier (fst (Classifier rng0))" "wf_classifier (fst (Classifier_dropout rng0))"
      "wf_tensor batch1" "(1::nat) \<le> 2"
    by (simp_all add: wf_Classifier wf_Classifier_dropout wf_batch1)
  note t = forward_flattens_input[OF h, of "fst (Classifier rng0)" "fst (Classifier_dropout rng0)"
      rng0]
  from t w obtain rows where
    r: "flatten_input batch1 = Inr rows" "concat rows = data batch1"
       "forward_baseline (fst (Classifier rng0)) batch1
          = Inr (map (forward_row (fst (Classifier rng0))) rows)"
       "\<exists>out g'. forward_dropout (fst (Classifier_dropout rng0)) rng0 batch1 = Inr (out, g') \<and>
          length out = 2"
    by blast
  from r(1) have rows: "rows = [replicate 784 1, replicate 784 2]"
    by (simp add: flatten_input_batch1)
  from t w have a: "forward_baseline (fst (Classifier rng0)) batch1
     = forward_baseline (fst (Classifier rng0)) (batch1\<lparr>shape := [2, 784]\<rparr>)"
    "forward_dropout (fst (Classifier_dropout rng0)) rng0 batch1
     = forward_dropout (fst (Classifier_dropout rng0)) rng0 (batch1\<lparr>shape := [2, 784]\<rparr>)"
    "\<exists>out. forward_baseline (fst (Classifier rng0)) batch1 = Inr out"
    "\<exists>out g'. forward_dropout (fst (Classifier_dropout rng0)) rng0 batch1 = Inr (out, g')"
    by blast+
  from r rows have c: "flatten_input batch1 = Inr [replicate 784 1, replicate 784 2]"
    "concat [replicate 784 1, replicate 784 2] = data batch1"
    "forward_baseline (fst (Classifier rng0)) batch1
     = Inr [forward_row (fst (Classifier rng0)) (replicate 784 1),
            forward_row (fst (Classifier rng0)) (replicate 784 2)]"
    by simp_all
  from h w a c r(4) show ?thesis by blast
qed

theorem eval_forward_deterministic_witness:
  "\<not> training (eval_mode (fst (Classifier_dropout rng0))) \<and>
   map_sum id fst (forward_dropout (eval_mode (fst (Classifier_dropout rng0))) rng0 batch0)
   = map_sum id fst (forward_dropout (eval_mode (fst (Classifier_dropout rng0)))
       (rng0\<lparr>keep_src := \<lambda>t i j. False\<rparr>) batch0) \<and>
   map_sum id fst (call_baseline (fst (Classifier rng0)) rng0 batch0)
   = map_sum id fst (call_baseline (fst (Classifier rng0)) (rng0\<lparr>keep_src := \<lambda>t i j. False\<rparr>) batch0)"
proof -
  have h: "\<not> training (eval_mode (fst (Classifier_dropout rng0)))"
    by (simp add: eval_mode_def)
  from eval_forward_deterministic[OF h, of rng0 batch0 "rng0\<lparr>keep_src := \<lambda>t i j. False\<rparr>"
      "fst (Classifier rng0)"] h
  show ?thesis by blast
qed

theorem mode_during_passes_witness:
  "(\<exists>st. st \<in> set (training_states_dropout step0 trainloader0 state_dropout0) \<and>
         training (model st)) \<and>
   (\<exists>st. st \<in> set (validation_states_dropout testloader0 state_dropout0) \<and>
         \<not> training (model st)) \<and>
   (\<exists>st. st \<in> set (training_states_baseline step0 trainloader0 state_baseline0) \<and>
         training (model st) = training (model state_baseline0)) \<and>
   (\<exists>st. st \<in> set (validation_states_baseline testloader0 state_baseline0) \<and>
         training (model st) = training (model state_baseline0))"
proof -
  have gd: "rng_ok (generator state_dropout0)" and gb: "rng_ok (generator state_baseline0)"
    using state_ok_dropout0 state_ok_baseline0 by (simp_all add: state_ok_def)
  have 1: "snd (enter_loop trainloader0 (begin_training_dropout state_dropout0))
      \<in> set (training_states_dropout step0 trainloader0 state_dropout0)"
    using gd by (simp add: training_states_dropout_def split_beta pre_states_entry
        enter_loop_nonempty len_loader0 begin_training_dropout_def)
  have 2: "snd (enter_loop testloader0 (begin_validation_dropout state_dropout0))
      \<in> set (validation_states_dropout testloader0 state_dropout0)"
    using gd by (simp add: validation_states_dropout_def split_beta pre_states_entry
        enter_loop_nonempty len_loader0 begin_validation_dropout_def)
  have 3: "snd (enter_loop trainloader0 (begin_training_baseline state_baseline0))
      \<in> set (training_states_baseline step0 trainloader0 state_baseline0)"
    using gb by (simp add: training_states_baseline_def split_beta pre_states_entry
        enter_loop_nonempty len_loader0 begin_training_baseline_def)
  have 4: "snd (enter_loop testloader0 (begin_validation_baseline state_baseline0))
      \<in> set (validation_states_baseline testloader0 state_baseline0)"
    using gb by (simp add: validation_states_baseline_def split_beta pre_states_entry
        enter_loop_nonempty len_loader0 begin_validation_baseline_def)
  from mode_during_passes[of step0 trainloader0 state_dropout0 testloader0 step0 state_baseline0
      "fst (Classifier rng0)" batch0]
    1 2 3 4
  show ?thesis by blast
qed

text \<open>
  Against claim C1 as it is stated: in the small run of the baseline loop the training pass
  completes, and the body of the validation loop is then entered with the model in
  training mode.
\<close>
theorem baseline_validation_in_training_mode:
  "\<exists>s1 st. training_pass_baseline step0 trainloader0 state_baseline0 = Inr (Normal s1) \<and>
           st \<in> set (validation_states_baseline testloader0 s1) \<and> training (model st)"
proof -
  from loaders_ok0 have l: "wf_dataset (dataset trainloader0)" "0 < batch_size trainloader0"
    by (simp_all add: loaders_ok_def)
  from training_pass_baseline_ok[OF step0_keeps_shapes l state_ok_baseline0] obtain s1 where
    s1: "training_pass_baseline step0 trainloader0 state_baseline0 = Inr (Normal s1)"
        "state_ok s1" by blast
  from training_pass_baseline_mode[OF s1(1)] have tr: "training (model s1)"
    by (simp add: state_baseline0_def)
  let ?st = "snd (enter_loop testloader0 (begin_validation_baseline s1))"
  have "?st \<in> set (validation_states_baseline testloader0 s1)"
    using s1(2) by (simp add: validation_states_baseline_def split_beta pre_states_entry
        enter_loop_nonempty len_loader0 begin_validation_baseline_def state_ok_def)
  moreover have "training (model ?st)"
    using tr by (simp add: begin_validation_baseline_def)
  ultimately show ?thesis using s1(1) by blast
qed

theorem validation_keeps_parameters_witness:
  "(\<exists>s'. validation_pass_baseline testloader0 state_baseline0 = Inr (Normal s') \<and>
          parameters (model s') = parameters (model state_baseline0)) \<and>
   (\<exists>s'. validation_pass_dropout testloader0 state_dropout0 = Inr (Normal s') \<and>
          parameters (model s') = parameters (model state_dropout0)) \<and>
   (\<exists>s'. validate_baseline trainloader0 testloader0 1 0 state_baseline0 = Inr s' \<and>
          parameters (model s') = parameters (model state_baseline0)) \<and>
   (\<exists>s'. validate_dropout trainloader0 testloader0 1 0 state_dropout0 = Inr s' \<and>
          parameters (model s') = parameters (model state_dropout0))"
proof -
  from loaders_ok0 have l: "wf_dataset (dataset testloader0)" "0 < batch_size testloader0"
    by (simp_all add: loaders_ok_def)
  from validation_pass_baseline_ok[OF l state_ok_baseline0] obtain sb where
    sb: "validation_pass_baseline testloader0 state_baseline0 = Inr (Normal sb)" "state_ok sb"
    by blast
  from validation_pass_dropout_ok[OF l state_ok_dropout0] obtain sd where
    sd: "validation_pass_dropout testloader0 state_dropout0 = Inr (Normal sd)" "state_ok sd"
    by blast
  from report_epoch_ok[OF loaders_ok0 sb(2), of 1 0] obtain sb' where
    "report_epoch trainloader0 testloader0 1 0 sb = Inr sb'" by blast
  with sb(1) have vb: "validate_baseline trainloader0 testloader0 1 0 state_baseline0 = Inr sb'"
    by (simp add: validate_baseline_passes)
  from report_epoch_ok[OF loaders_ok0 sd(2), of 1 0] obtain sd' where
    "report_epoch trainloader0 testloader0 1 0 sd = Inr sd'" by blast
  with sd(1) have vd: "validate_dropout trainloader0 testloader0 1 0 state_dropout0 = Inr sd'"
    by (simp add: validate_dropout_passes)
  from validation_keeps_parameters[of testloader0 state_baseline0 sb state_dropout0 sd
      trainloader0 1 0 sb' sd'] sb(1) sd(1) vb vd
  show ?thesis by blast
qed

theorem epoch_metrics_witness:
  "rng_ok (generator state_baseline0) \<and> rng_ok (generator state_dropout0) \<and>
   list_all (\<lambda>t. wf_tensor (image t)) (dataset testloader0) \<and>
   (\<exists>s'. epoch_baseline step0 trainloader0 testloader0 1 state_baseline0 0 = Inr s' \<and>
      running_loss s' = sum_list (train_losses_baseline step0 trainloader0 state_baseline0)
                        / real (len_loader trainloader0) \<and>
      running_loss s' = ln 10 \<and>
      accuracy s' = real (length (correct_samples call_baseline (model s') rng0
                                    (dataset testloader0)))
                    / real (length (dataset testloader0)) \<and>
      accuracy s' = 1 / 2 \<and> 0 \<le> accuracy s' \<and> accuracy s' \<le> 1) \<and>
   (\<exists>s'. epoch_dropout step0 trainloader0 testloader0 1 state_dropout0 0 = Inr s' \<and>
      running_loss s' = sum_list (train_losses_dropout step0 trainloader0 state_dropout0)
                        / real (len_loader trainloader0) \<and>
      accuracy s' = real (length (correct_samples forward_dropout (model s') rng0
                                    (dataset testloader0)))
                    / real (length (dataset testloader0)) \<and>
      accuracy s' = 1 / 2 \<and> 0 \<le> accuracy s' \<and> accuracy s' \<le> 1)"
proof -
  have h: "rng_ok (generator state_baseline0)" "rng_ok (generator state_dropout0)"
      "list_all (\<lambda>t. wf_tensor (image t)) (dataset testloader0)"
    using state_ok_baseline0 state_ok_dropout0 wf_images_testloader0
    by (simp_all add: state_ok_def)
  from epoch_baseline_ok[OF step0_keeps_shapes loaders_ok0 state_ok_baseline0, of 1 0]
  obtain sb where sb: "epoch_baseline step0 trainloader0 testloader0 1 state_baseline0 0 = Inr sb"
    by blast
  from epoch_dropout_ok[OF step0_keeps_shapes loaders_ok0 state_ok_dropout0, of 1 0]
  obtain sd where sd: "epoch_dropout step0 trainloader0 testloader0 1 state_dropout0 0 = Inr sd"
    by blast
  note m = epoch_metrics[OF h, of step0 trainloader0 1 0 sb rng0 step0 sd]
  have n: "length (dataset testloader0) = 2"
    by (simp add: testloader0_def DataLoader_def)
  have zb: "zero_layers (model sb)"
    using epoch_baseline_step0_model[OF sb] zero_layers_baseline0 by simp
  have zd: "zero_layers (model sd)"
    using epoch_dropout_step0_model[OF sd] zero_layers_dropout0 by simp
  have ed: "\<not> training (model sd)"
    using epoch_dropout_step0_model[OF sd] by (simp add: eval_mode_def)
  have cb: "correct_samples call_baseline (model sb) rng0 (dataset testloader0) = [0]"
    by (rule correct_samples_zero[OF zb])
  have cd: "correct_samples forward_dropout (model sd) rng0 (dataset testloader0) = [0]"
    by (simp add: correct_samples_dropout_eval[OF ed] correct_samples_zero[OF zd])
  from m sb have b1: "running_loss sb
      = sum_list (train_losses_baseline step0 trainloader0 state_baseline0)
        / real (len_loader trainloader0)"
    and b2: "accuracy sb = real (length (correct_samples call_baseline (model sb) rng0
                                    (dataset testloader0)))
                    / real (length (dataset testloader0))"
    and b3: "0 \<le> accuracy sb" "accuracy sb \<le> 1"
    by blast+
  from m sd have d1: "running_loss sd
      = sum_list (train_losses_dropout step0 trainloader0 state_dropout0)
        / real (len_loader trainloader0)"
    and d2: "accuracy sd = real (length (correct_samples forward_dropout (model sd) rng0
                                    (dataset testloader0)))
                    / real (length (dataset testloader0))"
    and d3: "0 \<le> accuracy sd" "accuracy sd \<le> 1"
    by blast+
  have b4: "running_loss sb = ln 10"
    using b1 by (simp add: train_losses_baseline0 len_loader0)
  have b5: "accuracy sb = 1 / 2" using b2 by (simp add: cb n)
  have d5: "accuracy sd = 1 / 2" using d2 by (simp add: cd n)
  from h sb sd b1 b2 b3 b4 b5 d1 d2 d3 d5 show ?thesis by blast
qed

theorem training_loss_nonneg_witness:
  "(\<exists>s'. epoch_baseline step0 trainloader0 testloader0 1 state_baseline0 0 = Inr s' \<and>
      stdout s' \<noteq> [] \<and> training_loss (last (stdout s')) = ln 10 \<and>
      0 \<le> training_loss (last (stdout s'))) \<and>
   (\<exists>s'. epoch_dropout step0 trainloader0 testloader0 1 state_dropout0 0 = Inr s' \<and>
      stdout s' \<noteq> [] \<and> 0 \<le> training_loss (last (stdout s')))"
proof -
  from epoch_baseline_ok[OF step0_keeps_shapes loaders_ok0 state_ok_baseline0, of 1 0]
  obtain sb where sb: "epoch_baseline step0 trainloader0 testloader0 1 state_baseline0 0 = Inr sb"
    by blast
  from epoch_dropout_ok[OF step0_keeps_shapes loaders_ok0 state_ok_dropout0, of 1 0]
  obtain sd where sd: "epoch_dropout step0 trainloader0 testloader0 1 state_dropout0 0 = Inr sd"
    by blast
  have v: "training_loss (last (stdout sb)) = ln 10"
    using epoch_baseline_training_loss[OF sb]
    by (simp add: train_losses_baseline0 len_loader0)
  from training_loss_nonneg[of step0 trainloader0 testloader0 1 state_baseline0 0 sb
      step0 state_dropout0 sd] sb sd v
  show ?thesis by blast
qed

lemma top1_example: "top1 [1, 3, 3, 2] = (3, 1)"
  by (simp add: top1_def)

theorem top1_first_argmax_witness:
  "[1, 3, 3, 2 :: real] \<noteq> [] \<and> top1 [1, 3, 3, 2] = (3, 1) \<and>
   snd (top1 [1, 3, 3, 2]) < length [1, 3, 3, 2 :: real] \<and>
   [1, 3, 3, 2] ! snd (top1 [1, 3, 3, 2]) = fst (top1 [1, 3, 3, 2]) \<and>
   (\<exists>s'. valid_body call_baseline state_baseline0 (batch0, [0, 7]) = Inr (Normal s') \<and>
      (\<exists>log_ps g'. call_baseline (model state_baseline0) (generator state_baseline0) batch0
                     = Inr (log_ps, g') \<and>
         accuracy s' = accuracy state_baseline0 +
           real (length (filter (\<lambda>(r, t). snd (top1 r) = t) (zip log_ps [0, 7])))))"
proof -
  have h: "[1, 3, 3, 2 :: real] \<noteq> []" by simp
  have l: "length [0, 7 :: nat] = 2" "list_all (\<lambda>t. t < 10) [0, 7 :: nat]" "(1::nat) \<le> 2"
    by simp_all
  from valid_body_ok[OF fwd_total_baseline state_ok_baseline0 wf_batch0 l(3,1,2)] obtain s' where
    v: "valid_body call_baseline state_baseline0 (batch0, [0, 7]) = Inr (Normal s')" by blast
  from top1_first_argmax[of "[1, 3, 3, 2]" call_baseline state_baseline0 batch0 "[0, 7]" s']
    h v top1_example
  show ?thesis by blast
qed

subsection \<open>The whole run\<close>

lemma epoch_baseline_stdout:
  assumes "epoch_baseline step trl tel n s e = Inr s'"
  shows "\<exists>r. stdout s' = stdout s @ [r] \<and> 0 \<le> training_loss r"
proof -
  from epoch_baseline_Inr[OF assms] obtain s1 s2 where
    p: "training_pass_baseline step trl s = Inr (Normal s1)"
       "validation_pass_baseline tel s1 = Inr (Normal s2)"
       "report_epoch trl tel n e s2 = Inr s'" by blast
  from report_epoch_Inr[OF p(3)] training_pass_baseline_metrics[OF p(1)]
    validation_pass_baseline_frame[OF p(2)]
    sum_list_nonneg_all[OF train_losses_baseline_nonneg[of step trl s]]
  show ?thesis by simp
qed

lemma epoch_dropout_stdout:
  assumes "epoch_dropout step trl tel n s e = Inr s'"
  shows "\<exists>r. stdout s' = stdout s @ [r] \<and> 0 \<le> training_loss r"
proof -
  from epoch_dropout_Inr[OF assms] obtain s1 s2 where
    p: "training_pass_dropout step trl s = Inr (Normal s1)"
       "validation_pass_dropout tel s1 = Inr (Normal s2)"
       "report_epoch trl tel n e s2 = Inr s'" by blast
  from report_epoch_Inr[OF p(3)] training_pass_dropout_metrics[OF p(1)]
    validation_pass_dropout_frame[OF p(2)]
    sum_list_nonneg_all[OF train_losses_dropout_nonneg[of step trl s]]
  show ?thesis by simp
qed

lemma train_baseline_reports:
  assumes "train_baseline step trl tel n s = Inr (Normal s')"
    and "list_all (\<lambda>r. 0 \<le> training_loss r) (stdout s)"
  shows "list_all (\<lambda>r. 0 \<le> training_loss r) (stdout s')"
proof (rule for_stmt_invariant[where P = "\<lambda>u. list_all (\<lambda>r. 0 \<le> training_loss r) (stdout u)",
      OF assms(1)[unfolded train_baseline_def] assms(2)])
  fix u e u'
  assume a: "list_all (\<lambda>r. 0 \<le> training_loss r) (stdout u)"
    "and_then (epoch_baseline step trl tel n u e) (\<lambda>s'. Inr (Normal s')) = Inr (Normal u')"
  from a(2) have "epoch_baseline step trl tel n u e = Inr u'"
    by (auto simp add: and_then_eq_Inr)
  from epoch_baseline_stdout[OF this] a(1)
  show "list_all (\<lambda>r. 0 \<le> training_loss r) (stdout u')" by auto
qed

lemma train_dropout_reports:
  assumes "train_dropout step trl tel n s = Inr (Normal s')"
    and "list_all (\<lambda>r. 0 \<le> training_loss r) (stdout s)"
  shows "list_all (\<lambda>r. 0 \<le> training_loss r) (stdout s')"
proof (rule for_stmt_invariant[where P = "\<lambda>u. list_all (\<lambda>r. 0 \<le> training_loss r) (stdout u)",
      OF assms(1)[unfolded train_dropout_def] assms(2)])
  fix u e u'
  assume a: "list_all (\<lambda>r. 0 \<le> training_loss r) (stdout u)"
    "and_then (epoch_dropout step trl tel n u e) (\<lambda>s'. Inr (Normal s')) = Inr (Normal u')"
  from a(2) have "epoch_dropout step trl tel n u e = Inr u'"
    by (auto simp add: and_then_eq_Inr)
  from epoch_dropout_stdout[OF this] a(1)
  show "list_all (\<lambda>r. 0 \<le> training_loss r) (stdout u')" by auto
qed

lemma train_baseline_ok:
  assumes "step_keeps_shapes step" "loaders_ok trl tel" "state_ok s"
  shows "\<exists>s'. train_baseline step trl tel n s = Inr (Normal s') \<and> state_ok s'"
  unfolding train_baseline_def
proof (rule for_stmt_success[where P = state_ok and Q = "\<lambda>e. True"])
  show "state_ok s" by (rule assms(3))
  show "list_all (\<lambda>e. True) [0..<n]" by (simp add: list_all_iff)
  show "\<exists>s'. and_then (epoch_baseline step trl tel n u e) (\<lambda>s'. Inr (Normal s')) = Inr (Normal s')
          \<and> state_ok s'" if "state_ok u" for u e
    using epoch_baseline_ok[OF assms(1,2) that, of n e] by auto
qed

lemma train_dropout_ok:
  assumes "step_keeps_shapes step" "loaders_ok trl tel" "state_ok s"
  shows "\<exists>s'. train_dropout step trl tel n s = Inr (Normal s') \<and> state_ok s'"
  unfolding train_dropout_def
proof (rule for_stmt_success[where P = state_ok and Q = "\<lambda>e. True"])
  show "state_ok s" by (rule assms(3))
  show "list_all (\<lambda>e. True) [0..<n]" by (simp add: list_all_iff)
  show "\<exists>s'. and_then (epoch_dropout step trl tel n u e) (\<lambda>s'. Inr (Normal s')) = Inr (Normal s')
          \<and> state_ok s'" if "state_ok u" for u e
    using epoch_dropout_ok[OF assms(1,2) that, of n e] by auto
qed

text \<open>
  Both cells run to the end on well-formed loaders, with a sound generator and an
  optimizer that keeps the shapes of the parameters, and every line they print
  reports a training loss that is not negative.
\<close>

lemma cell_13_runs:
  assumes "step_keeps_shapes step" "loaders_ok trl tel" "rng_ok g"
  shows "\<exists>s'. cell_13 adam step trl tel g = Inr (Normal s') \<and>
           list_all (\<lambda>r. 0 \<le> training_loss r) (stdout s')"
proof -
  let ?s = "\<lparr>model = fst (Classifier g), optimizer = adam (parameters (fst (Classifier g))),
             generator = snd (Classifier g), running_loss = 0, testing_loss = 0, accuracy = 0,
             stdout = []\<rparr>"
  have "state_ok ?s" using assms(3) by (simp add: state_ok_def wf_Classifier)
  from train_baseline_ok[OF assms(1,2) this, of 30] obtain s' where
    r: "train_baseline step trl tel 30 ?s = Inr (Normal s')" by blast
  from train_baseline_reports[OF r] have "list_all (\<lambda>r. 0 \<le> training_loss r) (stdout s')"
    by simp
  with r show ?thesis by (simp add: cell_13_def split_beta)
qed

lemma cell_17_runs:
  assumes "step_keeps_shapes step" "loaders_ok trl tel" "rng_ok g"
  shows "\<exists>s'. cell_17 adam step trl tel g = Inr (Normal s') \<and>
           list_all (\<lambda>r. 0 \<le> training_loss r) (stdout s')"
proof -
  let ?s = "\<lparr>model = fst (Classifier_dropout g),
             optimizer = adam (parameters (fst (Classifier_dropout g))),
             generator = snd (Classifier_dropout g), running_loss = 0, testing_loss = 0,
             accuracy = 0, stdout = []\<rparr>"
  have "state_ok ?s" using assms(3) by (simp add: state_ok_def wf_Classifier_dropout)
  from train_dropout_ok[OF assms(1,2) this, of 30] obtain s' where
    r: "train_dropout step trl tel 30 ?s = Inr (Normal s')" by blast
  from train_dropout_reports[OF r] have "list_all (\<lambda>r. 0 \<le> training_loss r) (stdout s')"
    by simp
  with r show ?thesis by (simp add: cell_17_def split_beta)
qed

end
